theory Spec2Isabelle
  imports Complex_Main
begin

section \<open>The export task of internal/manager/task\_export.go\<close>

text \<open>
  The theory embeds \<^verbatim>\<open>src/internal/manager/task_export.go\<close>: the construction of an
  export task from the caller's input, the orchestration in \<^verbatim>\<open>Start\<close>, the two
  dependency pre-passes, the seven export pools with their per-item workers, and the
  packaging of a partial export into a zip archive.

  Everything the file consumes from other packages (the repository readers, the JSON
  builders of the entity packages, the file system, the transaction runner, the download
  store) is absent from the sources at hand. Those collaborators are parameters of the
  model: records of functions, one per reader, whose results are the values the Go calls
  return. A Go call returning \<^verbatim>\<open>(value, error)\<close> is a function into \<open>error + value\<close>; a
  call returning only \<^verbatim>\<open>error\<close> is a function into \<open>error option\<close>.
\<close>

subsection \<open>Errors, panics, log lines\<close>

datatype error = Err string

text \<open>A nil-pointer dereference panics; a panic in any goroutine ends the process.\<close>

datatype failure = NilDeref

datatype level = LDebug | LInfo | LProgress | LWarn | LError

text \<open>
  The trace records every logger call by level and format string (the formatted
  arguments are left out), and the entry and exit of the two pre-pass functions, which
  log nothing of their own on the normal path.
\<close>

datatype event = Log level string | Enter string | Leave string

subsection \<open>Task input and selectors\<close>

datatype HashAlgorithm = MD5 | OSHASH

record ExportObjectTypeInput =
  Ids :: "string list"
  All :: "bool option"

record ExportObjectsInput =
  Scenes :: "ExportObjectTypeInput option"
  Images :: "ExportObjectTypeInput option"
  Studios :: "ExportObjectTypeInput option"
  Performers :: "ExportObjectTypeInput option"
  Tags :: "ExportObjectTypeInput option"
  Movies :: "ExportObjectTypeInput option"
  Galleries :: "ExportObjectTypeInput option"
  IncludeDependencies :: "bool option"

record exportSpec =
  IDs :: "int list"
  all :: bool

text \<open>
  \<^verbatim>\<open>strconv.Atoi\<close> of the Go standard library: an optional sign, then one or more decimal
  digits, the value within the range of a 64-bit \<^verbatim>\<open>int\<close>.
\<close>

definition is_digit :: "char \<Rightarrow> bool" where
  "is_digit c = (48 \<le> (of_char c :: nat) \<and> (of_char c :: nat) \<le> 57)"

definition digits_val :: "string \<Rightarrow> nat" where
  "digits_val ds = foldl (\<lambda>a c. 10 * a + ((of_char c :: nat) - 48)) 0 ds"

definition Atoi :: "string \<Rightarrow> int option" where
  "Atoi s =
     (let neg = (s \<noteq> [] \<and> hd s = CHR ''-'');
          ds = (if s \<noteq> [] \<and> (hd s = CHR ''-'' \<or> hd s = CHR ''+'') then tl s else s)
      in if ds = [] \<or> \<not> list_all is_digit ds then None
         else let v = (if neg then - int (digits_val ds) else int (digits_val ds))
              in if - (2 ^ 63) \<le> v \<and> v < 2 ^ 63 then Some v else None)"

text \<open>
  \<^verbatim>\<open>newExportSpec\<close>. The helper \<^verbatim>\<open>stringslice.StringSliceToIntSlice\<close> is not among the
  sources; it is the parameter \<open>conv\<close>, returning the Go pair of the converted ids and
  the conversion error. The source drops the error (\<^verbatim>\<open>ids, _ := ...\<close>) and keeps the ids.
\<close>

definition newExportSpec ::
  "(string list \<Rightarrow> int list \<times> error option) \<Rightarrow> ExportObjectTypeInput option \<Rightarrow> exportSpec" where
  "newExportSpec conv input =
     (case input of
        None \<Rightarrow> \<lparr>IDs = [], all = False\<rparr>
      | Some inp \<Rightarrow>
          (let ids = fst (conv (Ids inp));
               ret = \<lparr>IDs = ids, all = False\<rparr>
           in case All inp of None \<Rightarrow> ret | Some b \<Rightarrow> ret\<lparr>all := b\<rparr>))"

text \<open>
  The contract assumed of the absent helper where the specification speaks of strings
  that do not parse: every id it returns is the \<^verbatim>\<open>Atoi\<close> value of one of the strings it was given.
\<close>

definition parses_only :: "(string list \<Rightarrow> int list \<times> error option) \<Rightarrow> bool" where
  "parses_only conv = (\<forall>ss. \<forall>i \<in> set (fst (conv ss)). \<exists>s \<in> set ss. Atoi s = Some i)"

text \<open>
  One implementation that meets the contract, used to run the model on concrete input:
  all strings are converted in order, and the first failure returns no ids and an error.
\<close>

fun atoi_all :: "string list \<Rightarrow> int list option" where
  "atoi_all [] = Some []"
| "atoi_all (s # ss) =
     (case Atoi s of
        None \<Rightarrow> None
      | Some i \<Rightarrow> (case atoi_all ss of None \<Rightarrow> None | Some js \<Rightarrow> Some (i # js)))"

definition conv_strict :: "string list \<Rightarrow> int list \<times> error option" where
  "conv_strict ss =
     (case atoi_all ss of None \<Rightarrow> ([], Some (Err ''converting to int'')) | Some js \<Rightarrow> (js, None))"

subsection \<open>Entities and their JSON documents\<close>

text \<open>
  The entity structs of \<^verbatim>\<open>pkg/models\<close> and the document structs of
  \<^verbatim>\<open>pkg/models/jsonschema\<close> are not among the sources. Each record below carries the
  fields that \<^verbatim>\<open>task_export.go\<close> reads or assigns; the rest of a document is the opaque
  \<open>base\<close> text its builder returned. Time stamps and the per-kind media fields of a
  file are gathered in one opaque field.
\<close>

record Scene =
  Scene_ID :: int
  Scene_StudioID :: "int option"
  Scene_Path :: string
  Scene_OSHash :: string
  Scene_ResumeTime :: real
  Scene_PlayCount :: int
  Scene_PlayDuration :: real

record Image =
  Image_ID :: int
  Image_StudioID :: "int option"
  Image_Path :: string
  Image_Checksum :: string

record Gallery =
  Gallery_ID :: int
  Gallery_StudioID :: "int option"
  Gallery_FolderID :: "int option"
  Gallery_Path :: string
  Gallery_Title :: string

record Performer =
  Performer_ID :: int
  Performer_Name :: string

record Studio =
  Studio_ID :: int
  Studio_Name :: string

record Tag =
  Tag_ID :: int
  Tag_Name :: string

record Movie =
  Movie_ID :: int
  Movie_Name :: string
  Movie_StudioID :: "int option"

datatype FileKind = KVideo | KImage | KOther

record File =
  File_kind :: FileKind
  File_Path :: string
  File_ZipFile :: "string option"
  File_Size :: int
  File_Fingerprints :: "(string \<times> string) list"
  File_media :: string

record Folder =
  Folder_Path :: string
  Folder_ZipFile :: "string option"

datatype DirEntryType = DirEntryTypeFolder | DirEntryTypeFile | DirEntryTypeVideo | DirEntryTypeImage

record DirEntry =
  de_Type :: DirEntryType
  de_Path :: string
  de_ZipFile :: string
  de_Size :: int
  de_Fingerprints :: "(string \<times> string) list"
  de_media :: string

record SceneJSON =
  sj_base :: string
  sj_Studio :: string
  sj_Galleries :: "string list"
  sj_ResumeTime :: real
  sj_PlayCount :: int
  sj_PlayDuration :: real
  sj_Performers :: "string list"
  sj_Tags :: "string list"
  sj_Markers :: string
  sj_Movies :: string

record ImageJSON =
  ij_base :: string
  ij_Studio :: string
  ij_Galleries :: "string list"
  ij_Performers :: "string list"
  ij_Tags :: "string list"

record GalleryJSON =
  gj_base :: string
  gj_Studio :: string
  gj_Performers :: "string list"
  gj_Chapters :: string
  gj_Tags :: "string list"

record PerformerJSON =
  pj_base :: string
  pj_Tags :: "string list"

datatype document =
    DocScene SceneJSON
  | DocImage ImageJSON
  | DocGallery GalleryJSON
  | DocPerformer PerformerJSON
  | DocStudio string
  | DocTag string
  | DocMovie string
  | DocDirEntry DirEntry

subsection \<open>The collaborators\<close>

record SceneEnv =
  Scene_All :: "error + Scene list"
  Scene_FindMany :: "int list \<Rightarrow> error + Scene list"
  Scene_FindByMovieID :: "int \<Rightarrow> error + Scene list"
  Scene_LoadRelationships :: "Scene \<Rightarrow> error option"
  Scene_Files :: "Scene \<Rightarrow> File list"
  scene_ToBasicJSON :: "Scene \<Rightarrow> error + SceneJSON"
  scene_GetStudioName :: "Scene \<Rightarrow> error + string"
  scene_GetTagNames :: "Scene \<Rightarrow> error + string list"
  scene_GetSceneMarkersJSON :: "Scene \<Rightarrow> error + string"
  scene_GetSceneMoviesJSON :: "Scene \<Rightarrow> error + string"
  scene_GetDependentTagIDs :: "Scene \<Rightarrow> error + int list"
  scene_GetDependentMovieIDs :: "Scene \<Rightarrow> error + int list"
  SceneJSON_Filename :: "SceneJSON \<Rightarrow> int \<Rightarrow> string \<Rightarrow> string \<Rightarrow> string"

record ImageEnv =
  Image_All :: "error + Image list"
  Image_FindMany :: "int list \<Rightarrow> error + Image list"
  Image_FindByGalleryID :: "int \<Rightarrow> error + Image list"
  Image_LoadFiles :: "Image \<Rightarrow> error option"
  Image_LoadURLs :: "Image \<Rightarrow> error option"
  Image_Files :: "Image \<Rightarrow> File list"
  image_ToBasicJSON :: "Image \<Rightarrow> ImageJSON"
  image_GetStudioName :: "Image \<Rightarrow> error + string"
  ImageJSON_Filename :: "ImageJSON \<Rightarrow> string \<Rightarrow> string \<Rightarrow> string"

record GalleryEnv =
  Gallery_All :: "error + Gallery list"
  Gallery_FindMany :: "int list \<Rightarrow> error + Gallery list"
  Gallery_FindBySceneID :: "int \<Rightarrow> error + Gallery list"
  Gallery_FindByImageID :: "int \<Rightarrow> error + Gallery list"
  Gallery_LoadFiles :: "Gallery \<Rightarrow> error option"
  Gallery_Files :: "Gallery \<Rightarrow> File list"
  Folder_Find :: "int \<Rightarrow> error + Folder option"
  gallery_ToBasicJSON :: "Gallery \<Rightarrow> error + GalleryJSON"
  gallery_GetStudioName :: "Gallery \<Rightarrow> error + string"
  gallery_GetGalleryChaptersJSON :: "Gallery \<Rightarrow> error + string"
  gallery_GetRefs :: "Gallery list \<Rightarrow> string list"
  GalleryJSON_Filename :: "GalleryJSON \<Rightarrow> string \<Rightarrow> string \<Rightarrow> string"

record PerformerEnv =
  Performer_All :: "error + Performer list"
  Performer_FindMany :: "int list \<Rightarrow> error + Performer list"
  Performer_FindBySceneID :: "int \<Rightarrow> error + Performer list"
  Performer_FindByImageID :: "int \<Rightarrow> error + Performer list"
  Performer_FindByGalleryID :: "int \<Rightarrow> error + Performer list"
  performer_ToJSON :: "Performer \<Rightarrow> error + PerformerJSON"
  PerformerJSON_Filename :: "PerformerJSON \<Rightarrow> string"

record StudioEnv =
  Studio_All :: "error + Studio list"
  Studio_FindMany :: "int list \<Rightarrow> error + Studio list"
  studio_ToJSON :: "Studio \<Rightarrow> error + string"
  StudioJSON_Filename :: "string \<Rightarrow> string"

record TagEnv =
  Tag_All :: "error + Tag list"
  Tag_FindMany :: "int list \<Rightarrow> error + Tag list"
  Tag_FindByImageID :: "int \<Rightarrow> error + Tag list"
  Tag_FindByGalleryID :: "int \<Rightarrow> error + Tag list"
  Tag_FindByPerformerID :: "int \<Rightarrow> error + Tag list"
  tag_ToJSON :: "Tag \<Rightarrow> error + string"
  TagJSON_Filename :: "string \<Rightarrow> string"

record MovieEnv =
  Movie_All :: "error + Movie list"
  Movie_FindMany :: "int list \<Rightarrow> error + Movie list"
  movie_ToJSON :: "Movie \<Rightarrow> error + string"
  MovieJSON_Filename :: "string \<Rightarrow> string"

text \<open>
  The host: configuration, temporary directories, the document writer's and the
  archiver's I/O failures, the transaction runner's failures, the download store.
\<close>

datatype jdir = DTags | DGalleries | DPerformers | DStudios | DMovies | DScenes | DImages | DFiles

record Sys =
  MetadataPath :: string
  TempDir :: "error + string"
  RemoveDir_err :: "error option"
  txn_begin_err :: "error option"
  txn_commit_err :: "error option"
  save_err :: "jdir \<Rightarrow> string \<Rightarrow> error option"
  DirEntry_Filename :: "DirEntry \<Rightarrow> string"
  EnsureDir_err :: "error option"
  CreateTemp :: "error + string"
  walk_err :: "jdir \<Rightarrow> string \<Rightarrow> error option"
  zip_Create_err :: "string \<Rightarrow> error option"
  Open_err :: "jdir \<Rightarrow> string \<Rightarrow> error option"
  Copy_err :: "jdir \<Rightarrow> string \<Rightarrow> error option"
  RegisterFile :: "string \<Rightarrow> error + string"

record Repository =
  rScene :: SceneEnv
  rImage :: ImageEnv
  rGallery :: GalleryEnv
  rPerformer :: PerformerEnv
  rStudio :: StudioEnv
  rTag :: TagEnv
  rMovie :: MovieEnv
  rSys :: Sys

subsection \<open>Paths and the output tree\<close>

text \<open>
  \<^verbatim>\<open>filepath.Join\<close>, \<^verbatim>\<open>filepath.Base\<close> and \<^verbatim>\<open>filepath.ToSlash\<close> of the Go standard library,
  on a host whose separator is the slash, for paths that are already clean.
\<close>

definition Join :: "string \<Rightarrow> string \<Rightarrow> string" where
  "Join a b = (if a = [] then b else if b = [] then a else a @ ''/'' @ b)"

definition Base :: "string \<Rightarrow> string" where
  "Base p =
     (let q = rev (dropWhile (\<lambda>c. c = CHR ''/'') (rev p))
      in if p = [] then ''.''
         else if q = [] then ''/''
         else rev (takeWhile (\<lambda>c. c \<noteq> CHR ''/'') (rev q)))"

definition ToSlash :: "string \<Rightarrow> string" where
  "ToSlash p = p"

text \<open>\<^verbatim>\<open>strconv.Itoa\<close> of the Go standard library.\<close>

fun nat_digits :: "nat \<Rightarrow> string" where
  "nat_digits n =
     (if n < 10 then [char_of (48 + n)] else nat_digits (n div 10) @ [char_of (48 + n mod 10)])"

declare nat_digits.simps [simp del]

definition Itoa :: "int \<Rightarrow> string" where
  "Itoa i = (if i < 0 then CHR ''-'' # nat_digits (nat (- i)) else nat_digits (nat i))"

record JSONPaths =
  jp_Performers :: string
  jp_Scenes :: string
  jp_Images :: string
  jp_Galleries :: string
  jp_Studios :: string
  jp_Movies :: string
  jp_Tags :: string
  jp_Files :: string

text \<open>
  Modelled from the spec: \<^verbatim>\<open>paths.GetJSONPaths\<close> is not among the sources. The spec gives
  the output root one directory per entity type and a shared directory for the file and
  folder side-documents; each is the root joined with the directory's name.
\<close>

definition GetJSONPaths :: "string \<Rightarrow> JSONPaths" where
  "GetJSONPaths b =
     \<lparr>jp_Performers = Join b ''performers'', jp_Scenes = Join b ''scenes'',
      jp_Images = Join b ''images'', jp_Galleries = Join b ''galleries'',
      jp_Studios = Join b ''studios'', jp_Movies = Join b ''movies'',
      jp_Tags = Join b ''tags'', jp_Files = Join b ''files''\<rparr>"

fun dir_of :: "JSONPaths \<Rightarrow> jdir \<Rightarrow> string" where
  "dir_of jp DTags = jp_Tags jp"
| "dir_of jp DGalleries = jp_Galleries jp"
| "dir_of jp DPerformers = jp_Performers jp"
| "dir_of jp DStudios = jp_Studios jp"
| "dir_of jp DMovies = jp_Movies jp"
| "dir_of jp DScenes = jp_Scenes jp"
| "dir_of jp DImages = jp_Images jp"
| "dir_of jp DFiles = jp_Files jp"

subsection \<open>The task and the state it runs in\<close>

record ExportTask =
  full :: bool
  baseDir :: string
  json :: JSONPaths
  fileNamingAlgorithm :: HashAlgorithm
  scenes :: "exportSpec option"
  images :: "exportSpec option"
  performers :: "exportSpec option"
  movies :: "exportSpec option"
  tags :: "exportSpec option"
  studios :: "exportSpec option"
  galleries :: "exportSpec option"
  includeDependencies :: bool
  DownloadHash :: string

text \<open>
  The task runs against a file system, a download store and a log. \<open>fs\<close> is the tree
  under the task's output root: every successful write, in order, as the directory
  written to, the file name within it and the document (a later write to the same name
  replaces an earlier one). \<open>zips\<close> holds the archives created under the downloads
  directory, each with the entries in the order they were created; an entry created but
  never filled has no content. \<open>registered\<close> lists the files handed to the download
  store.
\<close>

record state = ExportTask +
  fs :: "(jdir \<times> string \<times> document) list"
  zips :: "(string \<times> (string \<times> document option) list) list"
  registered :: "string list"
  trace :: "event list"

definition on_host :: "ExportTask \<Rightarrow> (jdir \<times> string \<times> document) list \<Rightarrow> state" where
  "on_host t fs0 =
     \<lparr>full = full t, baseDir = baseDir t, json = json t,
      fileNamingAlgorithm = fileNamingAlgorithm t,
      scenes = scenes t, images = images t, performers = performers t, movies = movies t,
      tags = tags t, studios = studios t, galleries = galleries t,
      includeDependencies = includeDependencies t, DownloadHash = DownloadHash t,
      fs = fs0, zips = [], registered = [], trace = []\<rparr>"

text \<open>
  \<^verbatim>\<open>CreateExportTask\<close>. The fields it leaves out hold Go's zero values. The repository it
  takes from the manager singleton is the \<open>Repository\<close> argument of the functions below.
\<close>

definition CreateExportTask ::
  "(string list \<Rightarrow> int list \<times> error option) \<Rightarrow> HashAlgorithm \<Rightarrow> ExportObjectsInput \<Rightarrow> ExportTask" where
  "CreateExportTask conv a input =
     (let includeDeps = (case IncludeDependencies input of None \<Rightarrow> False | Some b \<Rightarrow> b)
      in \<lparr>full = False, baseDir = [],
          json = \<lparr>jp_Performers = [], jp_Scenes = [], jp_Images = [], jp_Galleries = [],
                  jp_Studios = [], jp_Movies = [], jp_Tags = [], jp_Files = []\<rparr>,
          fileNamingAlgorithm = a,
          scenes = Some (newExportSpec conv (Scenes input)),
          images = Some (newExportSpec conv (Images input)),
          performers = Some (newExportSpec conv (Performers input)),
          movies = Some (newExportSpec conv (Movies input)),
          tags = Some (newExportSpec conv (Tags input)),
          studios = Some (newExportSpec conv (Studios input)),
          galleries = Some (newExportSpec conv (Galleries input)),
          includeDependencies = includeDeps, DownloadHash = []\<rparr>)"

definition logf :: "level \<Rightarrow> string \<Rightarrow> state \<Rightarrow> state" where
  "logf l m s = s\<lparr>trace := trace s @ [Log l m]\<rparr>"

definition andThen :: "failure + 'a \<Rightarrow> ('a \<Rightarrow> failure + 'b) \<Rightarrow> failure + 'b" where
  "andThen m f = (case m of Inl e \<Rightarrow> Inl e | Inr x \<Rightarrow> f x)"

subsection \<open>Selectors\<close>

text \<open>
  Modelled from the spec: \<^verbatim>\<open>sliceutil.AppendUnique\<close> and \<^verbatim>\<open>sliceutil.AppendUniques\<close> are not
  among the sources. The spec calls the accumulation a deduplicating union: a value is
  appended unless the slice already holds it.
\<close>

definition AppendUnique :: "'a list \<Rightarrow> 'a \<Rightarrow> 'a list" where
  "AppendUnique vs toAdd = (if toAdd \<in> set vs then vs else vs @ [toAdd])"

definition AppendUniques :: "'a list \<Rightarrow> 'a list \<Rightarrow> 'a list" where
  "AppendUniques vs toAdd = foldl AppendUnique vs toAdd"

text \<open>
  The selectors are pointers. \<^verbatim>\<open>t.x != nil && t.x.all\<close> and
  \<^verbatim>\<open>t.x != nil && len(t.x.IDs) > 0\<close> guard the reads in the pools and the pre-passes;
  the appends \<^verbatim>\<open>t.x.IDs = AppendUniques(t.x.IDs, ...)\<close> are unguarded and panic on nil.
\<close>

definition spec_all :: "exportSpec option \<Rightarrow> bool" where
  "spec_all sp = (case sp of None \<Rightarrow> False | Some e \<Rightarrow> all e)"

definition spec_append :: "exportSpec option \<Rightarrow> int list \<Rightarrow> failure + exportSpec option" where
  "spec_append sp xs =
     (case sp of None \<Rightarrow> Inl NilDeref
      | Some e \<Rightarrow> Inr (Some (e\<lparr>IDs := AppendUniques (IDs e) xs\<rparr>)))"

definition add_studios :: "int list \<Rightarrow> state \<Rightarrow> failure + state" where
  "add_studios xs s = andThen (spec_append (studios s) xs) (\<lambda>sp. Inr (s\<lparr>studios := sp\<rparr>))"

definition add_galleries :: "int list \<Rightarrow> state \<Rightarrow> failure + state" where
  "add_galleries xs s = andThen (spec_append (galleries s) xs) (\<lambda>sp. Inr (s\<lparr>galleries := sp\<rparr>))"

definition add_tags :: "int list \<Rightarrow> state \<Rightarrow> failure + state" where
  "add_tags xs s = andThen (spec_append (tags s) xs) (\<lambda>sp. Inr (s\<lparr>tags := sp\<rparr>))"

definition add_movies :: "int list \<Rightarrow> state \<Rightarrow> failure + state" where
  "add_movies xs s = andThen (spec_append (movies s) xs) (\<lambda>sp. Inr (s\<lparr>movies := sp\<rparr>))"

definition add_performers :: "int list \<Rightarrow> state \<Rightarrow> failure + state" where
  "add_performers xs s = andThen (spec_append (performers s) xs) (\<lambda>sp. Inr (s\<lparr>performers := sp\<rparr>))"

text \<open>\<^verbatim>\<open>if x.StudioID != nil { t.studios.IDs = AppendUnique(t.studios.IDs, *x.StudioID) }\<close>\<close>

definition add_studio :: "int option \<Rightarrow> state \<Rightarrow> failure + state" where
  "add_studio sid s = (case sid of None \<Rightarrow> Inr s | Some i \<Rightarrow> add_studios [i] s)"

text \<open>
  The pre-passes append one id at a time inside a loop over the rows found, so a nil
  selector is dereferenced only when there is a row.
\<close>

definition add_scenes_each :: "int list \<Rightarrow> state \<Rightarrow> failure + state" where
  "add_scenes_each xs s =
     (if xs = [] then Inr s
      else andThen (spec_append (scenes s) xs) (\<lambda>sp. Inr (s\<lparr>scenes := sp\<rparr>)))"

definition add_images_each :: "int list \<Rightarrow> state \<Rightarrow> failure + state" where
  "add_images_each xs s =
     (if xs = [] then Inr s
      else andThen (spec_append (images s) xs) (\<lambda>sp. Inr (s\<lparr>images := sp\<rparr>)))"

text \<open>
  The resolution of a pool's rows, written out seven times in the source (and twice more
  in the pre-passes). A failed fetch returns no rows along with its error; the error is
  logged by the caller and the loop runs over the rows returned.
\<close>

definition select_rows ::
  "bool \<Rightarrow> exportSpec option \<Rightarrow> (error + 'a list) \<Rightarrow> (int list \<Rightarrow> error + 'a list) \<Rightarrow> error + 'a list" where
  "select_rows fl sp rall rfind =
     (if fl \<or> spec_all sp then rall
      else case sp of
             None \<Rightarrow> Inr []
           | Some e \<Rightarrow> if IDs e \<noteq> [] then rfind (IDs e) else Inr [])"

definition rows_of :: "error + 'a list \<Rightarrow> 'a list" where
  "rows_of r = (case r of Inl e \<Rightarrow> [] | Inr xs \<Rightarrow> xs)"

definition log_fetch :: "string \<Rightarrow> error + 'a list \<Rightarrow> state \<Rightarrow> state" where
  "log_fetch m r s = (case r of Inl e \<Rightarrow> logf LError m s | Inr xs \<Rightarrow> s)"

subsection \<open>The document writer\<close>

text \<open>
  Modelled from the spec: the \<^verbatim>\<open>jsonUtils\<close> save methods are not among the sources. The
  spec's DocumentWriter serialises one document to a named file under the directory of
  its type and returns an error when the write fails.
\<close>

definition save :: "Sys \<Rightarrow> jdir \<Rightarrow> string \<Rightarrow> document \<Rightarrow> state \<Rightarrow> state \<times> error option" where
  "save sys d fn doc s =
     (case save_err sys d fn of
        Some e \<Rightarrow> (s, Some e)
      | None \<Rightarrow> (s\<lparr>fs := fs s @ [(d, fn, doc)]\<rparr>, None))"

definition save_log :: "Sys \<Rightarrow> jdir \<Rightarrow> string \<Rightarrow> document \<Rightarrow> string \<Rightarrow> state \<Rightarrow> state" where
  "save_log sys d fn doc m s =
     (case save sys d fn doc s of (s', Some e) \<Rightarrow> logf LError m s' | (s', None) \<Rightarrow> s')"

definition fileToJSON :: "File \<Rightarrow> DirEntry" where
  "fileToJSON f =
     (let base = \<lparr>de_Type = DirEntryTypeFile, de_Path = File_Path f,
                  de_ZipFile = (case File_ZipFile f of None \<Rightarrow> [] | Some z \<Rightarrow> z),
                  de_Size = File_Size f, de_Fingerprints = File_Fingerprints f, de_media = []\<rparr>
      in case File_kind f of
           KVideo \<Rightarrow> base\<lparr>de_Type := DirEntryTypeVideo, de_media := File_media f\<rparr>
         | KImage \<Rightarrow> base\<lparr>de_Type := DirEntryTypeImage, de_media := File_media f\<rparr>
         | KOther \<Rightarrow> base)"

definition exportFile :: "Sys \<Rightarrow> File \<Rightarrow> state \<Rightarrow> state" where
  "exportFile sys f s =
     (let newFileJSON = fileToJSON f;
          fn = DirEntry_Filename sys newFileJSON
      in save_log sys DFiles fn (DocDirEntry newFileJSON) ''[files] failed to save json'' s)"

definition folderToJSON :: "Folder \<Rightarrow> DirEntry" where
  "folderToJSON f =
     \<lparr>de_Type = DirEntryTypeFolder, de_Path = Folder_Path f,
      de_ZipFile = (case Folder_ZipFile f of None \<Rightarrow> [] | Some z \<Rightarrow> z),
      de_Size = 0, de_Fingerprints = [], de_media = []\<rparr>"

definition exportFolder :: "Sys \<Rightarrow> Folder \<Rightarrow> state \<Rightarrow> state" where
  "exportFolder sys f s =
     (let newFileJSON = folderToJSON f;
          fn = DirEntry_Filename sys newFileJSON
      in save_log sys DFiles fn (DocDirEntry newFileJSON) ''[files] failed to save json'' s)"

subsection \<open>The workers: one pass of each worker's loop body\<close>

text \<open>
  Each function below is the body of a worker's \<^verbatim>\<open>for x := range jobChan\<close> loop, run on
  one item: \<open>Inr\<close> of the state after the item (written, or logged and skipped with
  \<^verbatim>\<open>continue\<close>), or \<open>Inl\<close> when the body panics.

  \<open>sceneDeps\<close> is the \<^verbatim>\<open>if t.includeDependencies\<close> block of the scene worker; its second
  result is \<open>False\<close> when the block left the item with \<^verbatim>\<open>continue\<close>.
\<close>

definition sceneDeps ::
  "Repository \<Rightarrow> Scene \<Rightarrow> Gallery list \<Rightarrow> Performer list \<Rightarrow> state \<Rightarrow> failure + (state \<times> bool)" where
  "sceneDeps r s gs ps t =
     andThen (add_studio (Scene_StudioID s) t) (\<lambda>t.
     andThen (add_galleries (map Gallery_ID gs) t) (\<lambda>t.
       case scene_GetDependentTagIDs (rScene r) s of
         Inl e \<Rightarrow> Inr (logf LError ''[scenes] error getting scene tags'' t, False)
       | Inr tagIDs \<Rightarrow>
           andThen (add_tags tagIDs t) (\<lambda>t.
             case scene_GetDependentMovieIDs (rScene r) s of
               Inl e \<Rightarrow> Inr (logf LError ''[scenes] error getting scene movies'' t, False)
             | Inr movieIDs \<Rightarrow>
                 andThen (add_movies movieIDs t) (\<lambda>t.
                 andThen (add_performers (map Performer_ID ps) t) (\<lambda>t. Inr (t, True))))))"

definition log_gallery_files :: "Repository \<Rightarrow> string \<Rightarrow> Gallery list \<Rightarrow> state \<Rightarrow> state" where
  "log_gallery_files r m gs t =
     fold (\<lambda>g t. case Gallery_LoadFiles (rGallery r) g of Some e \<Rightarrow> logf LError m t | None \<Rightarrow> t) gs t"

definition exportScene :: "Repository \<Rightarrow> Scene \<Rightarrow> state \<Rightarrow> failure + state" where
  "exportScene r s t0 =
     (let t1 = (case Scene_LoadRelationships (rScene r) s of
                  Some e \<Rightarrow> logf LError ''[scenes] error loading scene relationships'' t0
                | None \<Rightarrow> t0)
      in (case scene_ToBasicJSON (rScene r) s of
            Inl e \<Rightarrow> Inr (logf LError ''[scenes] error getting scene JSON'' t1)
          | Inr j0 \<Rightarrow>
      (let t2 = fold (exportFile (rSys r)) (Scene_Files (rScene r) s) t1
       in (case scene_GetStudioName (rScene r) s of
             Inl e \<Rightarrow> Inr (logf LError ''[scenes] error getting scene studio name'' t2)
           | Inr studio \<Rightarrow>
          (case Gallery_FindBySceneID (rGallery r) (Scene_ID s) of
             Inl e \<Rightarrow> Inr (logf LError ''[scenes] error getting scene gallery checksums'' t2)
           | Inr gs \<Rightarrow>
      (let t3 = log_gallery_files r ''[scenes] error getting scene gallery files'' gs t2;
           j1 = j0\<lparr>sj_Studio := studio, sj_Galleries := gallery_GetRefs (rGallery r) gs,
                   sj_ResumeTime := Scene_ResumeTime s, sj_PlayCount := Scene_PlayCount s,
                   sj_PlayDuration := Scene_PlayDuration s\<rparr>
       in (case Performer_FindBySceneID (rPerformer r) (Scene_ID s) of
             Inl e \<Rightarrow> Inr (logf LError ''[scenes] error getting scene performer names'' t3)
           | Inr ps \<Rightarrow>
          (case scene_GetTagNames (rScene r) s of
             Inl e \<Rightarrow> Inr (logf LError ''[scenes] error getting scene tag names'' t3)
           | Inr tagNames \<Rightarrow>
          (case scene_GetSceneMarkersJSON (rScene r) s of
             Inl e \<Rightarrow> Inr (logf LError ''[scenes] error getting scene markers JSON'' t3)
           | Inr markers \<Rightarrow>
          (case scene_GetSceneMoviesJSON (rScene r) s of
             Inl e \<Rightarrow> Inr (logf LError ''[scenes] error getting scene movies JSON'' t3)
           | Inr mvs \<Rightarrow>
      (let j2 = j1\<lparr>sj_Performers := map Performer_Name ps, sj_Tags := tagNames,
                   sj_Markers := markers, sj_Movies := mvs\<rparr>
       in andThen (if includeDependencies t3 then sceneDeps r s gs ps t3 else Inr (t3, True))
            (\<lambda>(t4, go).
               if \<not> go then Inr t4
               else (let fn = SceneJSON_Filename (rScene r) j2 (Scene_ID s)
                                (Base (Scene_Path s)) (Scene_OSHash s)
                     in Inr (save_log (rSys r) DScenes fn (DocScene j2)
                               ''[scenes] failed to save json'' t4))))))))))))))"

definition exportImage :: "Repository \<Rightarrow> Image \<Rightarrow> state \<Rightarrow> failure + state" where
  "exportImage r s t0 =
     (case Image_LoadFiles (rImage r) s of
        Some e \<Rightarrow> Inr (logf LError ''[images] error getting image files'' t0)
      | None \<Rightarrow>
     (case Image_LoadURLs (rImage r) s of
        Some e \<Rightarrow> Inr (logf LError ''[images] error getting image urls'' t0)
      | None \<Rightarrow>
     (let j0 = image_ToBasicJSON (rImage r) s;
          t1 = fold (exportFile (rSys r)) (Image_Files (rImage r) s) t0
      in (case image_GetStudioName (rImage r) s of
            Inl e \<Rightarrow> Inr (logf LError ''[images] error getting image studio name'' t1)
          | Inr studio \<Rightarrow>
         (case Gallery_FindByImageID (rGallery r) (Image_ID s) of
            Inl e \<Rightarrow> Inr (logf LError ''[images] error getting image galleries'' t1)
          | Inr gs \<Rightarrow>
     (let t2 = log_gallery_files r ''[images] error getting image gallery files'' gs t1
      in (case Performer_FindByImageID (rPerformer r) (Image_ID s) of
            Inl e \<Rightarrow> Inr (logf LError ''[images] error getting image performer names'' t2)
          | Inr ps \<Rightarrow>
         (case Tag_FindByImageID (rTag r) (Image_ID s) of
            Inl e \<Rightarrow> Inr (logf LError ''[images] error getting image tag names'' t2)
          | Inr tgs \<Rightarrow>
     (let j1 = j0\<lparr>ij_Studio := studio, ij_Galleries := gallery_GetRefs (rGallery r) gs,
                  ij_Performers := map Performer_Name ps, ij_Tags := map Tag_Name tgs\<rparr>
      in andThen
           (if includeDependencies t2
            then andThen (add_studio (Image_StudioID s) t2) (\<lambda>t.
                 andThen (add_galleries (map Gallery_ID gs) t) (\<lambda>t.
                 andThen (add_tags (map Tag_ID tgs) t) (\<lambda>t.
                 add_performers (map Performer_ID ps) t)))
            else Inr t2)
           (\<lambda>t3.
              (let fn = ImageJSON_Filename (rImage r) j1 (Base (Image_Path s)) (Image_Checksum s)
               in Inr (save_log (rSys r) DImages fn (DocImage j1)
                         ''[images] failed to save json'' t3))))))))))))"

text \<open>
  \<open>galleryFolder\<close> is the \<^verbatim>\<open>if g.FolderID != nil\<close> block of the gallery worker; its second
  result is \<open>False\<close> when the block left the item with \<^verbatim>\<open>continue\<close>.
\<close>

definition galleryFolder :: "Repository \<Rightarrow> Gallery \<Rightarrow> state \<Rightarrow> state \<times> bool" where
  "galleryFolder r g t =
     (case Gallery_FolderID g of
        None \<Rightarrow> (t, True)
      | Some fid \<Rightarrow>
          (case Folder_Find (rGallery r) fid of
             Inl e \<Rightarrow> (logf LError ''[galleries] error getting gallery folder'' t, False)
           | Inr fo \<Rightarrow>
               (case fo of
                  None \<Rightarrow> (logf LError ''[galleries] unable to find gallery folder'' t, False)
                | Some folder \<Rightarrow> (exportFolder (rSys r) folder t, True))))"

definition exportGallery :: "Repository \<Rightarrow> Gallery \<Rightarrow> state \<Rightarrow> failure + state" where
  "exportGallery r g t0 =
     (case Gallery_LoadFiles (rGallery r) g of
        Some e \<Rightarrow> Inr (logf LError ''[galleries] failed to fetch files for gallery'' t0)
      | None \<Rightarrow>
     (case gallery_ToBasicJSON (rGallery r) g of
        Inl e \<Rightarrow> Inr (logf LError ''[galleries] error getting gallery JSON'' t0)
      | Inr j0 \<Rightarrow>
     (let t1 = fold (exportFile (rSys r)) (Gallery_Files (rGallery r) g) t0;
          fo = galleryFolder r g t1;
          t2 = fst fo
      in if \<not> snd fo then Inr t2
         else
         (case gallery_GetStudioName (rGallery r) g of
            Inl e \<Rightarrow> Inr (logf LError ''[galleries] error getting gallery studio name'' t2)
          | Inr studio \<Rightarrow>
         (case Performer_FindByGalleryID (rPerformer r) (Gallery_ID g) of
            Inl e \<Rightarrow> Inr (logf LError ''[galleries] error getting gallery performer names'' t2)
          | Inr ps \<Rightarrow>
         (case Tag_FindByGalleryID (rTag r) (Gallery_ID g) of
            Inl e \<Rightarrow> Inr (logf LError ''[galleries] error getting gallery tag names'' t2)
          | Inr tgs \<Rightarrow>
         (case gallery_GetGalleryChaptersJSON (rGallery r) g of
            Inl e \<Rightarrow> Inr (logf LError ''[galleries] error getting gallery chapters JSON'' t2)
          | Inr chapters \<Rightarrow>
     (let j1 = j0\<lparr>gj_Studio := studio, gj_Performers := map Performer_Name ps,
                  gj_Chapters := chapters, gj_Tags := map Tag_Name tgs\<rparr>
      in andThen
           (if includeDependencies t2
            then andThen (add_studio (Gallery_StudioID g) t2) (\<lambda>t.
                 andThen (add_tags (map Tag_ID tgs) t) (\<lambda>t.
                 add_performers (map Performer_ID ps) t))
            else Inr t2)
           (\<lambda>t3.
              (let hash = Itoa (Gallery_ID g);
                   basename = (if Gallery_Path g \<noteq> [] then Base (Gallery_Path g)
                               else Gallery_Title g);
                   fn = GalleryJSON_Filename (rGallery r) j1 basename hash
               in Inr (save_log (rSys r) DGalleries fn (DocGallery j1)
                         ''[galleries] failed to save json'' t3)))))))))))"

definition exportPerformer :: "Repository \<Rightarrow> Performer \<Rightarrow> state \<Rightarrow> failure + state" where
  "exportPerformer r p t0 =
     (case performer_ToJSON (rPerformer r) p of
        Inl e \<Rightarrow> Inr (logf LError ''[performers] error getting performer JSON'' t0)
      | Inr j0 \<Rightarrow>
     (case Tag_FindByPerformerID (rTag r) (Performer_ID p) of
        Inl e \<Rightarrow> Inr (logf LError ''[performers] error getting performer tags'' t0)
      | Inr tgs \<Rightarrow>
     (let j1 = j0\<lparr>pj_Tags := map Tag_Name tgs\<rparr>
      in andThen (if includeDependencies t0 then add_tags (map Tag_ID tgs) t0 else Inr t0)
           (\<lambda>t1.
              (let fn = PerformerJSON_Filename (rPerformer r) j1
               in Inr (save_log (rSys r) DPerformers fn (DocPerformer j1)
                         ''[performers] failed to save json'' t1))))))"

definition exportStudio :: "Repository \<Rightarrow> Studio \<Rightarrow> state \<Rightarrow> failure + state" where
  "exportStudio r s t0 =
     (case studio_ToJSON (rStudio r) s of
        Inl e \<Rightarrow> Inr (logf LError ''[studios] error getting studio JSON'' t0)
      | Inr j \<Rightarrow>
          let fn = StudioJSON_Filename (rStudio r) j
          in Inr (save_log (rSys r) DStudios fn (DocStudio j) ''[studios] failed to save json'' t0))"

definition exportTag :: "Repository \<Rightarrow> Tag \<Rightarrow> state \<Rightarrow> failure + state" where
  "exportTag r thisTag t0 =
     (case tag_ToJSON (rTag r) thisTag of
        Inl e \<Rightarrow> Inr (logf LError ''[tags] error getting tag JSON'' t0)
      | Inr j \<Rightarrow>
          let fn = TagJSON_Filename (rTag r) j
          in Inr (save_log (rSys r) DTags fn (DocTag j) ''[tags] failed to save json'' t0))"

definition exportMovie :: "Repository \<Rightarrow> Movie \<Rightarrow> state \<Rightarrow> failure + state" where
  "exportMovie r m t0 =
     (case movie_ToJSON (rMovie r) m of
        Inl e \<Rightarrow> Inr (logf LError ''[movies] error getting tag JSON'' t0)
      | Inr j \<Rightarrow>
          andThen (if includeDependencies t0 then add_studio (Movie_StudioID m) t0 else Inr t0)
            (\<lambda>t1.
               let fn = MovieJSON_Filename (rMovie r) j
               in Inr (save_log (rSys r) DMovies fn (DocMovie j) ''[movies] failed to save json'' t1)))"

subsection \<open>The pools\<close>

text \<open>
  A pool starts \<^verbatim>\<open>workers\<close> goroutines on one channel, feeds the rows into the channel in
  order, closes it and waits for every worker to return. Each row is received by exactly
  one worker, which runs the loop body on it. The model runs the bodies one after the
  other in the order the rows are fed, each right after the feeding loop's progress line
  for that row: the schedule of a pool whose rows are taken up as they arrive. The
  worker count (\<^verbatim>\<open>runtime.GOMAXPROCS(0)\<close>, at least one) does not enter. A panic in a
  worker ends the process, so the pool does not return.
\<close>

fun feed ::
  "(nat \<Rightarrow> bool) \<Rightarrow> string \<Rightarrow> ('a \<Rightarrow> state \<Rightarrow> failure + state) \<Rightarrow> nat \<Rightarrow> 'a list \<Rightarrow> state
     \<Rightarrow> failure + state" where
  "feed prog m body i [] s = Inr s"
| "feed prog m body i (x # xs) s =
     (case body x (if prog i then logf LProgress m s else s) of
        Inl f \<Rightarrow> Inl f
      | Inr s' \<Rightarrow> feed prog m body (Suc i) xs s')"

definition every100 :: "nat \<Rightarrow> bool" where
  "every100 i = (i mod 100 = 0)"

definition always :: "nat \<Rightarrow> bool" where
  "always i = True"

text \<open>
  The seven pool functions of the source share their text up to the names: the rows are
  resolved and a failed fetch is logged, the pool is announced, the rows are fed to the
  workers, and the pool reports its completion. \<open>pool\<close> is that text, from the logging
  of the fetch error on, with the name, the progress rule, the worker body and the
  outcome of the fetch as parameters.
\<close>

definition pool ::
  "string \<Rightarrow> (nat \<Rightarrow> bool) \<Rightarrow> ('a \<Rightarrow> state \<Rightarrow> failure + state) \<Rightarrow> error + 'a list \<Rightarrow> state
     \<Rightarrow> failure + state" where
  "pool name prog body fetched t =
     (let t1 = log_fetch (''['' @ name @ ''] failed to fetch '' @ name) fetched t;
          t2 = logf LInfo (''['' @ name @ ''] exporting'') t1
      in andThen (feed prog (''['' @ name @ ''] %d of %d'') body 0 (rows_of fetched) t2)
           (\<lambda>t3. Inr (logf LInfo (''['' @ name @ ''] export complete'') t3)))"

definition ExportScenes :: "Repository \<Rightarrow> state \<Rightarrow> failure + state" where
  "ExportScenes r t =
     pool ''scenes'' every100 (exportScene r)
       (select_rows (full t) (scenes t) (Scene_All (rScene r)) (Scene_FindMany (rScene r))) t"

definition ExportImages :: "Repository \<Rightarrow> state \<Rightarrow> failure + state" where
  "ExportImages r t =
     pool ''images'' every100 (exportImage r)
       (select_rows (full t) (images t) (Image_All (rImage r)) (Image_FindMany (rImage r))) t"

definition ExportGalleries :: "Repository \<Rightarrow> state \<Rightarrow> failure + state" where
  "ExportGalleries r t =
     pool ''galleries'' every100 (exportGallery r)
       (select_rows (full t) (galleries t) (Gallery_All (rGallery r))
          (Gallery_FindMany (rGallery r))) t"

definition ExportPerformers :: "Repository \<Rightarrow> state \<Rightarrow> failure + state" where
  "ExportPerformers r t =
     pool ''performers'' always (exportPerformer r)
       (select_rows (full t) (performers t) (Performer_All (rPerformer r))
          (Performer_FindMany (rPerformer r))) t"

definition ExportStudios :: "Repository \<Rightarrow> state \<Rightarrow> failure + state" where
  "ExportStudios r t =
     pool ''studios'' always (exportStudio r)
       (select_rows (full t) (studios t) (Studio_All (rStudio r)) (Studio_FindMany (rStudio r))) t"

definition ExportTags :: "Repository \<Rightarrow> state \<Rightarrow> failure + state" where
  "ExportTags r t =
     pool ''tags'' always (exportTag r)
       (select_rows (full t) (tags t) (Tag_All (rTag r)) (Tag_FindMany (rTag r))) t"

definition ExportMovies :: "Repository \<Rightarrow> state \<Rightarrow> failure + state" where
  "ExportMovies r t =
     pool ''movies'' always (exportMovie r)
       (select_rows (full t) (movies t) (Movie_All (rMovie r)) (Movie_FindMany (rMovie r))) t"

subsection \<open>The dependency pre-passes\<close>

fun movieScenes :: "Repository \<Rightarrow> Movie list \<Rightarrow> state \<Rightarrow> failure + state" where
  "movieScenes r [] t = Inr t"
| "movieScenes r (m # ms) t =
     (case Scene_FindByMovieID (rScene r) (Movie_ID m) of
        Inl e \<Rightarrow> movieScenes r ms (logf LError ''[movies] failed to fetch scenes for movie'' t)
      | Inr scs \<Rightarrow> andThen (add_scenes_each (map Scene_ID scs) t) (movieScenes r ms))"

definition populateMovieScenes :: "Repository \<Rightarrow> state \<Rightarrow> failure + state" where
  "populateMovieScenes r t =
     (let t0 = t\<lparr>trace := trace t @ [Enter ''populateMovieScenes'']\<rparr>;
          rows = select_rows (full t0) (movies t0) (Movie_All (rMovie r)) (Movie_FindMany (rMovie r));
          t1 = log_fetch ''[movies] failed to fetch movies'' rows t0
      in andThen (movieScenes r (rows_of rows) t1)
           (\<lambda>t2. Inr (t2\<lparr>trace := trace t2 @ [Leave ''populateMovieScenes'']\<rparr>)))"

fun galleryImages :: "Repository \<Rightarrow> Gallery list \<Rightarrow> state \<Rightarrow> failure + state" where
  "galleryImages r [] t = Inr t"
| "galleryImages r (g # gs) t =
     (case Gallery_LoadFiles (rGallery r) g of
        Some e \<Rightarrow>
          galleryImages r gs (logf LError ''[galleries] failed to fetch files for gallery'' t)
      | None \<Rightarrow>
          (case Image_FindByGalleryID (rImage r) (Gallery_ID g) of
             Inl e \<Rightarrow>
               galleryImages r gs (logf LError ''[galleries] failed to fetch images for gallery'' t)
           | Inr ims \<Rightarrow> andThen (add_images_each (map Image_ID ims) t) (galleryImages r gs)))"

definition populateGalleryImages :: "Repository \<Rightarrow> state \<Rightarrow> failure + state" where
  "populateGalleryImages r t =
     (let t0 = t\<lparr>trace := trace t @ [Enter ''populateGalleryImages'']\<rparr>;
          rows = select_rows (full t0) (galleries t0) (Gallery_All (rGallery r))
                   (Gallery_FindMany (rGallery r));
          t1 = log_fetch ''[galleries] failed to fetch galleries'' rows t0
      in andThen (galleryImages r (rows_of rows) t1)
           (\<lambda>t2. Inr (t2\<lparr>trace := trace t2 @ [Leave ''populateGalleryImages'']\<rparr>)))"

subsection \<open>The transaction\<close>

text \<open>
  \<open>pre_expand\<close> is the \<^verbatim>\<open>if !t.full\<close> block that opens the function passed to
  \<^verbatim>\<open>WithTxn\<close>; \<^verbatim>\<open>t.scenes.all\<close> and \<^verbatim>\<open>t.images.all\<close> are read there without a nil check.
  \<open>pools\<close> is the seven calls that follow it, and \<open>txn_body\<close> the whole function.
\<close>

definition pre_expand :: "Repository \<Rightarrow> state \<Rightarrow> failure + state" where
  "pre_expand r t =
     (if \<not> full t then
        (case scenes t of
           None \<Rightarrow> Inl NilDeref
         | Some sc \<Rightarrow>
             andThen (if \<not> all sc \<and> includeDependencies t then populateMovieScenes r t else Inr t)
               (\<lambda>t1. case images t1 of
                        None \<Rightarrow> Inl NilDeref
                      | Some im \<Rightarrow> if \<not> all im then populateGalleryImages r t1 else Inr t1))
      else Inr t)"

definition pools :: "Repository \<Rightarrow> state \<Rightarrow> failure + state" where
  "pools r t =
     andThen (ExportScenes r t) (\<lambda>t.
     andThen (ExportImages r t) (\<lambda>t.
     andThen (ExportGalleries r t) (\<lambda>t.
     andThen (ExportMovies r t) (\<lambda>t.
     andThen (ExportPerformers r t) (\<lambda>t.
     andThen (ExportStudios r t) (\<lambda>t.
     ExportTags r t))))))"

definition txn_body :: "Repository \<Rightarrow> state \<Rightarrow> failure + state" where
  "txn_body r t = andThen (pre_expand r t) (pools r)"

text \<open>
  Modelled from the spec: the repository's \<^verbatim>\<open>WithTxn\<close> is not among the sources. The spec
  has it run the given function inside one transaction scope and report a transaction
  failure as its error. The function given here always returns nil, so the error is the
  transaction's own: it could not be opened (the function does not run) or it could not
  be completed (the function has run).
\<close>

definition WithTxn ::
  "Sys \<Rightarrow> (state \<Rightarrow> failure + state) \<Rightarrow> state \<Rightarrow> failure + (state \<times> error option)" where
  "WithTxn sys fn t =
     (case txn_begin_err sys of
        Some e \<Rightarrow> Inr (t, Some e)
      | None \<Rightarrow> andThen (fn t) (\<lambda>t'. Inr (t', txn_commit_err sys)))"

subsection \<open>The archive\<close>

text \<open>
  The files of one directory of the tree, each name once, and the document a name holds.
\<close>

definition files_in :: "jdir \<Rightarrow> (jdir \<times> string \<times> document) list \<Rightarrow> string list" where
  "files_in d tree = remdups (map (\<lambda>e. fst (snd e)) (filter (\<lambda>e. fst e = d) tree))"

definition content_of :: "jdir \<Rightarrow> string \<Rightarrow> (jdir \<times> string \<times> document) list \<Rightarrow> document option" where
  "content_of d fn tree =
     (case filter (\<lambda>e. fst e = d \<and> fst (snd e) = fn) tree of
        [] \<Rightarrow> None
      | e # es \<Rightarrow> Some (snd (snd (last (e # es)))))"

text \<open>
  \<^verbatim>\<open>zipFile\<close>: the entry is created under the base name of the file, then the file is
  opened and copied into it. When opening or copying fails the entry stays, unfilled.
\<close>

definition zipFile ::
  "Sys \<Rightarrow> state \<Rightarrow> jdir \<Rightarrow> string \<Rightarrow> string \<Rightarrow> (string \<times> document option) list
     \<Rightarrow> (string \<times> document option) list \<times> error option" where
  "zipFile sys t d fn outDir z =
     (let bn = Base (Join (dir_of (json t) d) fn);
          p = ToSlash (Join outDir bn)
      in case zip_Create_err sys p of
           Some e \<Rightarrow> (z, Some e)
         | None \<Rightarrow>
             (case Open_err sys d fn of
                Some e \<Rightarrow> (z @ [(p, None)], Some e)
              | None \<Rightarrow>
                  (case Copy_err sys d fn of
                     Some e \<Rightarrow> (z @ [(p, None)], Some e)
                   | None \<Rightarrow> (z @ [(p, content_of d fn (fs t))], None))))"

text \<open>
  \<^verbatim>\<open>filepath.Walk\<close> with \<^verbatim>\<open>zipWalkFunc\<close> over the regular files of one directory: the
  walk stops at the first error, of the walk itself or of \<^verbatim>\<open>zipFile\<close>. The directories
  on the way are visited too and skipped by \<^verbatim>\<open>info.IsDir()\<close>; an error met at a
  directory stops the walk as an error at the next file does. The order in which the
  walk meets the files is not modelled beyond being some fixed order.
\<close>

fun zipWalk ::
  "Sys \<Rightarrow> state \<Rightarrow> jdir \<Rightarrow> string \<Rightarrow> string list \<Rightarrow> (string \<times> document option) list
     \<Rightarrow> (string \<times> document option) list \<times> error option" where
  "zipWalk sys t d outDir [] z = (z, None)"
| "zipWalk sys t d outDir (fn # fns) z =
     (case walk_err sys d fn of
        Some e \<Rightarrow> (z, Some e)
      | None \<Rightarrow>
          (case zipFile sys t d fn outDir z of
             (z', Some e) \<Rightarrow> (z', Some e)
           | (z', None) \<Rightarrow> zipWalk sys t d outDir fns z'))"

text \<open>
  \<^verbatim>\<open>walkWarn\<close>: the pair is the archive so far and the log lines so far.
\<close>

definition walkWarn ::
  "Sys \<Rightarrow> state \<Rightarrow> jdir \<Rightarrow> string \<Rightarrow> (string \<times> document option) list \<times> event list
     \<Rightarrow> (string \<times> document option) list \<times> event list" where
  "walkWarn sys t d outDir zl =
     (case zipWalk sys t d outDir (files_in d (fs t)) (fst zl) of
        (z', Some e) \<Rightarrow> (z', snd zl @ [Log LWarn ''error walking structure''])
      | (z', None) \<Rightarrow> (z', snd zl))"

definition zipFiles :: "Sys \<Rightarrow> state \<Rightarrow> (string \<times> document option) list \<times> event list" where
  "zipFiles sys t =
     (let u = GetJSONPaths []
      in walkWarn sys t DImages (jp_Images u)
          (walkWarn sys t DScenes (jp_Scenes u)
          (walkWarn sys t DMovies (jp_Movies u)
          (walkWarn sys t DStudios (jp_Studios u)
          (walkWarn sys t DPerformers (jp_Performers u)
          (walkWarn sys t DGalleries (jp_Galleries u)
          (walkWarn sys t DTags (jp_Tags u) ([], []))))))))"

text \<open>
  \<^verbatim>\<open>generateDownload\<close>. \<^verbatim>\<open>zipFiles\<close> always returns nil. The assignment
  \<^verbatim>\<open>t.DownloadHash, err = RegisterFile(...)\<close> stores the returned hash also when the call
  fails; a failed call returns the empty string.
\<close>

definition generateDownload :: "Sys \<Rightarrow> state \<Rightarrow> state \<times> error option" where
  "generateDownload sys t =
     (case EnsureDir_err sys of
        Some e \<Rightarrow> (t, Some e)
      | None \<Rightarrow>
          (case CreateTemp sys of
             Inl e \<Rightarrow> (t, Some e)
           | Inr z \<Rightarrow>
               (let zl = zipFiles sys t;
                    t1 = t\<lparr>zips := zips t @ [(z, fst zl)], trace := trace t @ snd zl\<rparr>
                in case RegisterFile sys z of
                     Inl e \<Rightarrow> (t1\<lparr>DownloadHash := []\<rparr>, Some e)
                   | Inr h \<Rightarrow>
                       (logf LDebug ''Generated zip file %s with hash %s''
                          (t1\<lparr>DownloadHash := h, registered := registered t1 @ [z]\<rparr>), None))))"

subsection \<open>Start\<close>

text \<open>
  \<open>after_txn\<close> is the part of \<^verbatim>\<open>Start\<close> that follows the call of \<^verbatim>\<open>WithTxn\<close>.
\<close>

definition after_txn :: "Sys \<Rightarrow> error option \<Rightarrow> state \<Rightarrow> state" where
  "after_txn sys txnErr t =
     (let t1 = (case txnErr of
                  Some e \<Rightarrow> logf LWarn ''error while running export transaction'' t
                | None \<Rightarrow> t)
      in if \<not> full t1 then
           (case generateDownload sys t1 of
              (t2, Some e) \<Rightarrow> logf LError ''error generating download link'' t2
            | (t2, None) \<Rightarrow> logf LInfo ''Export complete'' t2)
         else logf LInfo ''Export complete'' t1)"

text \<open>
  Modelled from the spec: \<^verbatim>\<open>paths.EmptyJSONDirs\<close> and \<^verbatim>\<open>paths.EnsureJSONDirs\<close> are not
  among the sources. The spec has the orchestrator clear and recreate the directories of
  the output root, so that nothing of an earlier export is left: the tree is empty
  afterwards.
\<close>

definition EmptyJSONDirs :: "state \<Rightarrow> state" where
  "EmptyJSONDirs t = t\<lparr>fs := []\<rparr>"

text \<open>\<open>Start_in\<close> is \<^verbatim>\<open>Start\<close> from the check of \<^verbatim>\<open>baseDir\<close> on.\<close>

definition Start_in :: "Repository \<Rightarrow> state \<Rightarrow> failure + state" where
  "Start_in r t =
     (if baseDir t = [] then Inr (logf LError ''baseDir must not be empty'' t)
      else (let t1 = EmptyJSONDirs (t\<lparr>json := GetJSONPaths (baseDir t)\<rparr>)
            in andThen (WithTxn (rSys r) (txn_body r) t1)
                 (\<lambda>(t2, txnErr). Inr (after_txn (rSys r) txnErr t2))))"

text \<open>
  The deferred \<^verbatim>\<open>fsutil.RemoveDir(t.baseDir)\<close> of a partial export runs on every return
  of \<^verbatim>\<open>Start\<close> after the temporary directory was made. The deferred \<^verbatim>\<open>wg.Done()\<close> has no
  part in the model.
\<close>

definition RemoveDir :: "Sys \<Rightarrow> state \<Rightarrow> state" where
  "RemoveDir sys t =
     (case RemoveDir_err sys of
        Some e \<Rightarrow> logf LError ''error removing directory'' t
      | None \<Rightarrow> t\<lparr>fs := []\<rparr>)"

definition Start :: "Repository \<Rightarrow> state \<Rightarrow> failure + state" where
  "Start r t =
     (if full t then Start_in r (t\<lparr>baseDir := MetadataPath (rSys r)\<rparr>)
      else (case TempDir (rSys r) of
              Inl e \<Rightarrow>
                Inr (logf LError ''error creating temporary directory for export''
                       (t\<lparr>baseDir := []\<rparr>))
            | Inr d \<Rightarrow>
                andThen (Start_in r (t\<lparr>baseDir := d\<rparr>)) (\<lambda>t'. Inr (RemoveDir (rSys r) t'))))"

subsection \<open>Notions used in the properties\<close>

text \<open>
  The marker lines of a trace are the lines logged at level Info (each pool's start and
  completion, and the completion of the export) and the entries and exits of the two
  pre-pass functions. The errors of a trace are the lines logged at level Error.
\<close>

fun is_marker :: "event \<Rightarrow> bool" where
  "is_marker (Log l m) = (l = LInfo)"
| "is_marker (Enter f) = True"
| "is_marker (Leave f) = True"

definition markers :: "event list \<Rightarrow> event list" where
  "markers tr = filter is_marker tr"

fun is_error :: "event \<Rightarrow> bool" where
  "is_error (Log l m) = (l = LError)"
| "is_error (Enter f) = False"
| "is_error (Leave f) = False"

definition nerr :: "state \<Rightarrow> nat" where
  "nerr s = length (filter is_error (trace s))"

text \<open>The number of documents written so far to one directory of the tree.\<close>

definition ndocs :: "jdir \<Rightarrow> state \<Rightarrow> nat" where
  "ndocs d s = length (filter (\<lambda>e. fst e = d) (fs s))"

definition specs_present :: "state \<Rightarrow> bool" where
  "specs_present s =
     (scenes s \<noteq> None \<and> images s \<noteq> None \<and> performers s \<noteq> None \<and> movies s \<noteq> None
      \<and> tags s \<noteq> None \<and> studios s \<noteq> None \<and> galleries s \<noteq> None)"

text \<open>
  \<open>base\<close> is what neither a pre-pass nor a worker changes: the mode of the task, its
  paths, the archives, the download store, and which selectors are nil. A worker keeps
  the scene and image selectors and the marker lines as well.
\<close>

definition shape :: "state \<Rightarrow> bool list" where
  "shape s =
     [scenes s = None, images s = None, performers s = None, movies s = None,
      tags s = None, studios s = None, galleries s = None]"

definition base ::
  "state \<Rightarrow> (bool \<times> bool \<times> string \<times> JSONPaths \<times> HashAlgorithm \<times> string)
     \<times> ((string \<times> (string \<times> document option) list) list \<times> string list) \<times> bool list" where
  "base s =
     ((full s, includeDependencies s, baseDir s, json s, fileNamingAlgorithm s, DownloadHash s),
      (zips s, registered s), shape s)"

definition kept ::
  "state \<Rightarrow> ((bool \<times> bool \<times> string \<times> JSONPaths \<times> HashAlgorithm \<times> string)
     \<times> ((string \<times> (string \<times> document option) list) list \<times> string list) \<times> bool list)
     \<times> exportSpec option \<times> exportSpec option \<times> event list" where
  "kept s = (base s, scenes s, images s, markers (trace s))"

text \<open>
  One pass of a worker over a row, in numbers: the errors logged do not decrease, at most
  one document is added to the directory of the pool's type, and exactly one is added
  when no error was logged. \<open>counts\<close> is the same for a run over \<open>n\<close> rows.
\<close>

definition counts :: "jdir \<Rightarrow> nat \<Rightarrow> state \<Rightarrow> state \<Rightarrow> bool" where
  "counts d n s s' =
     (nerr s \<le> nerr s' \<and> ndocs d s \<le> ndocs d s' \<and> ndocs d s' \<le> ndocs d s + n
      \<and> (nerr s' = nerr s \<longrightarrow> ndocs d s' = ndocs d s + n))"

text \<open>The effect of exporting a list of files, and of the loop over an item's galleries.\<close>

definition files_written :: "Sys \<Rightarrow> File list \<Rightarrow> (jdir \<times> string \<times> document) list" where
  "files_written sys fl =
     concat (map (\<lambda>f. case save_err sys DFiles (DirEntry_Filename sys (fileToJSON f)) of
                         Some e \<Rightarrow> []
                       | None \<Rightarrow> [(DFiles, DirEntry_Filename sys (fileToJSON f),
                                   DocDirEntry (fileToJSON f))]) fl)"

definition files_failed :: "Sys \<Rightarrow> File list \<Rightarrow> event list" where
  "files_failed sys fl =
     concat (map (\<lambda>f. case save_err sys DFiles (DirEntry_Filename sys (fileToJSON f)) of
                         Some e \<Rightarrow> [Log LError ''[files] failed to save json'']
                       | None \<Rightarrow> []) fl)"

definition galleries_failed :: "Repository \<Rightarrow> string \<Rightarrow> Gallery list \<Rightarrow> event list" where
  "galleries_failed r m gs =
     concat (map (\<lambda>g. case Gallery_LoadFiles (rGallery r) g of
                         Some e \<Rightarrow> [Log LError m]
                       | None \<Rightarrow> []) gs)"

text \<open>
  The two Info lines of a pool, the lines of the seven pools in the order \<^verbatim>\<open>Start\<close> calls
  them, and the marker lines the pre-passes leave for a task as it enters the
  transaction.
\<close>

definition pool_lines :: "string \<Rightarrow> event list" where
  "pool_lines name =
     [Log LInfo (''['' @ name @ ''] exporting''), Log LInfo (''['' @ name @ ''] export complete'')]"

definition all_pool_lines :: "event list" where
  "all_pool_lines =
     pool_lines ''scenes'' @ pool_lines ''images'' @ pool_lines ''galleries''
     @ pool_lines ''movies'' @ pool_lines ''performers'' @ pool_lines ''studios''
     @ pool_lines ''tags''"

definition pre_markers :: "state \<Rightarrow> event list" where
  "pre_markers t =
     (if \<not> full t \<and> \<not> spec_all (scenes t) \<and> includeDependencies t
      then [Enter ''populateMovieScenes'', Leave ''populateMovieScenes''] else [])
     @ (if \<not> full t \<and> \<not> spec_all (images t)
        then [Enter ''populateGalleryImages'', Leave ''populateGalleryImages''] else [])"

text \<open>
  The ids the pre-passes find: the scenes of the given movies and the images of the
  given galleries, leaving out a movie or gallery whose lookup fails.
\<close>

definition movie_scene_ids :: "Repository \<Rightarrow> Movie list \<Rightarrow> int list" where
  "movie_scene_ids r ms =
     concat (map (\<lambda>m. case Scene_FindByMovieID (rScene r) (Movie_ID m) of
                         Inl e \<Rightarrow> []
                       | Inr scs \<Rightarrow> map Scene_ID scs) ms)"

definition gallery_image_ids :: "Repository \<Rightarrow> Gallery list \<Rightarrow> int list" where
  "gallery_image_ids r gs =
     concat (map (\<lambda>g. case Gallery_LoadFiles (rGallery r) g of
                         Some e \<Rightarrow> []
                       | None \<Rightarrow>
                           (case Image_FindByGalleryID (rImage r) (Gallery_ID g) of
                              Inl e \<Rightarrow> []
                            | Inr ims \<Rightarrow> map Image_ID ims)) gs)"

subsection \<open>A small library to run the model on\<close>

text \<open>
  Two scenes, the first with a studio and one video file; one movie holding both scenes;
  two studios; no images, galleries, performers or tags. Every call succeeds. The
  variations used below change one collaborator each.
\<close>

definition demo_file :: File where
  "demo_file = \<lparr>File_kind = KVideo, File_Path = ''/v/a.mp4'', File_ZipFile = None,
                 File_Size = 100, File_Fingerprints = [(''oshash'', ''h1'')],
                 File_media = ''mp4''\<rparr>"

definition demo_scene :: "int \<Rightarrow> Scene" where
  "demo_scene i =
     \<lparr>Scene_ID = i, Scene_StudioID = (if i = 1 then Some 10 else None),
      Scene_Path = (if i = 1 then ''/v/a.mp4'' else ''/v/b.mp4''),
      Scene_OSHash = (if i = 1 then ''h1'' else ''h2''),
      Scene_ResumeTime = 0, Scene_PlayCount = 0, Scene_PlayDuration = 0\<rparr>"

definition demo_scenes :: "Scene list" where
  "demo_scenes = [demo_scene 1, demo_scene 2]"

definition demo_SceneEnv :: SceneEnv where
  "demo_SceneEnv =
     \<lparr>Scene_All = Inr demo_scenes,
      Scene_FindMany = (\<lambda>ids. Inr (filter (\<lambda>s. Scene_ID s \<in> set ids) demo_scenes)),
      Scene_FindByMovieID = (\<lambda>m. if m = 5 then Inr demo_scenes else Inr []),
      Scene_LoadRelationships = (\<lambda>s. None),
      Scene_Files = (\<lambda>s. if Scene_ID s = 1 then [demo_file] else []),
      scene_ToBasicJSON = (\<lambda>s. Inr \<lparr>sj_base = Scene_Path s, sj_Studio = [], sj_Galleries = [],
                                     sj_ResumeTime = 0, sj_PlayCount = 0, sj_PlayDuration = 0,
                                     sj_Performers = [], sj_Tags = [], sj_Markers = [],
                                     sj_Movies = []\<rparr>),
      scene_GetStudioName = (\<lambda>s. Inr (case Scene_StudioID s of None \<Rightarrow> [] | Some i \<Rightarrow> ''Studio'')),
      scene_GetTagNames = (\<lambda>s. Inr []),
      scene_GetSceneMarkersJSON = (\<lambda>s. Inr []),
      scene_GetSceneMoviesJSON = (\<lambda>s. Inr ''M''),
      scene_GetDependentTagIDs = (\<lambda>s. Inr []),
      scene_GetDependentMovieIDs = (\<lambda>s. Inr [5]),
      SceneJSON_Filename = (\<lambda>j i bn h. bn @ ''.json'')\<rparr>"

definition demo_ImageEnv :: ImageEnv where
  "demo_ImageEnv =
     \<lparr>Image_All = Inr [], Image_FindMany = (\<lambda>ids. Inr []),
      Image_FindByGalleryID = (\<lambda>g. Inr []),
      Image_LoadFiles = (\<lambda>i. None), Image_LoadURLs = (\<lambda>i. None), Image_Files = (\<lambda>i. []),
      image_ToBasicJSON = (\<lambda>i. \<lparr>ij_base = Image_Path i, ij_Studio = [], ij_Galleries = [],
                                  ij_Performers = [], ij_Tags = []\<rparr>),
      image_GetStudioName = (\<lambda>i. Inr []),
      ImageJSON_Filename = (\<lambda>j bn c. bn @ ''.json'')\<rparr>"

definition demo_GalleryEnv :: GalleryEnv where
  "demo_GalleryEnv =
     \<lparr>Gallery_All = Inr [], Gallery_FindMany = (\<lambda>ids. Inr []),
      Gallery_FindBySceneID = (\<lambda>i. Inr []), Gallery_FindByImageID = (\<lambda>i. Inr []),
      Gallery_LoadFiles = (\<lambda>g. None), Gallery_Files = (\<lambda>g. []),
      Folder_Find = (\<lambda>i. Inr None),
      gallery_ToBasicJSON = (\<lambda>g. Inr \<lparr>gj_base = Gallery_Title g, gj_Studio = [],
                                       gj_Performers = [], gj_Chapters = [], gj_Tags = []\<rparr>),
      gallery_GetStudioName = (\<lambda>g. Inr []),
      gallery_GetGalleryChaptersJSON = (\<lambda>g. Inr []),
      gallery_GetRefs = (\<lambda>gs. map Gallery_Title gs),
      GalleryJSON_Filename = (\<lambda>j bn h. bn @ ''.'' @ h @ ''.json'')\<rparr>"

definition demo_PerformerEnv :: PerformerEnv where
  "demo_PerformerEnv =
     \<lparr>Performer_All = Inr [], Performer_FindMany = (\<lambda>ids. Inr []),
      Performer_FindBySceneID = (\<lambda>i. Inr []), Performer_FindByImageID = (\<lambda>i. Inr []),
      Performer_FindByGalleryID = (\<lambda>i. Inr []),
      performer_ToJSON = (\<lambda>p. Inr \<lparr>pj_base = Performer_Name p, pj_Tags = []\<rparr>),
      PerformerJSON_Filename = (\<lambda>j. pj_base j @ ''.json'')\<rparr>"

definition demo_studios :: "Studio list" where
  "demo_studios = [\<lparr>Studio_ID = 10, Studio_Name = ''Studio''\<rparr>,
                   \<lparr>Studio_ID = 11, Studio_Name = ''Other''\<rparr>]"

definition demo_StudioEnv :: StudioEnv where
  "demo_StudioEnv =
     \<lparr>Studio_All = Inr demo_studios,
      Studio_FindMany = (\<lambda>ids. Inr (filter (\<lambda>s. Studio_ID s \<in> set ids) demo_studios)),
      studio_ToJSON = (\<lambda>s. Inr (Studio_Name s)),
      StudioJSON_Filename = (\<lambda>j. j @ ''.json'')\<rparr>"

definition demo_TagEnv :: TagEnv where
  "demo_TagEnv =
     \<lparr>Tag_All = Inr [], Tag_FindMany = (\<lambda>ids. Inr []),
      Tag_FindByImageID = (\<lambda>i. Inr []), Tag_FindByGalleryID = (\<lambda>i. Inr []),
      Tag_FindByPerformerID = (\<lambda>i. Inr []),
      tag_ToJSON = (\<lambda>t. Inr (Tag_Name t)),
      TagJSON_Filename = (\<lambda>j. j @ ''.json'')\<rparr>"

definition demo_movies :: "Movie list" where
  "demo_movies = [\<lparr>Movie_ID = 5, Movie_Name = ''M'', Movie_StudioID = None\<rparr>]"

definition demo_MovieEnv :: MovieEnv where
  "demo_MovieEnv =
     \<lparr>Movie_All = Inr demo_movies,
      Movie_FindMany = (\<lambda>ids. Inr (filter (\<lambda>m. Movie_ID m \<in> set ids) demo_movies)),
      movie_ToJSON = (\<lambda>m. Inr (Movie_Name m)),
      MovieJSON_Filename = (\<lambda>j. j @ ''.json'')\<rparr>"

definition demo_Sys :: Sys where
  "demo_Sys =
     \<lparr>MetadataPath = ''/meta'', TempDir = Inr ''/tmp/export1'', RemoveDir_err = None,
      txn_begin_err = None, txn_commit_err = None,
      save_err = (\<lambda>d fn. None),
      DirEntry_Filename = (\<lambda>e. Base (de_Path e) @ ''.json''),
      EnsureDir_err = None, CreateTemp = Inr ''/downloads/export1.zip'',
      walk_err = (\<lambda>d fn. None), zip_Create_err = (\<lambda>p. None),
      Open_err = (\<lambda>d fn. None), Copy_err = (\<lambda>d fn. None),
      RegisterFile = (\<lambda>z. Inr ''hash1'')\<rparr>"

definition demo :: Repository where
  "demo =
     \<lparr>rScene = demo_SceneEnv, rImage = demo_ImageEnv, rGallery = demo_GalleryEnv,
      rPerformer = demo_PerformerEnv, rStudio = demo_StudioEnv, rTag = demo_TagEnv,
      rMovie = demo_MovieEnv, rSys = demo_Sys\<rparr>"

definition no_input :: ExportObjectsInput where
  "no_input =
     \<lparr>Scenes = None, Images = None, Studios = None, Performers = None, Tags = None,
      Movies = None, Galleries = None, IncludeDependencies = None\<rparr>"

definition ids_input :: "string list \<Rightarrow> ExportObjectTypeInput option" where
  "ids_input ids = Some \<lparr>Ids = ids, All = None\<rparr>"

definition all_input :: "ExportObjectTypeInput option" where
  "all_input = Some \<lparr>Ids = [], All = Some True\<rparr>"

definition demo_task :: "ExportObjectsInput \<Rightarrow> state" where
  "demo_task input = on_host (CreateExportTask conv_strict MD5 input) []"

text \<open>
  Four variations: the transaction cannot be completed; building the document of the
  second studio fails; loading the relationships of the first scene fails; fetching
  scenes by id fails, in a library that also holds one tag.
\<close>

definition demo_txn :: Repository where
  "demo_txn = demo\<lparr>rSys := demo_Sys\<lparr>txn_commit_err := Some (Err ''commit failed'')\<rparr>\<rparr>"

definition demo_badstudio :: Repository where
  "demo_badstudio =
     demo\<lparr>rStudio := demo_StudioEnv\<lparr>studio_ToJSON :=
       (\<lambda>s. if Studio_ID s = 11 then Inl (Err ''no parent'') else Inr (Studio_Name s))\<rparr>\<rparr>"

definition demo_rel :: Repository where
  "demo_rel =
     demo\<lparr>rScene := demo_SceneEnv\<lparr>Scene_LoadRelationships :=
       (\<lambda>s. if Scene_ID s = 1 then Some (Err ''database is locked'') else None)\<rparr>\<rparr>"

definition demo_nofetch :: Repository where
  "demo_nofetch =
     demo\<lparr>rScene := demo_SceneEnv\<lparr>Scene_FindMany := (\<lambda>ids. Inl (Err ''database is locked''))\<rparr>,
          rTag := demo_TagEnv\<lparr>Tag_All := Inr [\<lparr>Tag_ID = 7, Tag_Name = ''Tag''\<rparr>]\<rparr>\<rparr>"

text \<open>What is looked at in a tree and in the archives: the names, without the documents.\<close>

definition tree_names :: "state \<Rightarrow> (jdir \<times> string) list" where
  "tree_names t = map (\<lambda>e. (fst e, fst (snd e))) (fs t)"

definition zip_names :: "state \<Rightarrow> string list" where
  "zip_names t = map fst (concat (map snd (zips t)))"

text \<open>
  The rule for a pool's rows in the words of the specification: every row of the type
  when the export is full or the type is select-all; else the rows with the selector's
  ids when there are ids; else none.
\<close>

definition spec_rows ::
  "bool \<Rightarrow> exportSpec option \<Rightarrow> (error + 'a list) \<Rightarrow> (int list \<Rightarrow> error + 'a list) \<Rightarrow> 'a list" where
  "spec_rows fullExport sel fetch_all fetch_ids =
     (case sel of
        None \<Rightarrow> if fullExport then rows_of fetch_all else []
      | Some e \<Rightarrow>
          if fullExport \<or> all e then rows_of fetch_all
          else if IDs e \<noteq> [] then rows_of (fetch_ids (IDs e))
          else [])"

definition no_ids :: "exportSpec option \<Rightarrow> bool" where
  "no_ids sel = (case sel of None \<Rightarrow> True | Some e \<Rightarrow> IDs e = [])"

text \<open>
  What is shown of each pool: it returns on a task that holds all its selectors or does
  not include dependencies; when it returns, the documents it added to its directory are
  at most one per row of the rule above, and exactly one per row when it logged no
  error; and with nothing selected it fetches nothing and leaves only its two lines.
\<close>

definition pool_resolves ::
  "jdir \<Rightarrow> string \<Rightarrow> (state \<Rightarrow> failure + state) \<Rightarrow> exportSpec option \<Rightarrow> (error + 'a list)
     \<Rightarrow> (int list \<Rightarrow> error + 'a list) \<Rightarrow> state \<Rightarrow> bool" where
  "pool_resolves d name run sel fetch_all fetch_ids t =
     ((specs_present t \<or> \<not> includeDependencies t \<longrightarrow> (\<exists>t'. run t = Inr t'))
      \<and> (\<forall>t'. run t = Inr t' \<longrightarrow>
             counts d (length (spec_rows (full t) sel fetch_all fetch_ids)) t t')
      \<and> (\<not> full t \<and> \<not> spec_all sel \<and> no_ids sel \<longrightarrow>
             run t = Inr (logf LInfo (''['' @ name @ ''] export complete'')
                           (logf LInfo (''['' @ name @ ''] exporting'') t))))"

subsection \<open>The document of a row\<close>

text \<open>
  The documents of one directory of the tree, in the order they were written, each with
  the name of its file.
\<close>

definition docs :: "jdir \<Rightarrow> state \<Rightarrow> (string \<times> document) list" where
  "docs d s = map snd (filter (\<lambda>e. fst e = d) (fs s))"

text \<open>
  The outcome of a pool's fetch in the words of the specification: the reader's answer
  for every row of the type when the export is full or the type is select-all; else the
  reader's answer for the selector's ids when there are ids; else nothing is fetched and
  the outcome is no rows and no error.
\<close>

definition spec_fetch ::
  "bool \<Rightarrow> exportSpec option \<Rightarrow> (error + 'a list) \<Rightarrow> (int list \<Rightarrow> error + 'a list) \<Rightarrow> error + 'a list" where
  "spec_fetch fullExport sel fetch_all fetch_ids =
     (case sel of
        None \<Rightarrow> if fullExport then fetch_all else Inr []
      | Some e \<Rightarrow>
          if fullExport \<or> all e then fetch_all
          else if IDs e \<noteq> [] then fetch_ids (IDs e)
          else Inr [])"

text \<open>
  The document of a row: what the export is to leave in the tree for one row, given the
  answers of the collaborators for that row. It is \<open>None\<close> when one of the steps that
  build the document reports an error, or when the document cannot be saved; otherwise
  it is the file name and the document built from the answers. \<open>on_ok\<close> goes on with the
  value of a call that reported no error, and \<open>saved\<close> is the document under its name
  when the writer accepts it.

  The steps are, for each type, the calls after which the worker leaves the item. For an
  image they include loading its files and URLs, for a gallery loading its files and
  looking up its folder, for a scene of an export with dependencies the ids of its
  dependent tags and movies. Loading the relationships of a scene is not among them,
  nor are the side-documents of an item's files and the files of its galleries.
\<close>

definition on_ok :: "error + 'a \<Rightarrow> ('a \<Rightarrow> 'b option) \<Rightarrow> 'b option" where
  "on_ok r k = (case r of Inl e \<Rightarrow> None | Inr x \<Rightarrow> k x)"

definition saved :: "Sys \<Rightarrow> jdir \<Rightarrow> string \<Rightarrow> document \<Rightarrow> (string \<times> document) option" where
  "saved sys d fn doc = (if save_err sys d fn = None then Some (fn, doc) else None)"

definition scene_document :: "Repository \<Rightarrow> bool \<Rightarrow> Scene \<Rightarrow> (string \<times> document) option" where
  "scene_document r deps s =
     on_ok (scene_ToBasicJSON (rScene r) s) (\<lambda>j0.
     on_ok (scene_GetStudioName (rScene r) s) (\<lambda>studio.
     on_ok (Gallery_FindBySceneID (rGallery r) (Scene_ID s)) (\<lambda>gs.
     on_ok (Performer_FindBySceneID (rPerformer r) (Scene_ID s)) (\<lambda>ps.
     on_ok (scene_GetTagNames (rScene r) s) (\<lambda>tagNames.
     on_ok (scene_GetSceneMarkersJSON (rScene r) s) (\<lambda>mks.
     on_ok (scene_GetSceneMoviesJSON (rScene r) s) (\<lambda>mvs.
     on_ok (if deps then scene_GetDependentTagIDs (rScene r) s else Inr []) (\<lambda>tagIDs.
     on_ok (if deps then scene_GetDependentMovieIDs (rScene r) s else Inr []) (\<lambda>movieIDs.
       (let j = j0\<lparr>sj_Studio := studio, sj_Galleries := gallery_GetRefs (rGallery r) gs,
                   sj_ResumeTime := Scene_ResumeTime s, sj_PlayCount := Scene_PlayCount s,
                   sj_PlayDuration := Scene_PlayDuration s,
                   sj_Performers := map Performer_Name ps, sj_Tags := tagNames,
                   sj_Markers := mks, sj_Movies := mvs\<rparr>
        in saved (rSys r) DScenes
             (SceneJSON_Filename (rScene r) j (Scene_ID s) (Base (Scene_Path s)) (Scene_OSHash s))
             (DocScene j)))))))))))"

definition image_document :: "Repository \<Rightarrow> Image \<Rightarrow> (string \<times> document) option" where
  "image_document r s =
     (if Image_LoadFiles (rImage r) s \<noteq> None \<or> Image_LoadURLs (rImage r) s \<noteq> None then None
      else
        on_ok (image_GetStudioName (rImage r) s) (\<lambda>studio.
        on_ok (Gallery_FindByImageID (rGallery r) (Image_ID s)) (\<lambda>gs.
        on_ok (Performer_FindByImageID (rPerformer r) (Image_ID s)) (\<lambda>ps.
        on_ok (Tag_FindByImageID (rTag r) (Image_ID s)) (\<lambda>tgs.
          (let j = (image_ToBasicJSON (rImage r) s)
                     \<lparr>ij_Studio := studio, ij_Galleries := gallery_GetRefs (rGallery r) gs,
                      ij_Performers := map Performer_Name ps, ij_Tags := map Tag_Name tgs\<rparr>
           in saved (rSys r) DImages
                (ImageJSON_Filename (rImage r) j (Base (Image_Path s)) (Image_Checksum s))
                (DocImage j)))))))"

definition folder_missing :: "Repository \<Rightarrow> Gallery \<Rightarrow> bool" where
  "folder_missing r g =
     (case Gallery_FolderID g of
        None \<Rightarrow> False
      | Some fid \<Rightarrow> (case Folder_Find (rGallery r) fid of
                      Inl e \<Rightarrow> True
                    | Inr fo \<Rightarrow> fo = None))"

definition gallery_document :: "Repository \<Rightarrow> Gallery \<Rightarrow> (string \<times> document) option" where
  "gallery_document r g =
     (if Gallery_LoadFiles (rGallery r) g \<noteq> None then None
      else
        on_ok (gallery_ToBasicJSON (rGallery r) g) (\<lambda>j0.
          if folder_missing r g then None
          else
            on_ok (gallery_GetStudioName (rGallery r) g) (\<lambda>studio.
            on_ok (Performer_FindByGalleryID (rPerformer r) (Gallery_ID g)) (\<lambda>ps.
            on_ok (Tag_FindByGalleryID (rTag r) (Gallery_ID g)) (\<lambda>tgs.
            on_ok (gallery_GetGalleryChaptersJSON (rGallery r) g) (\<lambda>chapters.
              (let j = j0\<lparr>gj_Studio := studio, gj_Performers := map Performer_Name ps,
                          gj_Chapters := chapters, gj_Tags := map Tag_Name tgs\<rparr>;
                   basename = (if Gallery_Path g \<noteq> [] then Base (Gallery_Path g)
                               else Gallery_Title g)
               in saved (rSys r) DGalleries
                    (GalleryJSON_Filename (rGallery r) j basename (Itoa (Gallery_ID g)))
                    (DocGallery j))))))))"

definition performer_document :: "Repository \<Rightarrow> Performer \<Rightarrow> (string \<times> document) option" where
  "performer_document r p =
     on_ok (performer_ToJSON (rPerformer r) p) (\<lambda>j0.
     on_ok (Tag_FindByPerformerID (rTag r) (Performer_ID p)) (\<lambda>tgs.
       (let j = j0\<lparr>pj_Tags := map Tag_Name tgs\<rparr>
        in saved (rSys r) DPerformers (PerformerJSON_Filename (rPerformer r) j)
             (DocPerformer j))))"

definition studio_document :: "Repository \<Rightarrow> Studio \<Rightarrow> (string \<times> document) option" where
  "studio_document r s =
     on_ok (studio_ToJSON (rStudio r) s) (\<lambda>j.
       saved (rSys r) DStudios (StudioJSON_Filename (rStudio r) j) (DocStudio j))"

definition tag_document :: "Repository \<Rightarrow> Tag \<Rightarrow> (string \<times> document) option" where
  "tag_document r x =
     on_ok (tag_ToJSON (rTag r) x) (\<lambda>j.
       saved (rSys r) DTags (TagJSON_Filename (rTag r) j) (DocTag j))"

definition movie_document :: "Repository \<Rightarrow> Movie \<Rightarrow> (string \<times> document) option" where
  "movie_document r m =
     on_ok (movie_ToJSON (rMovie r) m) (\<lambda>j.
       saved (rSys r) DMovies (MovieJSON_Filename (rMovie r) j) (DocMovie j))"

text \<open>
  The rows a pool is to export when it starts in a given state, by the rule of the
  specification.
\<close>

definition scene_rows :: "Repository \<Rightarrow> state \<Rightarrow> Scene list" where
  "scene_rows r t = spec_rows (full t) (scenes t) (Scene_All (rScene r)) (Scene_FindMany (rScene r))"

definition image_rows :: "Repository \<Rightarrow> state \<Rightarrow> Image list" where
  "image_rows r t = spec_rows (full t) (images t) (Image_All (rImage r)) (Image_FindMany (rImage r))"

definition gallery_rows :: "Repository \<Rightarrow> state \<Rightarrow> Gallery list" where
  "gallery_rows r t =
     spec_rows (full t) (galleries t) (Gallery_All (rGallery r)) (Gallery_FindMany (rGallery r))"

definition movie_rows :: "Repository \<Rightarrow> state \<Rightarrow> Movie list" where
  "movie_rows r t = spec_rows (full t) (movies t) (Movie_All (rMovie r)) (Movie_FindMany (rMovie r))"

definition performer_rows :: "Repository \<Rightarrow> state \<Rightarrow> Performer list" where
  "performer_rows r t =
     spec_rows (full t) (performers t) (Performer_All (rPerformer r))
       (Performer_FindMany (rPerformer r))"

definition studio_rows :: "Repository \<Rightarrow> state \<Rightarrow> Studio list" where
  "studio_rows r t =
     spec_rows (full t) (studios t) (Studio_All (rStudio r)) (Studio_FindMany (rStudio r))"

definition tag_rows :: "Repository \<Rightarrow> state \<Rightarrow> Tag list" where
  "tag_rows r t = spec_rows (full t) (tags t) (Tag_All (rTag r)) (Tag_FindMany (rTag r))"

text \<open>
  What is shown of each pool, with \<open>fetched\<close> the outcome of its fetch by the rule of the
  specification and \<open>rows\<close> the rows of that outcome:

  \<^item> the pool is the common pool text run on \<open>fetched\<close>: those rows are fed to the worker,
    each once, in their order;
  \<^item> it returns on a task that holds all its selectors or does not include dependencies;
  \<^item> when it returns, the documents it has added to its directory are, in the order of
    the rows, the documents of the rows that have one; it has logged at least one error
    for each row without a document, and one more when the fetch failed; and in numbers,
    at most one document per row and exactly one per row when no error is logged;
  \<^item> one pass of the worker adds the document of its row when there is one, and
    otherwise adds no document and logs an error;
  \<^item> a failed fetch leaves the error line and the two lines of the pool and nothing
    else;
  \<^item> with nothing selected nothing is fetched, and the pool leaves only its two lines.
\<close>

definition pool_exports ::
  "jdir \<Rightarrow> string \<Rightarrow> (nat \<Rightarrow> bool) \<Rightarrow> ('a \<Rightarrow> state \<Rightarrow> failure + state)
     \<Rightarrow> ('a \<Rightarrow> (string \<times> document) option) \<Rightarrow> (state \<Rightarrow> failure + state)
     \<Rightarrow> exportSpec option \<Rightarrow> (error + 'a list) \<Rightarrow> (int list \<Rightarrow> error + 'a list)
     \<Rightarrow> state \<Rightarrow> bool" where
  "pool_exports d name prog body doc run sel fetch_all fetch_ids t =
     (let fetched = spec_fetch (full t) sel fetch_all fetch_ids;
          rows = rows_of fetched
      in run t = pool name prog body fetched t
       \<and> (specs_present t \<or> \<not> includeDependencies t \<longrightarrow> (\<exists>t'. run t = Inr t'))
       \<and> (\<forall>t'. run t = Inr t' \<longrightarrow>
             docs d t' = docs d t @ List.map_filter doc rows
           \<and> nerr t + length (filter (\<lambda>x. doc x = None) rows) + (if isl fetched then 1 else 0)
               \<le> nerr t'
           \<and> counts d (length rows) t t')
       \<and> (\<forall>x s s'. includeDependencies s = includeDependencies t \<longrightarrow> body x s = Inr s' \<longrightarrow>
             docs d s' = docs d s @ List.map_filter doc [x]
           \<and> (doc x = None \<longrightarrow> nerr s < nerr s'))
       \<and> (\<forall>e. fetched = Inl e \<longrightarrow>
             run t = Inr (logf LInfo (''['' @ name @ ''] export complete'')
                           (logf LInfo (''['' @ name @ ''] exporting'')
                             (logf LError (''['' @ name @ ''] failed to fetch '' @ name) t))))
       \<and> (\<not> full t \<and> \<not> spec_all sel \<and> no_ids sel \<longrightarrow>
             fetched = Inr []
           \<and> run t = Inr (logf LInfo (''['' @ name @ ''] export complete'')
                           (logf LInfo (''['' @ name @ ''] exporting'') t))))"

section \<open>Properties\<close>

subsection \<open>Effects of the primitive steps\<close>

lemma fold_exportFile:
  "fold (exportFile sys) fl s =
     s\<lparr>fs := fs s @ files_written sys fl, trace := trace s @ files_failed sys fl\<rparr>"
proof (induction fl arbitrary: s)
  case Nil
  show ?case by (simp add: files_written_def files_failed_def)
next
  case (Cons f fl)
  show ?case
    by (simp add: Cons.IH)
       (simp add: exportFile_def save_log_def save_def logf_def files_written_def
          files_failed_def Let_def split: option.splits)
qed

lemma log_gallery_files_eq:
  "log_gallery_files r m gs s = s\<lparr>trace := trace s @ galleries_failed r m gs\<rparr>"
  unfolding log_gallery_files_def
proof (induction gs arbitrary: s)
  case Nil
  show ?case by (simp add: galleries_failed_def)
next
  case (Cons g gs)
  show ?case
    by (simp add: Cons.IH) (simp add: logf_def galleries_failed_def split: option.splits)
qed

lemma markers_append [simp]: "markers (a @ b) = markers a @ markers b"
  by (simp add: markers_def)

lemma markers_Nil [simp]: "markers [] = []"
  by (simp add: markers_def)

lemma markers_files_failed [simp]: "markers (files_failed sys fl) = []"
  by (induction fl) (auto simp: markers_def files_failed_def split: option.splits)

lemma markers_galleries_failed [simp]: "markers (galleries_failed r m gs) = []"
  by (induction gs) (auto simp: markers_def galleries_failed_def split: option.splits)

lemma files_written_dir: "e \<in> set (files_written sys fl) \<Longrightarrow> fst e = DFiles"
  by (induction fl) (auto simp: files_written_def split: option.splits)

lemma filter_files_written [simp]:
  "d \<noteq> DFiles \<Longrightarrow> filter (\<lambda>e. fst e = d) (files_written sys fl) = []"
  by (auto simp: filter_empty_conv dest: files_written_dir)

text \<open>What the primitive steps keep.\<close>

lemma kept_logf [simp]: "l \<noteq> LInfo \<Longrightarrow> kept (logf l m s) = kept s"
  by (simp add: kept_def base_def shape_def logf_def markers_def)

lemma kept_save_log [simp]: "kept (save_log sys d fn doc m s) = kept s"
  by (simp add: kept_def base_def shape_def save_log_def save_def logf_def markers_def
      split: option.splits)

lemma kept_fold_exportFile [simp]: "kept (fold (exportFile sys) fl s) = kept s"
  by (simp add: fold_exportFile kept_def base_def shape_def)

lemma kept_exportFolder [simp]: "kept (exportFolder sys f s) = kept s"
  by (simp add: exportFolder_def Let_def)

lemma kept_log_gallery_files [simp]: "kept (log_gallery_files r m gs s) = kept s"
  by (simp add: log_gallery_files_eq kept_def base_def shape_def)

lemma add_studios_kept: "add_studios xs s = Inr s' \<Longrightarrow> kept s' = kept s"
  by (auto simp: add_studios_def andThen_def spec_append_def kept_def base_def shape_def
      split: option.splits)

lemma add_galleries_kept: "add_galleries xs s = Inr s' \<Longrightarrow> kept s' = kept s"
  by (auto simp: add_galleries_def andThen_def spec_append_def kept_def base_def shape_def
      split: option.splits)

lemma add_tags_kept: "add_tags xs s = Inr s' \<Longrightarrow> kept s' = kept s"
  by (auto simp: add_tags_def andThen_def spec_append_def kept_def base_def shape_def
      split: option.splits)

lemma add_movies_kept: "add_movies xs s = Inr s' \<Longrightarrow> kept s' = kept s"
  by (auto simp: add_movies_def andThen_def spec_append_def kept_def base_def shape_def
      split: option.splits)

lemma add_performers_kept: "add_performers xs s = Inr s' \<Longrightarrow> kept s' = kept s"
  by (auto simp: add_performers_def andThen_def spec_append_def kept_def base_def shape_def
      split: option.splits)

lemma add_studio_kept: "add_studio sid s = Inr s' \<Longrightarrow> kept s' = kept s"
  by (auto simp: add_studio_def dest: add_studios_kept split: option.splits)

lemmas add_kept = add_studios_kept add_galleries_kept add_tags_kept add_movies_kept
  add_performers_kept add_studio_kept

text \<open>What the primitive steps add to the error and document counts.\<close>

lemma nerr_logf [simp]: "nerr (logf l m s) = (if l = LError then Suc (nerr s) else nerr s)"
  by (simp add: nerr_def logf_def)

lemma ndocs_logf [simp]: "ndocs d (logf l m s) = ndocs d s"
  by (simp add: ndocs_def logf_def)

lemma nerr_save_log [simp]:
  "nerr (save_log sys d fn doc m s) = (if save_err sys d fn = None then nerr s else Suc (nerr s))"
  by (simp add: save_log_def save_def nerr_def logf_def split: option.splits)

lemma ndocs_save_log [simp]:
  "ndocs d' (save_log sys d fn doc m s) =
     (if save_err sys d fn = None \<and> d' = d then Suc (ndocs d' s) else ndocs d' s)"
  by (simp add: save_log_def save_def ndocs_def logf_def split: option.splits)

lemma nerr_fold_exportFile: "nerr s \<le> nerr (fold (exportFile sys) fl s)"
  by (simp add: fold_exportFile nerr_def)

lemma ndocs_fold_exportFile [simp]:
  "d \<noteq> DFiles \<Longrightarrow> ndocs d (fold (exportFile sys) fl s) = ndocs d s"
  by (simp add: fold_exportFile ndocs_def)

lemma nerr_exportFolder: "nerr s \<le> nerr (exportFolder sys f s)"
  by (simp add: exportFolder_def Let_def)

lemma ndocs_exportFolder [simp]: "d \<noteq> DFiles \<Longrightarrow> ndocs d (exportFolder sys f s) = ndocs d s"
  by (simp add: exportFolder_def Let_def)

lemma nerr_log_gallery_files: "nerr s \<le> nerr (log_gallery_files r m gs s)"
  by (simp add: log_gallery_files_eq nerr_def)

lemma ndocs_log_gallery_files [simp]: "ndocs d (log_gallery_files r m gs s) = ndocs d s"
  by (simp add: log_gallery_files_eq ndocs_def)

lemma add_studios_num: "add_studios xs s = Inr s' \<Longrightarrow> nerr s' = nerr s \<and> ndocs d s' = ndocs d s"
  by (auto simp: add_studios_def andThen_def spec_append_def nerr_def ndocs_def split: option.splits)

lemma add_galleries_num: "add_galleries xs s = Inr s' \<Longrightarrow> nerr s' = nerr s \<and> ndocs d s' = ndocs d s"
  by (auto simp: add_galleries_def andThen_def spec_append_def nerr_def ndocs_def split: option.splits)

lemma add_tags_num: "add_tags xs s = Inr s' \<Longrightarrow> nerr s' = nerr s \<and> ndocs d s' = ndocs d s"
  by (auto simp: add_tags_def andThen_def spec_append_def nerr_def ndocs_def split: option.splits)

lemma add_movies_num: "add_movies xs s = Inr s' \<Longrightarrow> nerr s' = nerr s \<and> ndocs d s' = ndocs d s"
  by (auto simp: add_movies_def andThen_def spec_append_def nerr_def ndocs_def split: option.splits)

lemma add_performers_num: "add_performers xs s = Inr s' \<Longrightarrow> nerr s' = nerr s \<and> ndocs d s' = ndocs d s"
  by (auto simp: add_performers_def andThen_def spec_append_def nerr_def ndocs_def split: option.splits)

lemma add_studio_num: "add_studio sid s = Inr s' \<Longrightarrow> nerr s' = nerr s \<and> ndocs d s' = ndocs d s"
  by (auto simp: add_studio_def dest: add_studios_num split: option.splits)

lemmas add_num = add_studios_num add_galleries_num add_tags_num add_movies_num
  add_performers_num add_studio_num

text \<open>An append panics only on a nil selector.\<close>

lemma specs_present_kept: "kept s' = kept s \<Longrightarrow> specs_present s' = specs_present s"
  by (simp add: kept_def base_def shape_def specs_present_def)

lemma incl_kept: "kept s' = kept s \<Longrightarrow> includeDependencies s' = includeDependencies s"
  by (simp add: kept_def base_def)

lemma add_studios_Inl: "add_studios xs s = Inl f \<Longrightarrow> \<not> specs_present s"
  by (auto simp: add_studios_def andThen_def spec_append_def specs_present_def split: option.splits)

lemma add_galleries_Inl: "add_galleries xs s = Inl f \<Longrightarrow> \<not> specs_present s"
  by (auto simp: add_galleries_def andThen_def spec_append_def specs_present_def split: option.splits)

lemma add_tags_Inl: "add_tags xs s = Inl f \<Longrightarrow> \<not> specs_present s"
  by (auto simp: add_tags_def andThen_def spec_append_def specs_present_def split: option.splits)

lemma add_movies_Inl: "add_movies xs s = Inl f \<Longrightarrow> \<not> specs_present s"
  by (auto simp: add_movies_def andThen_def spec_append_def specs_present_def split: option.splits)

lemma add_performers_Inl: "add_performers xs s = Inl f \<Longrightarrow> \<not> specs_present s"
  by (auto simp: add_performers_def andThen_def spec_append_def specs_present_def split: option.splits)

lemma add_studio_Inl: "add_studio sid s = Inl f \<Longrightarrow> \<not> specs_present s"
  by (auto simp: add_studio_def dest: add_studios_Inl split: option.splits)

lemmas add_Inl = add_studios_Inl add_galleries_Inl add_tags_Inl add_movies_Inl
  add_performers_Inl add_studio_Inl

subsection \<open>The dependency block of the scene worker\<close>

lemma sceneDeps_kept: "sceneDeps r x gs ps s = Inr (s', go) \<Longrightarrow> kept s' = kept s"
  unfolding sceneDeps_def andThen_def
  by (auto split: sum.split_asm dest!: add_kept)

lemma sceneDeps_num:
  "sceneDeps r x gs ps s = Inr (s', go) \<Longrightarrow>
     ndocs d s' = ndocs d s \<and> (if go then nerr s' = nerr s else nerr s' = Suc (nerr s))"
  unfolding sceneDeps_def andThen_def
  by (auto split: sum.split_asm dest!: add_num [where d = d])

lemma sceneDeps_Inl: "sceneDeps r x gs ps s = Inl f \<Longrightarrow> \<not> specs_present s"
  unfolding sceneDeps_def andThen_def
  by (auto split: sum.split_asm dest!: add_Inl dest: add_kept [THEN specs_present_kept])

lemma exportScene_kept: "exportScene r x s = Inr s' \<Longrightarrow> kept s' = kept s"
  unfolding exportScene_def Let_def andThen_def
  by (auto split: sum.split_asm option.split_asm if_split_asm option.split dest!: sceneDeps_kept)

subsection \<open>The workers keep, count and panic\<close>

lemma filter_error_files_failed [simp]: "filter is_error (files_failed sys fl) = files_failed sys fl"
  by (induction fl) (auto simp: files_failed_def split: option.splits)

lemma filter_error_galleries_failed [simp]:
  "filter is_error (galleries_failed r m gs) = galleries_failed r m gs"
  by (induction gs) (auto simp: galleries_failed_def split: option.splits)

lemma nerr_fold_exportFile_eq [simp]:
  "nerr (fold (exportFile sys) fl s) = nerr s + length (files_failed sys fl)"
  by (simp add: fold_exportFile nerr_def)

lemma nerr_log_gallery_files_eq [simp]:
  "nerr (log_gallery_files r m gs s) = nerr s + length (galleries_failed r m gs)"
  by (simp add: log_gallery_files_eq nerr_def)

lemma nerr_exportFolder_eq [simp]:
  "nerr (exportFolder sys f s) =
     (if save_err sys DFiles (DirEntry_Filename sys (folderToJSON f)) = None then nerr s
      else Suc (nerr s))"
  by (simp add: exportFolder_def Let_def)

lemma exportScene_num: "exportScene r x s = Inr s' \<Longrightarrow> counts DScenes 1 s s'"
  unfolding exportScene_def Let_def andThen_def counts_def
  by (auto split: sum.split_asm option.split_asm if_split_asm dest!: sceneDeps_num [where d = DScenes])


lemma present_logf [simp]: "specs_present (logf l m s) = specs_present s"
  by (simp add: specs_present_def logf_def)

lemma present_save_log [simp]: "specs_present (save_log sys d fn doc m s) = specs_present s"
  by (simp add: specs_present_def save_log_def save_def logf_def split: option.splits)

lemma present_fold_exportFile [simp]: "specs_present (fold (exportFile sys) fl s) = specs_present s"
  by (simp add: specs_present_def fold_exportFile)

lemma present_exportFolder [simp]: "specs_present (exportFolder sys f s) = specs_present s"
  by (simp add: exportFolder_def Let_def)

lemma present_log_gallery_files [simp]:
  "specs_present (log_gallery_files r m gs s) = specs_present s"
  by (simp add: specs_present_def log_gallery_files_eq)

lemma incl_logf [simp]: "includeDependencies (logf l m s) = includeDependencies s"
  by (simp add: logf_def)

lemma incl_save_log [simp]: "includeDependencies (save_log sys d fn doc m s) = includeDependencies s"
  by (simp add: save_log_def save_def logf_def split: option.splits)

lemma incl_fold_exportFile [simp]:
  "includeDependencies (fold (exportFile sys) fl s) = includeDependencies s"
  by (simp add: fold_exportFile)

lemma incl_exportFolder [simp]: "includeDependencies (exportFolder sys f s) = includeDependencies s"
  by (simp add: exportFolder_def Let_def)

lemma incl_log_gallery_files [simp]:
  "includeDependencies (log_gallery_files r m gs s) = includeDependencies s"
  by (simp add: log_gallery_files_eq)

lemmas add_present = add_kept [THEN specs_present_kept]

lemma exportScene_Inl: "exportScene r x s = Inl f \<Longrightarrow> includeDependencies s \<and> \<not> specs_present s"
  unfolding exportScene_def Let_def andThen_def
  by (auto split: sum.split_asm option.split_asm if_split_asm dest!: sceneDeps_Inl)

lemma exportImage_kept: "exportImage r x s = Inr s' \<Longrightarrow> kept s' = kept s"
  unfolding exportImage_def Let_def andThen_def
  by (auto split: sum.split_asm option.split_asm if_split_asm dest!: add_kept)

lemma exportImage_num: "exportImage r x s = Inr s' \<Longrightarrow> counts DImages 1 s s'"
  unfolding exportImage_def Let_def andThen_def counts_def
  by (auto split: sum.split_asm option.split_asm if_split_asm dest!: add_num [where d = DImages])

lemma exportImage_Inl: "exportImage r x s = Inl f \<Longrightarrow> includeDependencies s \<and> \<not> specs_present s"
  unfolding exportImage_def Let_def andThen_def
  by (auto split: sum.split_asm option.split_asm if_split_asm dest!: add_Inl add_present)

lemma galleryFolder_kept [simp]: "kept (fst (galleryFolder r g s)) = kept s"
  by (simp add: galleryFolder_def split: option.splits sum.splits)

lemma galleryFolder_present [simp]: "specs_present (fst (galleryFolder r g s)) = specs_present s"
  by (simp add: galleryFolder_def split: option.splits sum.splits)

lemma galleryFolder_incl [simp]:
  "includeDependencies (fst (galleryFolder r g s)) = includeDependencies s"
  by (simp add: galleryFolder_def split: option.splits sum.splits)

lemma galleryFolder_ndocs [simp]:
  "d \<noteq> DFiles \<Longrightarrow> ndocs d (fst (galleryFolder r g s)) = ndocs d s"
  by (simp add: galleryFolder_def split: option.splits sum.splits)

lemma galleryFolder_nerr:
  "nerr s \<le> nerr (fst (galleryFolder r g s))
   \<and> (\<not> snd (galleryFolder r g s) \<longrightarrow> nerr (fst (galleryFolder r g s)) = Suc (nerr s))"
  by (simp add: galleryFolder_def split: option.splits sum.splits)

lemma exportGallery_kept: "exportGallery r x s = Inr s' \<Longrightarrow> kept s' = kept s"
  unfolding exportGallery_def Let_def andThen_def
  by (auto split: sum.split_asm option.split_asm if_split_asm dest!: add_kept)

lemma exportGallery_num: "exportGallery r x s = Inr s' \<Longrightarrow> counts DGalleries 1 s s'"
  unfolding exportGallery_def Let_def andThen_def counts_def
  using galleryFolder_nerr [of "fold (exportFile (rSys r)) (Gallery_Files (rGallery r) x) s" r x]
  by (auto split: sum.split_asm option.split_asm if_split_asm dest!: add_num [where d = DGalleries])

lemma exportGallery_Inl: "exportGallery r x s = Inl f \<Longrightarrow> includeDependencies s \<and> \<not> specs_present s"
  unfolding exportGallery_def Let_def andThen_def
  by (auto split: sum.split_asm option.split_asm if_split_asm dest!: add_Inl add_present)

lemma exportPerformer_kept: "exportPerformer r x s = Inr s' \<Longrightarrow> kept s' = kept s"
  unfolding exportPerformer_def Let_def andThen_def
  by (auto split: sum.split_asm option.split_asm if_split_asm dest!: add_kept)

lemma exportPerformer_num: "exportPerformer r x s = Inr s' \<Longrightarrow> counts DPerformers 1 s s'"
  unfolding exportPerformer_def Let_def andThen_def counts_def
  by (auto split: sum.split_asm option.split_asm if_split_asm dest!: add_num [where d = DPerformers])

lemma exportPerformer_Inl:
  "exportPerformer r x s = Inl f \<Longrightarrow> includeDependencies s \<and> \<not> specs_present s"
  unfolding exportPerformer_def Let_def andThen_def
  by (auto split: sum.split_asm option.split_asm if_split_asm dest!: add_Inl add_present)

lemma exportStudio_kept: "exportStudio r x s = Inr s' \<Longrightarrow> kept s' = kept s"
  unfolding exportStudio_def Let_def
  by (auto split: sum.split_asm)

lemma exportStudio_num: "exportStudio r x s = Inr s' \<Longrightarrow> counts DStudios 1 s s'"
  unfolding exportStudio_def Let_def counts_def
  by (auto split: sum.split_asm if_split_asm)

lemma exportStudio_Inl: "exportStudio r x s = Inl f \<Longrightarrow> includeDependencies s \<and> \<not> specs_present s"
  unfolding exportStudio_def Let_def
  by (auto split: sum.split_asm)

lemma exportTag_kept: "exportTag r x s = Inr s' \<Longrightarrow> kept s' = kept s"
  unfolding exportTag_def Let_def
  by (auto split: sum.split_asm)

lemma exportTag_num: "exportTag r x s = Inr s' \<Longrightarrow> counts DTags 1 s s'"
  unfolding exportTag_def Let_def counts_def
  by (auto split: sum.split_asm if_split_asm)

lemma exportTag_Inl: "exportTag r x s = Inl f \<Longrightarrow> includeDependencies s \<and> \<not> specs_present s"
  unfolding exportTag_def Let_def
  by (auto split: sum.split_asm)

lemma exportMovie_kept: "exportMovie r x s = Inr s' \<Longrightarrow> kept s' = kept s"
  unfolding exportMovie_def Let_def andThen_def
  by (auto split: sum.split_asm option.split_asm if_split_asm dest!: add_kept)

lemma exportMovie_num: "exportMovie r x s = Inr s' \<Longrightarrow> counts DMovies 1 s s'"
  unfolding exportMovie_def Let_def andThen_def counts_def
  by (auto split: sum.split_asm option.split_asm if_split_asm dest!: add_num [where d = DMovies])

lemma exportMovie_Inl: "exportMovie r x s = Inl f \<Longrightarrow> includeDependencies s \<and> \<not> specs_present s"
  unfolding exportMovie_def Let_def andThen_def
  by (auto split: sum.split_asm option.split_asm if_split_asm dest!: add_Inl add_present)

subsection \<open>The pools\<close>

lemma counts_refl: "counts d 0 s s"
  by (simp add: counts_def)

lemma counts_trans: "counts d a s s1 \<Longrightarrow> counts d b s1 s2 \<Longrightarrow> counts d (a + b) s s2"
  by (auto simp: counts_def)

lemma counts_progress: "counts d n (logf LProgress m s) s' \<Longrightarrow> counts d n s s'"
  by (simp add: counts_def)

lemma feed_kept:
  assumes body: "\<And>x s s'. body x s = Inr s' \<Longrightarrow> kept s' = kept s"
  shows "feed prog m body i xs s = Inr s' \<Longrightarrow> kept s' = kept s"
proof (induction xs arbitrary: i s)
  case Nil
  then show ?case by simp
next
  case (Cons x xs)
  from Cons.prems obtain s1 where
    b: "body x (if prog i then logf LProgress m s else s) = Inr s1"
    and f: "feed prog m body (Suc i) xs s1 = Inr s'"
    by (auto split: sum.split_asm)
  from body [OF b] have "kept s1 = kept s" by (simp split: if_split_asm)
  with Cons.IH [OF f] show ?case by simp
qed

lemma feed_counts:
  assumes body: "\<And>x s s'. body x s = Inr s' \<Longrightarrow> counts d 1 s s'"
  shows "feed prog m body i xs s = Inr s' \<Longrightarrow> counts d (length xs) s s'"
proof (induction xs arbitrary: i s)
  case Nil
  then show ?case by (simp add: counts_refl)
next
  case (Cons x xs)
  from Cons.prems obtain s1 where
    b: "body x (if prog i then logf LProgress m s else s) = Inr s1"
    and f: "feed prog m body (Suc i) xs s1 = Inr s'"
    by (auto split: sum.split_asm)
  from body [OF b] have "counts d 1 s s1"
    by (auto split: if_split_asm intro: counts_progress)
  from counts_trans [OF this Cons.IH [OF f]] show ?case by simp
qed

lemma feed_Inl:
  assumes keep: "\<And>x s s'. body x s = Inr s' \<Longrightarrow> kept s' = kept s"
    and body: "\<And>x s f. body x s = Inl f \<Longrightarrow> includeDependencies s \<and> \<not> specs_present s"
  shows "feed prog m body i xs s = Inl f \<Longrightarrow> includeDependencies s \<and> \<not> specs_present s"
proof (induction xs arbitrary: i s)
  case Nil
  then show ?case by simp
next
  case (Cons x xs)
  let ?s0 = "if prog i then logf LProgress m s else s"
  show ?case
  proof (cases "body x ?s0")
    case (Inl g)
    from body [OF Inl] show ?thesis by (simp split: if_split_asm)
  next
    case (Inr s1)
    with Cons.prems have f: "feed prog m body (Suc i) xs s1 = Inl f" by simp
    from keep [OF Inr] have k: "kept s1 = kept s" by (simp split: if_split_asm)
    from Cons.IH [OF f] specs_present_kept [OF k] incl_kept [OF k] show ?thesis by simp
  qed
qed

lemma kept_log_fetch [simp]: "kept (log_fetch m fetched t) = kept t"
  by (simp add: log_fetch_def split: sum.splits)

lemma present_log_fetch [simp]: "specs_present (log_fetch m fetched t) = specs_present t"
  by (simp add: log_fetch_def split: sum.splits)

lemma incl_log_fetch [simp]: "includeDependencies (log_fetch m fetched t) = includeDependencies t"
  by (simp add: log_fetch_def split: sum.splits)

lemma kept_logf_Info:
  "kept (logf LInfo m s) = (base s, scenes s, images s, markers (trace s) @ [Log LInfo m])"
  by (simp add: kept_def base_def shape_def logf_def markers_def)

lemma kept_parts:
  "kept s' = kept s \<Longrightarrow>
     base s' = base s \<and> scenes s' = scenes s \<and> images s' = images s
     \<and> markers (trace s') = markers (trace s)"
  by (simp add: kept_def)

lemma pool_kept:
  assumes body: "\<And>x s s'. body x s = Inr s' \<Longrightarrow> kept s' = kept s"
  shows "pool name prog body fetched t = Inr t' \<Longrightarrow>
           kept t' = (base t, scenes t, images t, markers (trace t) @ pool_lines name)"
proof -
  assume p: "pool name prog body fetched t = Inr t'"
  let ?t2 = "logf LInfo (''['' @ name @ ''] exporting'')
               (log_fetch (''['' @ name @ ''] failed to fetch '' @ name) fetched t)"
  from p obtain t3 where
    f: "feed prog (''['' @ name @ ''] %d of %d'') body 0 (rows_of fetched) ?t2 = Inr t3"
    and t': "t' = logf LInfo (''['' @ name @ ''] export complete'') t3"
    by (auto simp: pool_def Let_def andThen_def split: sum.split_asm)
  let ?t1 = "log_fetch (''['' @ name @ ''] failed to fetch '' @ name) fetched t"
  have k: "kept t3 = kept ?t2"
    by (rule feed_kept [OF _ f]) (rule body)
  have k1: "kept ?t1 = kept t" by simp
  have "kept t' = (base t3, scenes t3, images t3,
          markers (trace t3) @ [Log LInfo (''['' @ name @ ''] export complete'')])"
    unfolding t' by (rule kept_logf_Info)
  also have "\<dots> = (base ?t2, scenes ?t2, images ?t2,
          markers (trace ?t2) @ [Log LInfo (''['' @ name @ ''] export complete'')])"
    using kept_parts [OF k] by simp
  also have "\<dots> = (base ?t1, scenes ?t1, images ?t1,
          (markers (trace ?t1) @ [Log LInfo (''['' @ name @ ''] exporting'')])
            @ [Log LInfo (''['' @ name @ ''] export complete'')])"
    using kept_logf_Info [of "''['' @ name @ ''] exporting''" ?t1] unfolding kept_def by simp
  also have "\<dots> = (base t, scenes t, images t,
          (markers (trace t) @ [Log LInfo (''['' @ name @ ''] exporting'')])
            @ [Log LInfo (''['' @ name @ ''] export complete'')])"
    using kept_parts [OF k1] by simp
  finally show ?thesis by (simp add: pool_lines_def)
qed

lemma nerr_log_fetch: "nerr (log_fetch m fetched t) = (case fetched of Inl e \<Rightarrow> Suc (nerr t) | Inr xs \<Rightarrow> nerr t)"
  by (simp add: log_fetch_def split: sum.splits)

lemma ndocs_log_fetch [simp]: "ndocs d (log_fetch m fetched t) = ndocs d t"
  by (simp add: log_fetch_def split: sum.splits)

lemma pool_counts:
  assumes body: "\<And>x s s'. body x s = Inr s' \<Longrightarrow> counts d 1 s s'"
  shows "pool name prog body fetched t = Inr t' \<Longrightarrow> counts d (length (rows_of fetched)) t t'"
proof -
  assume p: "pool name prog body fetched t = Inr t'"
  let ?t2 = "logf LInfo (''['' @ name @ ''] exporting'')
               (log_fetch (''['' @ name @ ''] failed to fetch '' @ name) fetched t)"
  from p obtain t3 where
    f: "feed prog (''['' @ name @ ''] %d of %d'') body 0 (rows_of fetched) ?t2 = Inr t3"
    and t': "t' = logf LInfo (''['' @ name @ ''] export complete'') t3"
    by (auto simp: pool_def Let_def andThen_def split: sum.split_asm)
  have "counts d (length (rows_of fetched)) ?t2 t3"
    by (rule feed_counts [OF _ f]) (rule body)
  then show ?thesis
    unfolding t' by (cases fetched) (auto simp: counts_def nerr_log_fetch rows_of_def)
qed

lemma pool_Inl:
  assumes keep: "\<And>x s s'. body x s = Inr s' \<Longrightarrow> kept s' = kept s"
    and body: "\<And>x s f. body x s = Inl f \<Longrightarrow> includeDependencies s \<and> \<not> specs_present s"
  shows "pool name prog body fetched t = Inl f \<Longrightarrow> includeDependencies t \<and> \<not> specs_present t"
proof -
  assume p: "pool name prog body fetched t = Inl f"
  let ?t2 = "logf LInfo (''['' @ name @ ''] exporting'')
               (log_fetch (''['' @ name @ ''] failed to fetch '' @ name) fetched t)"
  from p have fd: "feed prog (''['' @ name @ ''] %d of %d'') body 0 (rows_of fetched) ?t2 = Inl f"
    by (auto simp: pool_def Let_def andThen_def split: sum.split_asm)
  have "includeDependencies ?t2 \<and> \<not> specs_present ?t2"
    by (rule feed_Inl [OF _ _ fd]) (erule keep, erule body)
  then show ?thesis by simp
qed

lemma pool_fetch_failed:
  "pool name prog body (Inl e) t =
     Inr (logf LInfo (''['' @ name @ ''] export complete'')
           (logf LInfo (''['' @ name @ ''] exporting'')
             (logf LError (''['' @ name @ ''] failed to fetch '' @ name) t)))"
  by (simp add: pool_def Let_def andThen_def log_fetch_def rows_of_def)

lemma pool_no_rows:
  "pool name prog body (Inr []) t =
     Inr (logf LInfo (''['' @ name @ ''] export complete'')
           (logf LInfo (''['' @ name @ ''] exporting'') t))"
  by (simp add: pool_def Let_def andThen_def log_fetch_def rows_of_def)

subsection \<open>The seven pools\<close>

lemma base_logf [simp]: "base (logf l m s) = base s"
  by (simp add: base_def shape_def logf_def)

lemma ExportScenes_kept:
  "ExportScenes r t = Inr t' \<Longrightarrow>
     kept t' = (base t, scenes t, images t, markers (trace t) @ pool_lines ''scenes'')"
  unfolding ExportScenes_def by (rule pool_kept [OF exportScene_kept])

lemma ExportImages_kept:
  "ExportImages r t = Inr t' \<Longrightarrow>
     kept t' = (base t, scenes t, images t, markers (trace t) @ pool_lines ''images'')"
  unfolding ExportImages_def by (rule pool_kept [OF exportImage_kept])

lemma ExportGalleries_kept:
  "ExportGalleries r t = Inr t' \<Longrightarrow>
     kept t' = (base t, scenes t, images t, markers (trace t) @ pool_lines ''galleries'')"
  unfolding ExportGalleries_def by (rule pool_kept [OF exportGallery_kept])

lemma ExportMovies_kept:
  "ExportMovies r t = Inr t' \<Longrightarrow>
     kept t' = (base t, scenes t, images t, markers (trace t) @ pool_lines ''movies'')"
  unfolding ExportMovies_def by (rule pool_kept [OF exportMovie_kept])

lemma ExportPerformers_kept:
  "ExportPerformers r t = Inr t' \<Longrightarrow>
     kept t' = (base t, scenes t, images t, markers (trace t) @ pool_lines ''performers'')"
  unfolding ExportPerformers_def by (rule pool_kept [OF exportPerformer_kept])

lemma ExportStudios_kept:
  "ExportStudios r t = Inr t' \<Longrightarrow>
     kept t' = (base t, scenes t, images t, markers (trace t) @ pool_lines ''studios'')"
  unfolding ExportStudios_def by (rule pool_kept [OF exportStudio_kept])

lemma ExportTags_kept:
  "ExportTags r t = Inr t' \<Longrightarrow>
     kept t' = (base t, scenes t, images t, markers (trace t) @ pool_lines ''tags'')"
  unfolding ExportTags_def by (rule pool_kept [OF exportTag_kept])

lemma ExportScenes_Inl: "ExportScenes r t = Inl f \<Longrightarrow> includeDependencies t \<and> \<not> specs_present t"
  unfolding ExportScenes_def by (rule pool_Inl [OF exportScene_kept exportScene_Inl])

lemma ExportImages_Inl: "ExportImages r t = Inl f \<Longrightarrow> includeDependencies t \<and> \<not> specs_present t"
  unfolding ExportImages_def by (rule pool_Inl [OF exportImage_kept exportImage_Inl])

lemma ExportGalleries_Inl: "ExportGalleries r t = Inl f \<Longrightarrow> includeDependencies t \<and> \<not> specs_present t"
  unfolding ExportGalleries_def by (rule pool_Inl [OF exportGallery_kept exportGallery_Inl])

lemma ExportMovies_Inl: "ExportMovies r t = Inl f \<Longrightarrow> includeDependencies t \<and> \<not> specs_present t"
  unfolding ExportMovies_def by (rule pool_Inl [OF exportMovie_kept exportMovie_Inl])

lemma ExportPerformers_Inl: "ExportPerformers r t = Inl f \<Longrightarrow> includeDependencies t \<and> \<not> specs_present t"
  unfolding ExportPerformers_def by (rule pool_Inl [OF exportPerformer_kept exportPerformer_Inl])

lemma ExportStudios_Inl: "ExportStudios r t = Inl f \<Longrightarrow> includeDependencies t \<and> \<not> specs_present t"
  unfolding ExportStudios_def by (rule pool_Inl [OF exportStudio_kept exportStudio_Inl])

lemma ExportTags_Inl: "ExportTags r t = Inl f \<Longrightarrow> includeDependencies t \<and> \<not> specs_present t"
  unfolding ExportTags_def by (rule pool_Inl [OF exportTag_kept exportTag_Inl])

lemma base_present: "base s' = base s \<Longrightarrow> specs_present s' = specs_present s"
  by (simp add: base_def shape_def specs_present_def)

lemma base_incl: "base s' = base s \<Longrightarrow> includeDependencies s' = includeDependencies s"
  by (simp add: base_def)

lemma base_full: "base s' = base s \<Longrightarrow> full s' = full s"
  by (simp add: base_def)

lemma pools_kept:
  assumes "pools r t = Inr t'"
  shows "kept t' = (base t, scenes t, images t, markers (trace t) @ all_pool_lines)"
proof -
  from assms obtain t1 t2 t3 t4 t5 t6 where
    e1: "ExportScenes r t = Inr t1" and e2: "ExportImages r t1 = Inr t2"
    and e3: "ExportGalleries r t2 = Inr t3" and e4: "ExportMovies r t3 = Inr t4"
    and e5: "ExportPerformers r t4 = Inr t5" and e6: "ExportStudios r t5 = Inr t6"
    and e7: "ExportTags r t6 = Inr t'"
    unfolding pools_def andThen_def by (auto split: sum.split_asm)
  have k1: "kept t1 = (base t, scenes t, images t, markers (trace t) @ pool_lines ''scenes'')"
    by (rule ExportScenes_kept [OF e1])
  have k2: "kept t2 = (base t1, scenes t1, images t1, markers (trace t1) @ pool_lines ''images'')"
    by (rule ExportImages_kept [OF e2])
  have k3: "kept t3 = (base t2, scenes t2, images t2, markers (trace t2) @ pool_lines ''galleries'')"
    by (rule ExportGalleries_kept [OF e3])
  have k4: "kept t4 = (base t3, scenes t3, images t3, markers (trace t3) @ pool_lines ''movies'')"
    by (rule ExportMovies_kept [OF e4])
  have k5: "kept t5 = (base t4, scenes t4, images t4, markers (trace t4) @ pool_lines ''performers'')"
    by (rule ExportPerformers_kept [OF e5])
  have k6: "kept t6 = (base t5, scenes t5, images t5, markers (trace t5) @ pool_lines ''studios'')"
    by (rule ExportStudios_kept [OF e6])
  have k7: "kept t' = (base t6, scenes t6, images t6, markers (trace t6) @ pool_lines ''tags'')"
    by (rule ExportTags_kept [OF e7])
  from k1 k2 k3 k4 k5 k6 k7 show ?thesis
    unfolding kept_def all_pool_lines_def by simp
qed

lemma chain_Inl:
  assumes run: "andThen (A t) B = Inl f"
    and first: "\<And>g. A t = Inl g \<Longrightarrow> includeDependencies t \<and> \<not> specs_present t"
    and keep: "\<And>t1. A t = Inr t1 \<Longrightarrow>
                 includeDependencies t1 = includeDependencies t \<and> specs_present t1 = specs_present t"
    and rest: "\<And>t1. B t1 = Inl f \<Longrightarrow> includeDependencies t1 \<and> \<not> specs_present t1"
  shows "includeDependencies t \<and> \<not> specs_present t"
proof (cases "A t")
  case (Inl g)
  then show ?thesis by (rule first)
next
  case (Inr t1)
  with run have "B t1 = Inl f" by (simp add: andThen_def)
  from rest [OF this] keep [OF Inr] show ?thesis by simp
qed

lemma kept_same:
  "kept b = (base a, scenes a, images a, markers (trace a) @ l) \<Longrightarrow>
     includeDependencies b = includeDependencies a \<and> specs_present b = specs_present a"
  by (simp add: kept_def base_def shape_def specs_present_def)

lemma pools_Inl:
  assumes "pools r t = Inl f"
  shows "includeDependencies t \<and> \<not> specs_present t"
  using assms unfolding pools_def
  apply (rule chain_Inl)
    apply (erule ExportScenes_Inl)
   apply (erule ExportScenes_kept [THEN kept_same])
  apply (erule chain_Inl)
    apply (erule ExportImages_Inl)
   apply (erule ExportImages_kept [THEN kept_same])
  apply (erule chain_Inl)
    apply (erule ExportGalleries_Inl)
   apply (erule ExportGalleries_kept [THEN kept_same])
  apply (erule chain_Inl)
    apply (erule ExportMovies_Inl)
   apply (erule ExportMovies_kept [THEN kept_same])
  apply (erule chain_Inl)
    apply (erule ExportPerformers_Inl)
   apply (erule ExportPerformers_kept [THEN kept_same])
  apply (erule chain_Inl)
    apply (erule ExportStudios_Inl)
   apply (erule ExportStudios_kept [THEN kept_same])
  apply (erule ExportTags_Inl)
  done

subsection \<open>The pre-passes\<close>

lemma AppendUniques_append: "AppendUniques (AppendUniques vs xs) ys = AppendUniques vs (xs @ ys)"
  by (simp add: AppendUniques_def)

lemma AppendUniques_Nil [simp]: "AppendUniques vs [] = vs"
  by (simp add: AppendUniques_def)

lemma set_AppendUniques [simp]: "set (AppendUniques vs xs) = set vs \<union> set xs"
  unfolding AppendUniques_def
  by (induction xs arbitrary: vs) (auto simp: AppendUnique_def)

lemma distinct_AppendUniques: "distinct vs \<Longrightarrow> distinct (AppendUniques vs xs)"
  unfolding AppendUniques_def
  by (induction xs arbitrary: vs) (auto simp: AppendUnique_def)

lemma add_scenes_each_effect:
  assumes "scenes t = Some sc"
  shows "\<exists>t1. add_scenes_each ids t = Inr t1
           \<and> scenes t1 = Some (sc\<lparr>IDs := AppendUniques (IDs sc) ids\<rparr>)
           \<and> base t1 = base t \<and> images t1 = images t \<and> fs t1 = fs t \<and> trace t1 = trace t
           \<and> galleries t1 = galleries t"
proof (cases "ids = []")
  case True
  then show ?thesis using assms by (simp add: add_scenes_each_def)
next
  case False
  then show ?thesis using assms
    by (simp add: add_scenes_each_def andThen_def spec_append_def base_def shape_def)
qed

lemma add_images_each_effect:
  assumes "images t = Some im"
  shows "\<exists>t1. add_images_each ids t = Inr t1
           \<and> images t1 = Some (im\<lparr>IDs := AppendUniques (IDs im) ids\<rparr>)
           \<and> base t1 = base t \<and> scenes t1 = scenes t \<and> fs t1 = fs t \<and> trace t1 = trace t"
proof (cases "ids = []")
  case True
  then show ?thesis using assms by (simp add: add_images_each_def)
next
  case False
  then show ?thesis using assms
    by (simp add: add_images_each_def andThen_def spec_append_def base_def shape_def)
qed

lemma movieScenes_effect:
  assumes "scenes t = Some sc"
  shows "\<exists>t'. movieScenes r ms t = Inr t'
           \<and> scenes t' = Some (sc\<lparr>IDs := AppendUniques (IDs sc) (movie_scene_ids r ms)\<rparr>)
           \<and> base t' = base t \<and> images t' = images t \<and> fs t' = fs t
           \<and> markers (trace t') = markers (trace t) \<and> galleries t' = galleries t"
  using assms
proof (induction ms arbitrary: t sc)
  case Nil
  then show ?case by (simp add: movie_scene_ids_def)
next
  case (Cons m ms)
  show ?case
  proof (cases "Scene_FindByMovieID (rScene r) (Movie_ID m)")
    case (Inl e)
    let ?t1 = "logf LError ''[movies] failed to fetch scenes for movie'' t"
    have "scenes ?t1 = Some sc" using Cons.prems by (simp add: logf_def)
    from Cons.IH [OF this] Inl show ?thesis
      by (auto simp: movie_scene_ids_def logf_def markers_def base_def shape_def)
  next
    case (Inr scs)
    let ?ids = "map Scene_ID scs"
    let ?sc1 = "sc\<lparr>IDs := AppendUniques (IDs sc) ?ids\<rparr>"
    obtain t1 where a: "add_scenes_each ?ids t = Inr t1" and s1: "scenes t1 = Some ?sc1"
      and b1: "base t1 = base t" and i1: "images t1 = images t" and f1: "fs t1 = fs t"
      and m1: "trace t1 = trace t" "galleries t1 = galleries t"
      using add_scenes_each_effect [OF Cons.prems, of ?ids] by blast
    from Cons.IH [OF s1] obtain t' where
      r: "movieScenes r ms t1 = Inr t'"
      and s': "scenes t' = Some (?sc1\<lparr>IDs := AppendUniques (IDs ?sc1) (movie_scene_ids r ms)\<rparr>)"
      and rest: "base t' = base t1" "images t' = images t1" "fs t' = fs t1"
        "markers (trace t') = markers (trace t1)" "galleries t' = galleries t1"
      by blast
    have ids: "movie_scene_ids r (m # ms) = ?ids @ movie_scene_ids r ms"
      using Inr by (simp add: movie_scene_ids_def)
    show ?thesis
      using Inr a r s' rest b1 i1 f1 m1
      by (simp add: andThen_def ids AppendUniques_append)
  qed
qed

lemma galleryImages_effect:
  assumes "images t = Some im"
  shows "\<exists>t'. galleryImages r gs t = Inr t'
           \<and> images t' = Some (im\<lparr>IDs := AppendUniques (IDs im) (gallery_image_ids r gs)\<rparr>)
           \<and> base t' = base t \<and> scenes t' = scenes t \<and> fs t' = fs t
           \<and> markers (trace t') = markers (trace t)"
  using assms
proof (induction gs arbitrary: t im)
  case Nil
  then show ?case by (simp add: gallery_image_ids_def)
next
  case (Cons g gs)
  have skip: "\<And>m. gallery_image_ids r (g # gs) = gallery_image_ids r gs \<Longrightarrow>
      galleryImages r (g # gs) t = galleryImages r gs (logf LError m t) \<Longrightarrow> ?case"
  proof -
    fix m
    assume ids: "gallery_image_ids r (g # gs) = gallery_image_ids r gs"
      and run: "galleryImages r (g # gs) t = galleryImages r gs (logf LError m t)"
    have "images (logf LError m t) = Some im" using Cons.prems by (simp add: logf_def)
    from Cons.IH [OF this] show ?case
      unfolding run ids by (auto simp: logf_def markers_def base_def shape_def)
  qed
  show ?case
  proof (cases "Gallery_LoadFiles (rGallery r) g")
    case (Some e)
    then show ?thesis by (intro skip) (simp_all add: gallery_image_ids_def)
  next
    case None
    show ?thesis
    proof (cases "Image_FindByGalleryID (rImage r) (Gallery_ID g)")
      case (Inl e)
      with None show ?thesis by (intro skip) (simp_all add: gallery_image_ids_def)
    next
      case (Inr ims)
      let ?ids = "map Image_ID ims"
      let ?im1 = "im\<lparr>IDs := AppendUniques (IDs im) ?ids\<rparr>"
      obtain t1 where a: "add_images_each ?ids t = Inr t1" and s1: "images t1 = Some ?im1"
        and b1: "base t1 = base t" and i1: "scenes t1 = scenes t" and f1: "fs t1 = fs t"
        and m1: "trace t1 = trace t"
        using add_images_each_effect [OF Cons.prems, of ?ids] by blast
      from Cons.IH [OF s1] obtain t' where
        r: "galleryImages r gs t1 = Inr t'"
        and s': "images t' = Some (?im1\<lparr>IDs := AppendUniques (IDs ?im1) (gallery_image_ids r gs)\<rparr>)"
        and rest: "base t' = base t1" "scenes t' = scenes t1" "fs t' = fs t1"
          "markers (trace t') = markers (trace t1)"
        by blast
      have ids: "gallery_image_ids r (g # gs) = ?ids @ gallery_image_ids r gs"
        using None Inr by (simp add: gallery_image_ids_def)
      show ?thesis
        using None Inr a r s' rest b1 i1 f1 m1
        by (simp add: andThen_def ids AppendUniques_append)
    qed
  qed
qed

text \<open>Each pre-pass as a whole.\<close>

lemma populateMovieScenes_effect:
  assumes "scenes t = Some sc"
  shows "\<exists>t'. populateMovieScenes r t = Inr t'
           \<and> scenes t' = Some (sc\<lparr>IDs := AppendUniques (IDs sc)
                (movie_scene_ids r (rows_of (select_rows (full t) (movies t)
                    (Movie_All (rMovie r)) (Movie_FindMany (rMovie r)))))\<rparr>)
           \<and> base t' = base t \<and> images t' = images t \<and> fs t' = fs t
           \<and> markers (trace t') = markers (trace t)
                @ [Enter ''populateMovieScenes'', Leave ''populateMovieScenes'']
           \<and> galleries t' = galleries t"
proof -
  let ?t0 = "t\<lparr>trace := trace t @ [Enter ''populateMovieScenes'']\<rparr>"
  let ?rows = "select_rows (full t) (movies t) (Movie_All (rMovie r)) (Movie_FindMany (rMovie r))"
  let ?t1 = "log_fetch ''[movies] failed to fetch movies'' ?rows ?t0"
  have s1: "scenes ?t1 = Some sc"
    using assms by (simp add: log_fetch_def logf_def split: sum.splits)
  have k1: "base ?t1 = base t \<and> images ?t1 = images t \<and> fs ?t1 = fs t
      \<and> markers (trace ?t1) = markers (trace t) @ [Enter ''populateMovieScenes'']
      \<and> galleries ?t1 = galleries t"
    by (simp add: log_fetch_def logf_def base_def shape_def markers_def split: sum.splits)
  from movieScenes_effect [OF s1, of r "rows_of ?rows"] obtain t2 where
    run: "movieScenes r (rows_of ?rows) ?t1 = Inr t2"
    and s2: "scenes t2 = Some (sc\<lparr>IDs := AppendUniques (IDs sc) (movie_scene_ids r (rows_of ?rows))\<rparr>)"
    and k2: "base t2 = base ?t1" "images t2 = images ?t1" "fs t2 = fs ?t1"
      "markers (trace t2) = markers (trace ?t1)" "galleries t2 = galleries ?t1"
    by blast
  have "populateMovieScenes r t = Inr (t2\<lparr>trace := trace t2 @ [Leave ''populateMovieScenes'']\<rparr>)"
    using run by (simp add: populateMovieScenes_def Let_def andThen_def)
  then show ?thesis
    using s2 k1 k2 by (simp add: base_def shape_def markers_def)
qed

lemma populateGalleryImages_effect:
  assumes "images t = Some im"
  shows "\<exists>t'. populateGalleryImages r t = Inr t'
           \<and> images t' = Some (im\<lparr>IDs := AppendUniques (IDs im)
                (gallery_image_ids r (rows_of (select_rows (full t) (galleries t)
                    (Gallery_All (rGallery r)) (Gallery_FindMany (rGallery r)))))\<rparr>)
           \<and> base t' = base t \<and> scenes t' = scenes t \<and> fs t' = fs t
           \<and> markers (trace t') = markers (trace t)
                @ [Enter ''populateGalleryImages'', Leave ''populateGalleryImages'']"
proof -
  let ?t0 = "t\<lparr>trace := trace t @ [Enter ''populateGalleryImages'']\<rparr>"
  let ?rows = "select_rows (full t) (galleries t) (Gallery_All (rGallery r))
                 (Gallery_FindMany (rGallery r))"
  let ?t1 = "log_fetch ''[galleries] failed to fetch galleries'' ?rows ?t0"
  have s1: "images ?t1 = Some im"
    using assms by (simp add: log_fetch_def logf_def split: sum.splits)
  have k1: "base ?t1 = base t \<and> scenes ?t1 = scenes t \<and> fs ?t1 = fs t
      \<and> markers (trace ?t1) = markers (trace t) @ [Enter ''populateGalleryImages'']"
    by (simp add: log_fetch_def logf_def base_def shape_def markers_def split: sum.splits)
  from galleryImages_effect [OF s1, of r "rows_of ?rows"] obtain t2 where
    run: "galleryImages r (rows_of ?rows) ?t1 = Inr t2"
    and s2: "images t2 = Some (im\<lparr>IDs := AppendUniques (IDs im) (gallery_image_ids r (rows_of ?rows))\<rparr>)"
    and k2: "base t2 = base ?t1" "scenes t2 = scenes ?t1" "fs t2 = fs ?t1"
      "markers (trace t2) = markers (trace ?t1)"
    by blast
  have "populateGalleryImages r t = Inr (t2\<lparr>trace := trace t2 @ [Leave ''populateGalleryImages'']\<rparr>)"
    using run by (simp add: populateGalleryImages_def Let_def andThen_def)
  then show ?thesis
    using s2 k1 k2 by (simp add: base_def shape_def markers_def)
qed

text \<open>The selectors as the pre-passes leave them.\<close>

lemma pre_expand_effect:
  assumes "pre_expand r t = Inr t'"
  shows "base t' = base t \<and> fs t' = fs t
     \<and> markers (trace t') = markers (trace t) @ pre_markers t
     \<and> scenes t' =
         (if \<not> full t \<and> \<not> spec_all (scenes t) \<and> includeDependencies t
          then map_option (\<lambda>sc. sc\<lparr>IDs := AppendUniques (IDs sc)
                 (movie_scene_ids r (rows_of (select_rows (full t) (movies t)
                    (Movie_All (rMovie r)) (Movie_FindMany (rMovie r)))))\<rparr>) (scenes t)
          else scenes t)
     \<and> images t' =
         (if \<not> full t \<and> \<not> spec_all (images t)
          then map_option (\<lambda>im. im\<lparr>IDs := AppendUniques (IDs im)
                 (gallery_image_ids r (rows_of (select_rows (full t) (galleries t)
                    (Gallery_All (rGallery r)) (Gallery_FindMany (rGallery r)))))\<rparr>) (images t)
          else images t)"
proof (cases "full t")
  case True
  with assms show ?thesis by (simp add: pre_expand_def pre_markers_def)
next
  case False
  from assms False obtain sc where sc: "scenes t = Some sc"
    by (auto simp: pre_expand_def split: option.split_asm)
  let ?A = "\<not> all sc \<and> includeDependencies t"
  obtain t1 where
    a: "(if ?A then populateMovieScenes r t else Inr t) = Inr t1"
    and s1: "scenes t1 = (if ?A then Some (sc\<lparr>IDs := AppendUniques (IDs sc)
                (movie_scene_ids r (rows_of (select_rows (full t) (movies t)
                    (Movie_All (rMovie r)) (Movie_FindMany (rMovie r)))))\<rparr>) else scenes t)"
    and k1: "base t1 = base t" "images t1 = images t" "fs t1 = fs t" "galleries t1 = galleries t"
    and m1: "markers (trace t1) = markers (trace t)
               @ (if ?A then [Enter ''populateMovieScenes'', Leave ''populateMovieScenes''] else [])"
    using populateMovieScenes_effect [OF sc, of r] by (cases ?A) auto
  from assms False sc a obtain im where im: "images t1 = Some im"
    and b: "(if \<not> all im then populateGalleryImages r t1 else Inr t1) = Inr t'"
    by (auto simp: pre_expand_def andThen_def split: option.split_asm)
  have f1: "full t1 = full t" using k1(1) by (simp add: base_def)
  obtain
    s2: "images t' = (if \<not> all im then Some (im\<lparr>IDs := AppendUniques (IDs im)
                (gallery_image_ids r (rows_of (select_rows (full t) (galleries t)
                    (Gallery_All (rGallery r)) (Gallery_FindMany (rGallery r)))))\<rparr>) else images t1)"
    and k2: "base t' = base t1" "scenes t' = scenes t1" "fs t' = fs t1"
    and m2: "markers (trace t') = markers (trace t1)
               @ (if \<not> all im then [Enter ''populateGalleryImages'', Leave ''populateGalleryImages''] else [])"
    using populateGalleryImages_effect [OF im, of r] b f1 k1(4) by (cases "all im") auto
  from im k1(2) have im0: "images t = Some im" by simp
  show ?thesis
    using False sc im0 s1 s2 k1 k2 m1 m2
    by (simp add: pre_markers_def spec_all_def)
qed

lemma pre_expand_total:
  assumes "full t \<or> (scenes t \<noteq> None \<and> images t \<noteq> None)"
  shows "\<exists>t'. pre_expand r t = Inr t'"
proof (cases "full t")
  case True
  then show ?thesis by (simp add: pre_expand_def)
next
  case False
  with assms obtain sc im where sc: "scenes t = Some sc" and im: "images t = Some im" by auto
  let ?A = "\<not> all sc \<and> includeDependencies t"
  obtain t1 where a: "(if ?A then populateMovieScenes r t else Inr t) = Inr t1"
    and i1: "images t1 = images t"
    using populateMovieScenes_effect [OF sc, of r] by (cases ?A) auto
  from i1 im have im1: "images t1 = Some im" by simp
  obtain t2 where "(if \<not> all im then populateGalleryImages r t1 else Inr t1) = Inr t2"
    using populateGalleryImages_effect [OF im1, of r] by (cases "all im") auto
  with False sc a im1 show ?thesis by (simp add: pre_expand_def andThen_def)
qed

subsection \<open>The transaction body\<close>

lemma txn_body_effect:
  assumes "txn_body r t = Inr t'"
  shows "\<exists>t0. pre_expand r t = Inr t0 \<and> pools r t0 = Inr t'
     \<and> base t' = base t \<and> scenes t' = scenes t0 \<and> images t' = images t0
     \<and> markers (trace t') = markers (trace t) @ pre_markers t @ all_pool_lines"
proof -
  from assms obtain t0 where p: "pre_expand r t = Inr t0" and s: "pools r t0 = Inr t'"
    by (auto simp: txn_body_def andThen_def split: sum.split_asm)
  from pre_expand_effect [OF p] have
    b0: "base t0 = base t" and m0: "markers (trace t0) = markers (trace t) @ pre_markers t"
    by simp_all
  from pools_kept [OF s] have
    "base t' = base t0" "scenes t' = scenes t0" "images t' = images t0"
    "markers (trace t') = markers (trace t0) @ all_pool_lines"
    by (simp_all add: kept_def)
  with p s b0 m0 show ?thesis by simp
qed

lemma txn_body_total:
  assumes "specs_present t \<or> (\<not> includeDependencies t \<and> (full t \<or> (scenes t \<noteq> None \<and> images t \<noteq> None)))"
  shows "\<exists>t'. txn_body r t = Inr t'"
proof -
  from assms have "full t \<or> (scenes t \<noteq> None \<and> images t \<noteq> None)"
    by (auto simp: specs_present_def)
  from pre_expand_total [OF this] obtain t0 where p: "pre_expand r t = Inr t0" by blast
  from pre_expand_effect [OF p] have b0: "base t0 = base t" by simp
  have same: "specs_present t0 = specs_present t" "includeDependencies t0 = includeDependencies t"
    using b0 by (simp_all add: base_def shape_def specs_present_def)
  show ?thesis
  proof (cases "pools r t0")
    case (Inl f)
    from pools_Inl [OF Inl] same assms show ?thesis by simp
  next
    case (Inr t')
    with p show ?thesis by (simp add: txn_body_def andThen_def)
  qed
qed

subsection \<open>Selectors from the caller's input\<close>

lemma atoi_all_sound:
  "atoi_all ss = Some js \<Longrightarrow> \<forall>i \<in> set js. \<exists>s \<in> set ss. Atoi s = Some i"
  by (induction ss arbitrary: js) (auto split: option.splits)

lemma parses_only_conv_strict: "parses_only conv_strict"
  unfolding parses_only_def conv_strict_def
  by (auto split: option.splits dest: atoi_all_sound)

lemma select_rows_empty:
  "\<not> all e \<Longrightarrow> IDs e = [] \<Longrightarrow> select_rows False (Some e) rall rfind = Inr []"
  by (simp add: select_rows_def spec_all_def)

lemma atoi_abc: "Atoi ''abc'' = None"
  by (simp add: Atoi_def is_digit_def)

lemma atoi_x1: "Atoi ''x1'' = None"
  by (simp add: Atoi_def is_digit_def)


subsection \<open>Running on the small library\<close>

lemmas demo_defs = demo_def demo_SceneEnv_def demo_ImageEnv_def demo_GalleryEnv_def
  demo_PerformerEnv_def demo_StudioEnv_def demo_TagEnv_def demo_MovieEnv_def demo_Sys_def
  demo_scenes_def demo_scene_def demo_studios_def demo_movies_def demo_file_def

lemmas task_defs = no_input_def ids_input_def all_input_def demo_task_def on_host_def
  CreateExportTask_def newExportSpec_def conv_strict_def Let_def

lemma atoi_1: "Atoi ''1'' = Some 1"
  by (simp add: Atoi_def is_digit_def digits_val_def)

lemma atoi_2: "Atoi ''2'' = Some 2"
  by (simp add: Atoi_def is_digit_def digits_val_def)

lemma atoi_5: "Atoi ''5'' = Some 5"
  by (simp add: Atoi_def is_digit_def digits_val_def)

lemmas atoi_simps = atoi_1 atoi_2 atoi_5

lemma demo_task_present: "specs_present (demo_task input)"
  by (simp add: specs_present_def demo_task_def on_host_def CreateExportTask_def Let_def)

lemma demo_task_partial: "\<not> full (demo_task input)"
  by (simp add: demo_task_def on_host_def CreateExportTask_def Let_def)

lemma demo_task_trace: "trace (demo_task input) = []"
  by (simp add: demo_task_def on_host_def)

lemmas run_defs = Start_def Start_in_def EmptyJSONDirs_def RemoveDir_def after_txn_def generateDownload_def
  zipFiles_def walkWarn_def zipFile_def files_in_def content_of_def WithTxn_def txn_body_def
  pools_def pre_expand_def populateMovieScenes_def populateGalleryImages_def
  ExportScenes_def ExportImages_def ExportGalleries_def ExportMovies_def ExportPerformers_def
  ExportStudios_def ExportTags_def pool_def select_rows_def spec_all_def rows_of_def
  log_fetch_def logf_def andThen_def every100_def always_def
  exportScene_def exportImage_def exportGallery_def exportPerformer_def exportStudio_def
  exportTag_def exportMovie_def sceneDeps_def galleryFolder_def log_gallery_files_def
  exportFile_def exportFolder_def fileToJSON_def folderToJSON_def save_log_def save_def
  add_studios_def add_galleries_def add_tags_def add_movies_def add_performers_def
  add_studio_def add_scenes_each_def add_images_each_def spec_append_def
  AppendUniques_def AppendUnique_def Base_def Join_def ToSlash_def GetJSONPaths_def
  tree_names_def zip_names_def

subsection \<open>The rows of a pool\<close>

lemma spec_rows_select: "rows_of (select_rows fl sel rall rfind) = spec_rows fl sel rall rfind"
  by (cases sel) (auto simp: select_rows_def spec_rows_def spec_all_def rows_of_def)

lemma select_rows_nothing:
  "\<not> fl \<Longrightarrow> \<not> spec_all sel \<Longrightarrow> no_ids sel \<Longrightarrow> select_rows fl sel rall rfind = Inr []"
  by (cases sel) (auto simp: select_rows_def no_ids_def)

lemma pool_resolvesI:
  assumes run: "\<And>t. run t = pool name prog body (select_rows (full t) (sel t) rall rfind) t"
    and keep: "\<And>x s s'. body x s = Inr s' \<Longrightarrow> kept s' = kept s"
    and num: "\<And>x s s'. body x s = Inr s' \<Longrightarrow> counts d 1 s s'"
    and bad: "\<And>x s f. body x s = Inl f \<Longrightarrow> includeDependencies s \<and> \<not> specs_present s"
  shows "pool_resolves d name run (sel t) rall rfind t"
  unfolding pool_resolves_def
proof (intro conjI impI allI)
  assume ok: "specs_present t \<or> \<not> includeDependencies t"
  show "\<exists>t'. run t = Inr t'"
  proof (cases "run t")
    case (Inl f)
    then have "pool name prog body (select_rows (full t) (sel t) rall rfind) t = Inl f"
      by (simp add: run)
    then have "includeDependencies t \<and> \<not> specs_present t"
      by (rule pool_Inl [rotated 2]) (erule keep, erule bad)
    with ok show ?thesis by simp
  next
    case (Inr t')
    then show ?thesis by blast
  qed
next
  fix t'
  assume "run t = Inr t'"
  then have p: "pool name prog body (select_rows (full t) (sel t) rall rfind) t = Inr t'"
    by (simp add: run)
  have "counts d (length (rows_of (select_rows (full t) (sel t) rall rfind))) t t'"
    by (rule pool_counts [OF _ p]) (erule num)
  then show "counts d (length (spec_rows (full t) (sel t) rall rfind)) t t'"
    by (simp add: spec_rows_select)
next
  assume "\<not> full t \<and> \<not> spec_all (sel t) \<and> no_ids (sel t)"
  then have "select_rows (full t) (sel t) rall rfind = Inr []"
    by (simp add: select_rows_nothing)
  then show "run t = Inr (logf LInfo (''['' @ name @ ''] export complete'')
                           (logf LInfo (''['' @ name @ ''] exporting'') t))"
    by (simp add: run pool_no_rows)
qed

lemma ExportScenes_resolves:
  "pool_resolves DScenes ''scenes'' (ExportScenes r) (scenes t)
     (Scene_All (rScene r)) (Scene_FindMany (rScene r)) t"
  by (rule pool_resolvesI [where sel = scenes and body = "exportScene r" and prog = every100])
     (simp add: ExportScenes_def, erule exportScene_kept, erule exportScene_num,
      erule exportScene_Inl)

lemma ExportImages_resolves:
  "pool_resolves DImages ''images'' (ExportImages r) (images t)
     (Image_All (rImage r)) (Image_FindMany (rImage r)) t"
  by (rule pool_resolvesI [where sel = images and body = "exportImage r" and prog = every100])
     (simp add: ExportImages_def, erule exportImage_kept, erule exportImage_num,
      erule exportImage_Inl)

lemma ExportGalleries_resolves:
  "pool_resolves DGalleries ''galleries'' (ExportGalleries r) (galleries t)
     (Gallery_All (rGallery r)) (Gallery_FindMany (rGallery r)) t"
  by (rule pool_resolvesI [where sel = galleries and body = "exportGallery r" and prog = every100])
     (simp add: ExportGalleries_def, erule exportGallery_kept, erule exportGallery_num,
      erule exportGallery_Inl)

lemma ExportMovies_resolves:
  "pool_resolves DMovies ''movies'' (ExportMovies r) (movies t)
     (Movie_All (rMovie r)) (Movie_FindMany (rMovie r)) t"
  by (rule pool_resolvesI [where sel = movies and body = "exportMovie r" and prog = always])
     (simp add: ExportMovies_def, erule exportMovie_kept, erule exportMovie_num,
      erule exportMovie_Inl)

lemma ExportPerformers_resolves:
  "pool_resolves DPerformers ''performers'' (ExportPerformers r) (performers t)
     (Performer_All (rPerformer r)) (Performer_FindMany (rPerformer r)) t"
  by (rule pool_resolvesI [where sel = performers and body = "exportPerformer r" and prog = always])
     (simp add: ExportPerformers_def, erule exportPerformer_kept, erule exportPerformer_num,
      erule exportPerformer_Inl)

lemma ExportStudios_resolves:
  "pool_resolves DStudios ''studios'' (ExportStudios r) (studios t)
     (Studio_All (rStudio r)) (Studio_FindMany (rStudio r)) t"
  by (rule pool_resolvesI [where sel = studios and body = "exportStudio r" and prog = always])
     (simp add: ExportStudios_def, erule exportStudio_kept, erule exportStudio_num,
      erule exportStudio_Inl)

lemma ExportTags_resolves:
  "pool_resolves DTags ''tags'' (ExportTags r) (tags t)
     (Tag_All (rTag r)) (Tag_FindMany (rTag r)) t"
  by (rule pool_resolvesI [where sel = tags and body = "exportTag r" and prog = always])
     (simp add: ExportTags_def, erule exportTag_kept, erule exportTag_num,
      erule exportTag_Inl)

subsection \<open>After the transaction\<close>

lemma base_fields:
  "base s' = base s \<Longrightarrow>
     full s' = full s \<and> zips s' = zips s \<and> registered s' = registered s
     \<and> DownloadHash s' = DownloadHash s \<and> specs_present s' = specs_present s
     \<and> includeDependencies s' = includeDependencies s"
  by (simp add: base_def shape_def specs_present_def)

lemma after_txn_warns:
  "after_txn sys (Some e) t
     = after_txn sys None (logf LWarn ''error while running export transaction'' t)"
  by (simp add: after_txn_def)

lemma after_txn_trace: "\<exists>tr. trace (after_txn sys None t) = trace t @ tr"
  by (simp add: after_txn_def generateDownload_def logf_def Let_def
      split: option.splits sum.splits)

lemma after_txn_archive:
  assumes "\<not> full t" and "EnsureDir_err sys = None" and "CreateTemp sys = Inr z"
    and "RegisterFile sys z = Inr h"
  shows "DownloadHash (after_txn sys None t) = h
     \<and> registered (after_txn sys None t) = registered t @ [z]
     \<and> zips (after_txn sys None t) = zips t @ [(z, fst (zipFiles sys t))]"
  using assms by (simp add: after_txn_def generateDownload_def logf_def Let_def)

lemma RemoveDir_keeps:
  "DownloadHash (RemoveDir sys t) = DownloadHash t \<and> registered (RemoveDir sys t) = registered t
   \<and> zips (RemoveDir sys t) = zips t \<and> (\<exists>tr. trace (RemoveDir sys t) = trace t @ tr)"
  by (simp add: RemoveDir_def logf_def split: option.splits)

lemma WithTxn_error:
  assumes "specs_present t" and "txn_begin_err sys \<noteq> None \<or> txn_commit_err sys \<noteq> None"
  shows "\<exists>t1 e. WithTxn sys (txn_body r) t = Inr (t1, Some e) \<and> base t1 = base t"
proof (cases "txn_begin_err sys")
  case (Some e)
  then show ?thesis by (simp add: WithTxn_def)
next
  case None
  with assms(2) obtain e where c: "txn_commit_err sys = Some e" by auto
  from txn_body_total [of t r] assms(1) obtain t1 where run: "txn_body r t = Inr t1" by auto
  from txn_body_effect [OF run] have "base t1 = base t" by blast
  with None c run show ?thesis by (simp add: WithTxn_def andThen_def)
qed

lemma Start_partial:
  assumes "\<not> full t" and "TempDir (rSys r) = Inr d" and "d \<noteq> []"
    and "WithTxn (rSys r) (txn_body r)
           (EmptyJSONDirs (t\<lparr>baseDir := d, json := GetJSONPaths d\<rparr>)) = Inr (t1, txnErr)"
  shows "Start r t = Inr (RemoveDir (rSys r) (after_txn (rSys r) txnErr t1))"
  using assms by (simp add: Start_def Start_in_def andThen_def)

subsection \<open>The archive does not read the side-documents\<close>

lemma files_in_side [simp]:
  "d \<noteq> DFiles \<Longrightarrow> files_in d (tree @ [(DFiles, fn, doc)]) = files_in d tree"
  by (simp add: files_in_def)

lemma content_of_side [simp]:
  "d \<noteq> DFiles \<Longrightarrow> content_of d f (tree @ [(DFiles, fn, doc)]) = content_of d f tree"
  by (simp add: content_of_def)

lemma zipFile_side:
  "d \<noteq> DFiles \<Longrightarrow>
     zipFile sys (t\<lparr>fs := fs t @ [(DFiles, fn, doc)]\<rparr>) d f outDir z = zipFile sys t d f outDir z"
  by (simp add: zipFile_def Let_def split: option.splits)

lemma zipWalk_side:
  "d \<noteq> DFiles \<Longrightarrow>
     zipWalk sys (t\<lparr>fs := fs t @ [(DFiles, fn, doc)]\<rparr>) d outDir fl z = zipWalk sys t d outDir fl z"
  by (induction fl arbitrary: z) (simp_all add: zipFile_side split: option.splits prod.splits)

lemma walkWarn_side:
  "d \<noteq> DFiles \<Longrightarrow>
     walkWarn sys (t\<lparr>fs := fs t @ [(DFiles, fn, doc)]\<rparr>) d outDir zl = walkWarn sys t d outDir zl"
  by (simp add: walkWarn_def zipWalk_side)

lemma zipFiles_side: "zipFiles sys (t\<lparr>fs := fs t @ [(DFiles, fn, doc)]\<rparr>) = zipFiles sys t"
  by (simp add: zipFiles_def walkWarn_side)

subsection \<open>The document of a row\<close>

lemma on_ok_Inl [simp]: "on_ok (Inl e) k = None"
  by (simp add: on_ok_def)

lemma on_ok_Inr [simp]: "on_ok (Inr x) k = k x"
  by (simp add: on_ok_def)

lemma map_filter_one: "List.map_filter f [x] = (case f x of None \<Rightarrow> [] | Some y \<Rightarrow> [y])"
  by (cases "f x") (simp_all add: List.map_filter_def)

lemma map_filter_app:
  "List.map_filter f (xs @ ys) = List.map_filter f xs @ List.map_filter f ys"
  by (simp add: List.map_filter_def)

lemma on_ok_const: "on_ok a (\<lambda>x. k) = (if isl a then None else k)"
  by (cases a) simp_all

lemma ndocs_docs: "ndocs d s = length (docs d s)"
  by (simp add: ndocs_def docs_def)

lemma docs_logf [simp]: "docs d (logf l m s) = docs d s"
  by (simp add: docs_def logf_def)

lemma docs_save_log [simp]:
  "docs d' (save_log sys d fn doc m s) =
     (if d' = d \<and> save_err sys d fn = None then docs d' s @ [(fn, doc)] else docs d' s)"
  by (simp add: save_log_def save_def docs_def logf_def split: option.splits)

lemma docs_fold_exportFile [simp]:
  "d \<noteq> DFiles \<Longrightarrow> docs d (fold (exportFile sys) fl s) = docs d s"
  by (simp add: fold_exportFile docs_def)

lemma docs_exportFolder [simp]: "d \<noteq> DFiles \<Longrightarrow> docs d (exportFolder sys f s) = docs d s"
  by (simp add: exportFolder_def Let_def)

lemma docs_log_gallery_files [simp]: "docs d (log_gallery_files r m gs s) = docs d s"
  by (simp add: log_gallery_files_eq docs_def)

lemma docs_log_fetch [simp]: "docs d (log_fetch m fetched t) = docs d t"
  by (simp add: log_fetch_def split: sum.splits)

lemma add_studios_docs: "add_studios xs s = Inr s' \<Longrightarrow> docs d s' = docs d s"
  by (auto simp: add_studios_def andThen_def spec_append_def docs_def split: option.splits)

lemma add_galleries_docs: "add_galleries xs s = Inr s' \<Longrightarrow> docs d s' = docs d s"
  by (auto simp: add_galleries_def andThen_def spec_append_def docs_def split: option.splits)

lemma add_tags_docs: "add_tags xs s = Inr s' \<Longrightarrow> docs d s' = docs d s"
  by (auto simp: add_tags_def andThen_def spec_append_def docs_def split: option.splits)

lemma add_movies_docs: "add_movies xs s = Inr s' \<Longrightarrow> docs d s' = docs d s"
  by (auto simp: add_movies_def andThen_def spec_append_def docs_def split: option.splits)

lemma add_performers_docs: "add_performers xs s = Inr s' \<Longrightarrow> docs d s' = docs d s"
  by (auto simp: add_performers_def andThen_def spec_append_def docs_def split: option.splits)

lemma add_studio_docs: "add_studio sid s = Inr s' \<Longrightarrow> docs d s' = docs d s"
  by (auto simp: add_studio_def dest: add_studios_docs split: option.splits)

lemmas add_docs = add_studios_docs add_galleries_docs add_tags_docs add_movies_docs
  add_performers_docs add_studio_docs

lemma sceneDeps_docs:
  "sceneDeps r x gs ps s = Inr (s', go) \<Longrightarrow>
     docs d s' = docs d s
     \<and> go = (\<not> isl (scene_GetDependentTagIDs (rScene r) x)
             \<and> \<not> isl (scene_GetDependentMovieIDs (rScene r) x))"
  unfolding sceneDeps_def andThen_def
  by (auto split: sum.split_asm dest!: add_docs [where d = d])

lemma exportScene_docs:
  "exportScene r x s = Inr s' \<Longrightarrow> d \<noteq> DFiles \<Longrightarrow>
     docs d s' = docs d s
       @ (if d = DScenes
          then (case scene_document r (includeDependencies s) x of None \<Rightarrow> [] | Some e \<Rightarrow> [e])
          else [])"
  unfolding exportScene_def Let_def andThen_def
  by (auto simp: scene_document_def saved_def Let_def on_ok_const
      split: sum.split_asm option.split_asm if_split_asm dest!: sceneDeps_docs [where d = d])

lemma exportImage_docs:
  "exportImage r x s = Inr s' \<Longrightarrow> d \<noteq> DFiles \<Longrightarrow>
     docs d s' = docs d s
       @ (if d = DImages
          then (case image_document r x of None \<Rightarrow> [] | Some e \<Rightarrow> [e])
          else [])"
  unfolding exportImage_def Let_def andThen_def
  by (auto simp: image_document_def saved_def Let_def
      split: sum.split_asm option.split_asm if_split_asm dest!: add_docs [where d = d])

lemma docs_galleryFolder [simp]:
  "d \<noteq> DFiles \<Longrightarrow> docs d (fst (galleryFolder r g s)) = docs d s"
  by (simp add: galleryFolder_def split: option.splits sum.splits)

lemma snd_galleryFolder [simp]: "snd (galleryFolder r g s) = (\<not> folder_missing r g)"
  by (simp add: galleryFolder_def folder_missing_def split: option.splits sum.splits)

lemma exportGallery_docs:
  "exportGallery r x s = Inr s' \<Longrightarrow> d \<noteq> DFiles \<Longrightarrow>
     docs d s' = docs d s
       @ (if d = DGalleries
          then (case gallery_document r x of None \<Rightarrow> [] | Some e \<Rightarrow> [e])
          else [])"
  unfolding exportGallery_def Let_def andThen_def
  by (auto simp: gallery_document_def saved_def Let_def
      split: sum.split_asm option.split_asm if_split_asm dest!: add_docs [where d = d])

lemma exportPerformer_docs:
  "exportPerformer r x s = Inr s' \<Longrightarrow> d \<noteq> DFiles \<Longrightarrow>
     docs d s' = docs d s
       @ (if d = DPerformers
          then (case performer_document r x of None \<Rightarrow> [] | Some e \<Rightarrow> [e])
          else [])"
  unfolding exportPerformer_def Let_def andThen_def
  by (auto simp: performer_document_def saved_def Let_def
      split: sum.split_asm option.split_asm if_split_asm dest!: add_docs [where d = d])

lemma exportStudio_docs:
  "exportStudio r x s = Inr s' \<Longrightarrow> d \<noteq> DFiles \<Longrightarrow>
     docs d s' = docs d s
       @ (if d = DStudios
          then (case studio_document r x of None \<Rightarrow> [] | Some e \<Rightarrow> [e])
          else [])"
  unfolding exportStudio_def Let_def
  by (auto simp: studio_document_def saved_def split: sum.split_asm if_split_asm)

lemma exportTag_docs:
  "exportTag r x s = Inr s' \<Longrightarrow> d \<noteq> DFiles \<Longrightarrow>
     docs d s' = docs d s
       @ (if d = DTags
          then (case tag_document r x of None \<Rightarrow> [] | Some e \<Rightarrow> [e])
          else [])"
  unfolding exportTag_def Let_def
  by (auto simp: tag_document_def saved_def split: sum.split_asm if_split_asm)

lemma exportMovie_docs:
  "exportMovie r x s = Inr s' \<Longrightarrow> d \<noteq> DFiles \<Longrightarrow>
     docs d s' = docs d s
       @ (if d = DMovies
          then (case movie_document r x of None \<Rightarrow> [] | Some e \<Rightarrow> [e])
          else [])"
  unfolding exportMovie_def Let_def andThen_def
  by (auto simp: movie_document_def saved_def Let_def
      split: sum.split_asm option.split_asm if_split_asm dest!: add_docs [where d = d])

text \<open>A row that is left without a document is logged.\<close>

lemma counts_logged:
  "counts d 1 s s' \<Longrightarrow> docs d s' = docs d s @ (case w of None \<Rightarrow> [] | Some e \<Rightarrow> [e]) \<Longrightarrow>
     nerr s + (if w = None then 1 else 0) \<le> nerr s'"
  by (cases w) (auto simp: counts_def ndocs_docs)

text \<open>The rows of a pool, one after the other.\<close>

lemma concat_rows:
  "concat (map (\<lambda>x. case doc x of None \<Rightarrow> [] | Some e \<Rightarrow> [e]) xs) = List.map_filter doc xs"
  by (induction xs) (simp_all add: List.map_filter_def split: option.splits)

lemma sum_rows:
  "sum_list (map (\<lambda>x. if doc x = None then 1 else 0) xs) = length (filter (\<lambda>x. doc x = None) xs)"
  by (induction xs) simp_all

lemma feed_docs:
  assumes keep: "\<And>x s s'. body x s = Inr s' \<Longrightarrow> kept s' = kept s"
    and body: "\<And>x s s'. body x s = Inr s' \<Longrightarrow> includeDependencies s = b \<Longrightarrow>
                 docs d s' = docs d s @ w x \<and> nerr s + k x \<le> nerr s'"
  shows "feed prog m body i xs s = Inr s' \<Longrightarrow> includeDependencies s = b \<Longrightarrow>
           docs d s' = docs d s @ concat (map w xs) \<and> nerr s + sum_list (map k xs) \<le> nerr s'"
proof (induction xs arbitrary: i s)
  case Nil
  then show ?case by simp
next
  case (Cons x xs)
  let ?s0 = "if prog i then logf LProgress m s else s"
  from Cons.prems obtain s1 where
    b: "body x ?s0 = Inr s1" and f: "feed prog m body (Suc i) xs s1 = Inr s'"
    by (auto split: sum.split_asm)
  have i0: "includeDependencies ?s0 = b" using Cons.prems(2) by simp
  from body [OF b i0] have d1: "docs d s1 = docs d s @ w x" and n1: "nerr s + k x \<le> nerr s1"
    by (simp_all split: if_split_asm)
  from keep [OF b] have "includeDependencies s1 = includeDependencies ?s0" by (rule incl_kept)
  with i0 have i1: "includeDependencies s1 = b" by simp
  from Cons.IH [OF f i1] d1 n1 show ?case by simp
qed

lemma pool_docs:
  assumes keep: "\<And>x s s'. body x s = Inr s' \<Longrightarrow> kept s' = kept s"
    and body: "\<And>x s s'. body x s = Inr s' \<Longrightarrow> includeDependencies s = includeDependencies t \<Longrightarrow>
                 docs d s' = docs d s @ w x \<and> nerr s + k x \<le> nerr s'"
    and run: "pool name prog body fetched t = Inr t'"
  shows "docs d t' = docs d t @ concat (map w (rows_of fetched))
     \<and> nerr t + sum_list (map k (rows_of fetched)) + (if isl fetched then 1 else 0) \<le> nerr t'"
proof -
  let ?t2 = "logf LInfo (''['' @ name @ ''] exporting'')
               (log_fetch (''['' @ name @ ''] failed to fetch '' @ name) fetched t)"
  from run obtain t3 where
    f: "feed prog (''['' @ name @ ''] %d of %d'') body 0 (rows_of fetched) ?t2 = Inr t3"
    and t': "t' = logf LInfo (''['' @ name @ ''] export complete'') t3"
    by (auto simp: pool_def Let_def andThen_def split: sum.split_asm)
  have i2: "includeDependencies ?t2 = includeDependencies t" by simp
  have "docs d t3 = docs d ?t2 @ concat (map w (rows_of fetched))
      \<and> nerr ?t2 + sum_list (map k (rows_of fetched)) \<le> nerr t3"
    by (rule feed_docs [OF _ _ f i2]) (erule keep, erule body, assumption)
  then show ?thesis
    unfolding t' by (cases fetched) (auto simp: nerr_log_fetch)
qed

subsection \<open>The documents of a pool\<close>

lemma select_rows_fetch: "select_rows fl sel rall rfind = spec_fetch fl sel rall rfind"
  by (cases sel) (auto simp: select_rows_def spec_fetch_def spec_all_def)

lemma spec_rows_fetch: "spec_rows fl sel rall rfind = rows_of (spec_fetch fl sel rall rfind)"
  by (simp add: spec_rows_select [symmetric] select_rows_fetch)

lemma pool_exportsI:
  assumes run: "\<And>u. run u = pool name prog body (select_rows (full u) (sel u) rall rfind) u"
    and keep: "\<And>x s s'. body x s = Inr s' \<Longrightarrow> kept s' = kept s"
    and num: "\<And>x s s'. body x s = Inr s' \<Longrightarrow> counts d 1 s s'"
    and bad: "\<And>x s f. body x s = Inl f \<Longrightarrow> includeDependencies s \<and> \<not> specs_present s"
    and dcs: "\<And>x s s'. body x s = Inr s' \<Longrightarrow> includeDependencies s = includeDependencies t \<Longrightarrow>
                docs d s' = docs d s @ (case doc x of None \<Rightarrow> [] | Some e \<Rightarrow> [e])"
  shows "pool_exports d name prog body doc run (sel t) rall rfind t"
proof -
  let ?fetched = "spec_fetch (full t) (sel t) rall rfind"
  let ?rows = "rows_of ?fetched"
  have r: "run t = pool name prog body ?fetched t"
    by (simp add: run select_rows_fetch)
  have one: "\<And>x s s'. body x s = Inr s' \<Longrightarrow> includeDependencies s = includeDependencies t \<Longrightarrow>
      docs d s' = docs d s @ (case doc x of None \<Rightarrow> [] | Some e \<Rightarrow> [e])
      \<and> nerr s + (if doc x = None then 1 else 0) \<le> nerr s'"
  proof -
    fix x s s'
    assume b: "body x s = Inr s'" and i: "includeDependencies s = includeDependencies t"
    from dcs [OF b i] counts_logged [OF num [OF b], of "doc x"]
    show "docs d s' = docs d s @ (case doc x of None \<Rightarrow> [] | Some e \<Rightarrow> [e])
      \<and> nerr s + (if doc x = None then 1 else 0) \<le> nerr s'"
      by simp
  qed
  have total: "specs_present t \<or> \<not> includeDependencies t \<longrightarrow> (\<exists>t'. run t = Inr t')"
  proof
    assume ok: "specs_present t \<or> \<not> includeDependencies t"
    show "\<exists>t'. run t = Inr t'"
    proof (cases "run t")
      case (Inl f)
      then have "pool name prog body ?fetched t = Inl f" by (simp add: r)
      then have "includeDependencies t \<and> \<not> specs_present t"
        by (rule pool_Inl [rotated 2]) (erule keep, erule bad)
      with ok show ?thesis by simp
    next
      case (Inr t')
      then show ?thesis by blast
    qed
  qed
  have result: "\<forall>t'. run t = Inr t' \<longrightarrow>
       docs d t' = docs d t @ List.map_filter doc ?rows
     \<and> nerr t + length (filter (\<lambda>x. doc x = None) ?rows) + (if isl ?fetched then 1 else 0)
         \<le> nerr t'
     \<and> counts d (length ?rows) t t'"
  proof (intro allI impI)
    fix t'
    assume "run t = Inr t'"
    then have p: "pool name prog body ?fetched t = Inr t'" by (simp add: r)
    have "docs d t' = docs d t
            @ concat (map (\<lambda>x. case doc x of None \<Rightarrow> [] | Some e \<Rightarrow> [e]) ?rows)
        \<and> nerr t + sum_list (map (\<lambda>x. if doc x = None then 1 else 0) ?rows)
            + (if isl ?fetched then 1 else 0) \<le> nerr t'"
      by (rule pool_docs [OF _ _ p]) (erule keep, erule one, assumption)
    moreover have "counts d (length ?rows) t t'"
      by (rule pool_counts [OF _ p]) (erule num)
    ultimately show "docs d t' = docs d t @ List.map_filter doc ?rows
     \<and> nerr t + length (filter (\<lambda>x. doc x = None) ?rows) + (if isl ?fetched then 1 else 0)
         \<le> nerr t'
     \<and> counts d (length ?rows) t t'"
      by (simp add: concat_rows sum_rows)
  qed
  have row: "\<forall>x s s'. includeDependencies s = includeDependencies t \<longrightarrow> body x s = Inr s' \<longrightarrow>
       docs d s' = docs d s @ List.map_filter doc [x] \<and> (doc x = None \<longrightarrow> nerr s < nerr s')"
  proof (intro allI impI)
    fix x s s'
    assume i: "includeDependencies s = includeDependencies t" and b: "body x s = Inr s'"
    from one [OF b i] show "docs d s' = docs d s @ List.map_filter doc [x]
        \<and> (doc x = None \<longrightarrow> nerr s < nerr s')"
      by (cases "doc x") (simp_all add: List.map_filter_def)
  qed
  have failed: "\<forall>e. ?fetched = Inl e \<longrightarrow>
       run t = Inr (logf LInfo (''['' @ name @ ''] export complete'')
                     (logf LInfo (''['' @ name @ ''] exporting'')
                       (logf LError (''['' @ name @ ''] failed to fetch '' @ name) t)))"
    by (simp add: r pool_fetch_failed)
  have empty: "\<not> full t \<and> \<not> spec_all (sel t) \<and> no_ids (sel t) \<longrightarrow>
       ?fetched = Inr []
     \<and> run t = Inr (logf LInfo (''['' @ name @ ''] export complete'')
                     (logf LInfo (''['' @ name @ ''] exporting'') t))"
  proof
    assume "\<not> full t \<and> \<not> spec_all (sel t) \<and> no_ids (sel t)"
    then have "select_rows (full t) (sel t) rall rfind = Inr []"
      by (simp add: select_rows_nothing)
    then have "?fetched = Inr []" by (simp add: select_rows_fetch)
    then show "?fetched = Inr []
     \<and> run t = Inr (logf LInfo (''['' @ name @ ''] export complete'')
                     (logf LInfo (''['' @ name @ ''] exporting'') t))"
      by (simp add: r pool_no_rows)
  qed
  show ?thesis
    unfolding pool_exports_def Let_def
    by (intro conjI) (rule r total result row failed empty)+
qed

lemma ExportScenes_exports:
  "pool_exports DScenes ''scenes'' every100 (exportScene r)
     (scene_document r (includeDependencies t)) (ExportScenes r) (scenes t)
     (Scene_All (rScene r)) (Scene_FindMany (rScene r)) t"
proof (rule pool_exportsI [where sel = scenes])
  fix x s s'
  assume "exportScene r x s = Inr s'" and "includeDependencies s = includeDependencies t"
  with exportScene_docs [of r x s s' DScenes]
  show "docs DScenes s' = docs DScenes s
      @ (case scene_document r (includeDependencies t) x of None \<Rightarrow> [] | Some e \<Rightarrow> [e])"
    by simp
qed (simp add: ExportScenes_def, erule exportScene_kept, erule exportScene_num,
     erule exportScene_Inl)

lemma ExportImages_exports:
  "pool_exports DImages ''images'' every100 (exportImage r) (image_document r)
     (ExportImages r) (images t) (Image_All (rImage r)) (Image_FindMany (rImage r)) t"
proof (rule pool_exportsI [where sel = images])
  fix x s s'
  assume "exportImage r x s = Inr s'"
  with exportImage_docs [of r x s s' DImages]
  show "docs DImages s' = docs DImages s
      @ (case image_document r x of None \<Rightarrow> [] | Some e \<Rightarrow> [e])"
    by simp
qed (simp add: ExportImages_def, erule exportImage_kept, erule exportImage_num,
     erule exportImage_Inl)

lemma ExportGalleries_exports:
  "pool_exports DGalleries ''galleries'' every100 (exportGallery r) (gallery_document r)
     (ExportGalleries r) (galleries t) (Gallery_All (rGallery r))
     (Gallery_FindMany (rGallery r)) t"
proof (rule pool_exportsI [where sel = galleries])
  fix x s s'
  assume "exportGallery r x s = Inr s'"
  with exportGallery_docs [of r x s s' DGalleries]
  show "docs DGalleries s' = docs DGalleries s
      @ (case gallery_document r x of None \<Rightarrow> [] | Some e \<Rightarrow> [e])"
    by simp
qed (simp add: ExportGalleries_def, erule exportGallery_kept, erule exportGallery_num,
     erule exportGallery_Inl)

lemma ExportMovies_exports:
  "pool_exports DMovies ''movies'' always (exportMovie r) (movie_document r)
     (ExportMovies r) (movies t) (Movie_All (rMovie r)) (Movie_FindMany (rMovie r)) t"
proof (rule pool_exportsI [where sel = movies])
  fix x s s'
  assume "exportMovie r x s = Inr s'"
  with exportMovie_docs [of r x s s' DMovies]
  show "docs DMovies s' = docs DMovies s
      @ (case movie_document r x of None \<Rightarrow> [] | Some e \<Rightarrow> [e])"
    by simp
qed (simp add: ExportMovies_def, erule exportMovie_kept, erule exportMovie_num,
     erule exportMovie_Inl)

lemma ExportPerformers_exports:
  "pool_exports DPerformers ''performers'' always (exportPerformer r) (performer_document r)
     (ExportPerformers r) (performers t) (Performer_All (rPerformer r))
     (Performer_FindMany (rPerformer r)) t"
proof (rule pool_exportsI [where sel = performers])
  fix x s s'
  assume "exportPerformer r x s = Inr s'"
  with exportPerformer_docs [of r x s s' DPerformers]
  show "docs DPerformers s' = docs DPerformers s
      @ (case performer_document r x of None \<Rightarrow> [] | Some e \<Rightarrow> [e])"
    by simp
qed (simp add: ExportPerformers_def, erule exportPerformer_kept, erule exportPerformer_num,
     erule exportPerformer_Inl)

lemma ExportStudios_exports:
  "pool_exports DStudios ''studios'' always (exportStudio r) (studio_document r)
     (ExportStudios r) (studios t) (Studio_All (rStudio r)) (Studio_FindMany (rStudio r)) t"
proof (rule pool_exportsI [where sel = studios])
  fix x s s'
  assume "exportStudio r x s = Inr s'"
  with exportStudio_docs [of r x s s' DStudios]
  show "docs DStudios s' = docs DStudios s
      @ (case studio_document r x of None \<Rightarrow> [] | Some e \<Rightarrow> [e])"
    by simp
qed (simp add: ExportStudios_def, erule exportStudio_kept, erule exportStudio_num,
     erule exportStudio_Inl)

lemma ExportTags_exports:
  "pool_exports DTags ''tags'' always (exportTag r) (tag_document r)
     (ExportTags r) (tags t) (Tag_All (rTag r)) (Tag_FindMany (rTag r)) t"
proof (rule pool_exportsI [where sel = tags])
  fix x s s'
  assume "exportTag r x s = Inr s'"
  with exportTag_docs [of r x s s' DTags]
  show "docs DTags s' = docs DTags s
      @ (case tag_document r x of None \<Rightarrow> [] | Some e \<Rightarrow> [e])"
    by simp
qed (simp add: ExportTags_def, erule exportTag_kept, erule exportTag_num,
     erule exportTag_Inl)

subsection \<open>The documents of the transaction\<close>

lemma concat_none: "concat (map (\<lambda>x. []) xs) = []"
  by (induction xs) simp_all

lemma pool_frame:
  assumes keep: "\<And>x s s'. body x s = Inr s' \<Longrightarrow> kept s' = kept s"
    and num: "\<And>x s s'. body x s = Inr s' \<Longrightarrow> counts e 1 s s'"
    and body: "\<And>x s s'. body x s = Inr s' \<Longrightarrow> includeDependencies s = includeDependencies t \<Longrightarrow>
                 docs d s' = docs d s
                   @ (if d = e then (case doc x of None \<Rightarrow> [] | Some y \<Rightarrow> [y]) else [])"
    and run: "pool name prog body fetched t = Inr t'"
  shows "docs d t' = docs d t @ (if d = e then List.map_filter doc (rows_of fetched) else [])"
proof -
  let ?w = "\<lambda>x. if d = e then (case doc x of None \<Rightarrow> [] | Some y \<Rightarrow> [y]) else []"
  have one: "\<And>x s s'. body x s = Inr s' \<Longrightarrow> includeDependencies s = includeDependencies t \<Longrightarrow>
      docs d s' = docs d s @ ?w x \<and> nerr s + (\<lambda>x. 0) x \<le> nerr s'"
  proof -
    fix x s s'
    assume b: "body x s = Inr s'" and i: "includeDependencies s = includeDependencies t"
    from body [OF b i] num [OF b]
    show "docs d s' = docs d s @ ?w x \<and> nerr s + (\<lambda>x. 0) x \<le> nerr s'"
      by (simp add: counts_def)
  qed
  have "docs d t' = docs d t @ concat (map ?w (rows_of fetched))
     \<and> nerr t + sum_list (map (\<lambda>x. 0) (rows_of fetched)) + (if isl fetched then 1 else 0) \<le> nerr t'"
    by (rule pool_docs [OF _ _ run]) (erule keep, erule one, assumption)
  then show ?thesis
    by (cases "d = e") (simp_all add: concat_rows concat_none)
qed

lemma ExportScenes_docs:
  "ExportScenes r t = Inr t' \<Longrightarrow> d \<noteq> DFiles \<Longrightarrow>
     docs d t' = docs d t
       @ (if d = DScenes
          then List.map_filter (scene_document r (includeDependencies t)) (scene_rows r t)
          else [])"
  unfolding ExportScenes_def scene_rows_def spec_rows_select [symmetric]
  by (rule pool_frame [OF exportScene_kept exportScene_num])
     (assumption, assumption, drule exportScene_docs [where d = d], simp_all)

lemma ExportImages_docs:
  "ExportImages r t = Inr t' \<Longrightarrow> d \<noteq> DFiles \<Longrightarrow>
     docs d t' = docs d t
       @ (if d = DImages then List.map_filter (image_document r) (image_rows r t) else [])"
  unfolding ExportImages_def image_rows_def spec_rows_select [symmetric]
  by (rule pool_frame [OF exportImage_kept exportImage_num])
     (assumption, assumption, drule exportImage_docs [where d = d], simp_all)

lemma ExportGalleries_docs:
  "ExportGalleries r t = Inr t' \<Longrightarrow> d \<noteq> DFiles \<Longrightarrow>
     docs d t' = docs d t
       @ (if d = DGalleries then List.map_filter (gallery_document r) (gallery_rows r t) else [])"
  unfolding ExportGalleries_def gallery_rows_def spec_rows_select [symmetric]
  by (rule pool_frame [OF exportGallery_kept exportGallery_num])
     (assumption, assumption, drule exportGallery_docs [where d = d], simp_all)

lemma ExportMovies_docs:
  "ExportMovies r t = Inr t' \<Longrightarrow> d \<noteq> DFiles \<Longrightarrow>
     docs d t' = docs d t
       @ (if d = DMovies then List.map_filter (movie_document r) (movie_rows r t) else [])"
  unfolding ExportMovies_def movie_rows_def spec_rows_select [symmetric]
  by (rule pool_frame [OF exportMovie_kept exportMovie_num])
     (assumption, assumption, drule exportMovie_docs [where d = d], simp_all)

lemma ExportPerformers_docs:
  "ExportPerformers r t = Inr t' \<Longrightarrow> d \<noteq> DFiles \<Longrightarrow>
     docs d t' = docs d t
       @ (if d = DPerformers then List.map_filter (performer_document r) (performer_rows r t)
          else [])"
  unfolding ExportPerformers_def performer_rows_def spec_rows_select [symmetric]
  by (rule pool_frame [OF exportPerformer_kept exportPerformer_num])
     (assumption, assumption, drule exportPerformer_docs [where d = d], simp_all)

lemma ExportStudios_docs:
  "ExportStudios r t = Inr t' \<Longrightarrow> d \<noteq> DFiles \<Longrightarrow>
     docs d t' = docs d t
       @ (if d = DStudios then List.map_filter (studio_document r) (studio_rows r t) else [])"
  unfolding ExportStudios_def studio_rows_def spec_rows_select [symmetric]
  by (rule pool_frame [OF exportStudio_kept exportStudio_num])
     (assumption, assumption, drule exportStudio_docs [where d = d], simp_all)

lemma ExportTags_docs:
  "ExportTags r t = Inr t' \<Longrightarrow> d \<noteq> DFiles \<Longrightarrow>
     docs d t' = docs d t
       @ (if d = DTags then List.map_filter (tag_document r) (tag_rows r t) else [])"
  unfolding ExportTags_def tag_rows_def spec_rows_select [symmetric]
  by (rule pool_frame [OF exportTag_kept exportTag_num])
     (assumption, assumption, drule exportTag_docs [where d = d], simp_all)

lemma kept_base: "kept b = (base a, x, y, z) \<Longrightarrow> base b = base a"
  by (simp add: kept_def)

lemma txn_body_docs:
  assumes "txn_body r t = Inr t'"
  shows "\<exists>t0 t1 t2 t3 t4 t5 t6.
      pre_expand r t = Inr t0 \<and> ExportScenes r t0 = Inr t1 \<and> ExportImages r t1 = Inr t2
    \<and> ExportGalleries r t2 = Inr t3 \<and> ExportMovies r t3 = Inr t4
    \<and> ExportPerformers r t4 = Inr t5 \<and> ExportStudios r t5 = Inr t6 \<and> ExportTags r t6 = Inr t'
    \<and> docs DScenes t' = docs DScenes t
        @ List.map_filter (scene_document r (includeDependencies t)) (scene_rows r t0)
    \<and> docs DImages t' = docs DImages t @ List.map_filter (image_document r) (image_rows r t1)
    \<and> docs DGalleries t' = docs DGalleries t
        @ List.map_filter (gallery_document r) (gallery_rows r t2)
    \<and> docs DMovies t' = docs DMovies t @ List.map_filter (movie_document r) (movie_rows r t3)
    \<and> docs DPerformers t' = docs DPerformers t
        @ List.map_filter (performer_document r) (performer_rows r t4)
    \<and> docs DStudios t' = docs DStudios t @ List.map_filter (studio_document r) (studio_rows r t5)
    \<and> docs DTags t' = docs DTags t @ List.map_filter (tag_document r) (tag_rows r t6)"
proof -
  from assms obtain t0 where p: "pre_expand r t = Inr t0" and s: "pools r t0 = Inr t'"
    by (auto simp: txn_body_def andThen_def split: sum.split_asm)
  from s obtain t1 t2 t3 t4 t5 t6 where
    e1: "ExportScenes r t0 = Inr t1" and e2: "ExportImages r t1 = Inr t2"
    and e3: "ExportGalleries r t2 = Inr t3" and e4: "ExportMovies r t3 = Inr t4"
    and e5: "ExportPerformers r t4 = Inr t5" and e6: "ExportStudios r t5 = Inr t6"
    and e7: "ExportTags r t6 = Inr t'"
    unfolding pools_def andThen_def by (auto split: sum.split_asm)
  from pre_expand_effect [OF p] have b0: "base t0 = base t" and f0: "fs t0 = fs t"
    by simp_all
  have i0: "includeDependencies t0 = includeDependencies t"
    by (rule base_incl [OF b0])
  have d0: "\<And>d. docs d t0 = docs d t"
    by (simp add: docs_def f0)
  note a1 = ExportScenes_docs [OF e1] and a2 = ExportImages_docs [OF e2]
    and a3 = ExportGalleries_docs [OF e3] and a4 = ExportMovies_docs [OF e4]
    and a5 = ExportPerformers_docs [OF e5] and a6 = ExportStudios_docs [OF e6]
    and a7 = ExportTags_docs [OF e7]
  have c1: "docs DScenes t' = docs DScenes t
        @ List.map_filter (scene_document r (includeDependencies t)) (scene_rows r t0)"
    using a1 [of DScenes] a2 [of DScenes] a3 [of DScenes] a4 [of DScenes] a5 [of DScenes]
      a6 [of DScenes] a7 [of DScenes] d0 [of DScenes] i0
    by simp
  have c2: "docs DImages t' = docs DImages t @ List.map_filter (image_document r) (image_rows r t1)"
    using a1 [of DImages] a2 [of DImages] a3 [of DImages] a4 [of DImages] a5 [of DImages]
      a6 [of DImages] a7 [of DImages] d0 [of DImages]
    by simp
  have c3: "docs DGalleries t' = docs DGalleries t
        @ List.map_filter (gallery_document r) (gallery_rows r t2)"
    using a1 [of DGalleries] a2 [of DGalleries] a3 [of DGalleries] a4 [of DGalleries]
      a5 [of DGalleries] a6 [of DGalleries] a7 [of DGalleries] d0 [of DGalleries]
    by simp
  have c4: "docs DMovies t' = docs DMovies t @ List.map_filter (movie_document r) (movie_rows r t3)"
    using a1 [of DMovies] a2 [of DMovies] a3 [of DMovies] a4 [of DMovies] a5 [of DMovies]
      a6 [of DMovies] a7 [of DMovies] d0 [of DMovies]
    by simp
  have c5: "docs DPerformers t' = docs DPerformers t
        @ List.map_filter (performer_document r) (performer_rows r t4)"
    using a1 [of DPerformers] a2 [of DPerformers] a3 [of DPerformers] a4 [of DPerformers]
      a5 [of DPerformers] a6 [of DPerformers] a7 [of DPerformers] d0 [of DPerformers]
    by simp
  have c6: "docs DStudios t' = docs DStudios t
        @ List.map_filter (studio_document r) (studio_rows r t5)"
    using a1 [of DStudios] a2 [of DStudios] a3 [of DStudios] a4 [of DStudios] a5 [of DStudios]
      a6 [of DStudios] a7 [of DStudios] d0 [of DStudios]
    by simp
  have c7: "docs DTags t' = docs DTags t @ List.map_filter (tag_document r) (tag_rows r t6)"
    using a1 [of DTags] a2 [of DTags] a3 [of DTags] a4 [of DTags] a5 [of DTags]
      a6 [of DTags] a7 [of DTags] d0 [of DTags]
    by simp
  from p e1 e2 e3 e4 e5 e6 e7 c1 c2 c3 c4 c5 c6 c7 show ?thesis by blast
qed

section \<open>The statements of the specification\<close>

text \<open>
  C1. A failed transaction does not end a partial export. When the transaction returns an
  error (it could not be opened, or it could not be completed after the pools ran),
  \<^verbatim>\<open>Start\<close> logs the warning and goes on exactly as after a transaction that succeeded:
  it generates the download, then removes the temporary directory. So when creating the
  archive and registering it succeed, the archive is there and the task holds the
  download handle, after the failure of the transaction.
\<close>

theorem txn_error_export_continues:
  assumes "\<not> full t" and "specs_present t" and "TempDir (rSys r) = Inr d" and "d \<noteq> []"
    and "txn_begin_err (rSys r) \<noteq> None \<or> txn_commit_err (rSys r) \<noteq> None"
  shows "\<exists>t1 e t'.
      WithTxn (rSys r) (txn_body r) (EmptyJSONDirs (t\<lparr>baseDir := d, json := GetJSONPaths d\<rparr>))
        = Inr (t1, Some e)
      \<and> Start r t = Inr t'
      \<and> t' = RemoveDir (rSys r) (after_txn (rSys r) None
                (logf LWarn ''error while running export transaction'' t1))
      \<and> Log LWarn ''error while running export transaction'' \<in> set (trace t')
      \<and> (EnsureDir_err (rSys r) = None \<and> CreateTemp (rSys r) = Inr z
           \<and> RegisterFile (rSys r) z = Inr h \<longrightarrow>
             DownloadHash t' = h \<and> registered t' = registered t @ [z]
             \<and> (\<exists>entries. zips t' = zips t @ [(z, entries)]))"
proof -
  let ?t0 = "EmptyJSONDirs (t\<lparr>baseDir := d, json := GetJSONPaths d\<rparr>)"
  let ?w = "\<lambda>t1. logf LWarn ''error while running export transaction'' t1"
  have p0: "specs_present ?t0"
    using assms(2) by (simp add: specs_present_def EmptyJSONDirs_def)
  from WithTxn_error [OF p0 assms(5), of r] obtain t1 e where
    w: "WithTxn (rSys r) (txn_body r) ?t0 = Inr (t1, Some e)" and b: "base t1 = base ?t0"
    by blast
  let ?t' = "RemoveDir (rSys r) (after_txn (rSys r) None (?w t1))"
  from Start_partial [OF assms(1,3,4) w]
  have s: "Start r t = Inr ?t'" by (simp add: after_txn_warns)
  from base_fields [OF b] have k: "\<not> full (?w t1)" "zips (?w t1) = zips t"
    "registered (?w t1) = registered t"
    using assms(1) by (simp_all add: logf_def EmptyJSONDirs_def)
  obtain tr1 tr2 where
    "trace (after_txn (rSys r) None (?w t1)) = trace (?w t1) @ tr1"
    "trace ?t' = trace (after_txn (rSys r) None (?w t1)) @ tr2"
    using after_txn_trace [of "rSys r" "?w t1"]
      RemoveDir_keeps [of "rSys r" "after_txn (rSys r) None (?w t1)"] by blast
  then have tr: "Log LWarn ''error while running export transaction'' \<in> set (trace ?t')"
    by (simp add: logf_def)
  have arch: "EnsureDir_err (rSys r) = None \<and> CreateTemp (rSys r) = Inr z
           \<and> RegisterFile (rSys r) z = Inr h \<longrightarrow>
             DownloadHash ?t' = h \<and> registered ?t' = registered t @ [z]
             \<and> (\<exists>entries. zips ?t' = zips t @ [(z, entries)])"
  proof
    assume a: "EnsureDir_err (rSys r) = None \<and> CreateTemp (rSys r) = Inr z
           \<and> RegisterFile (rSys r) z = Inr h"
    from a have a1: "EnsureDir_err (rSys r) = None" and a2: "CreateTemp (rSys r) = Inr z"
      and a3: "RegisterFile (rSys r) z = Inr h" by simp_all
    from after_txn_archive [OF k(1) a1 a2 a3] k(2,3)
      RemoveDir_keeps [of "rSys r" "after_txn (rSys r) None (?w t1)"]
    show "DownloadHash ?t' = h \<and> registered ?t' = registered t @ [z]
             \<and> (\<exists>entries. zips ?t' = zips t @ [(z, entries)])"
      by simp
  qed
  from w s tr arch show ?thesis by blast
qed

theorem txn_error_export_continues_witness:
  "txn_commit_err (rSys demo_txn) = Some (Err ''commit failed'')
   \<and> (\<exists>t'. Start demo_txn (demo_task (no_input\<lparr>Scenes := ids_input [''1'']\<rparr>)) = Inr t'
        \<and> Log LWarn ''error while running export transaction'' \<in> set (trace t')
        \<and> DownloadHash t' = ''hash1'' \<and> registered t' = [''/downloads/export1.zip'']
        \<and> (\<exists>entries. zips t' = [(''/downloads/export1.zip'', entries)]))"
proof -
  let ?t = "demo_task (no_input\<lparr>Scenes := ids_input [''1'']\<rparr>)"
  have c: "txn_commit_err (rSys demo_txn) = Some (Err ''commit failed'')"
    by (simp add: demo_txn_def demo_def demo_Sys_def)
  have h: "TempDir (rSys demo_txn) = Inr ''/tmp/export1''" "''/tmp/export1'' \<noteq> []"
    "EnsureDir_err (rSys demo_txn) = None"
    "CreateTemp (rSys demo_txn) = Inr ''/downloads/export1.zip''"
    "RegisterFile (rSys demo_txn) ''/downloads/export1.zip'' = Inr ''hash1''"
    by (simp_all add: demo_txn_def demo_def demo_Sys_def)
  have e: "txn_begin_err (rSys demo_txn) \<noteq> None \<or> txn_commit_err (rSys demo_txn) \<noteq> None"
    using c by simp
  have z: "registered ?t = []" "zips ?t = []"
    by (simp_all add: demo_task_def on_host_def)
  have f: "\<not> full ?t"
    by (rule demo_task_partial)
  have p: "specs_present ?t"
    by (rule demo_task_present)
  from txn_error_export_continues [OF f p h(1,2) e,
      where z = "''/downloads/export1.zip''" and h = "''hash1''"] h(3,4,5) z
  have "\<exists>t'. Start demo_txn ?t = Inr t'
        \<and> Log LWarn ''error while running export transaction'' \<in> set (trace t')
        \<and> DownloadHash t' = ''hash1'' \<and> registered t' = [''/downloads/export1.zip'']
        \<and> (\<exists>entries. zips t' = [(''/downloads/export1.zip'', entries)])"
    by auto
  with c show ?thesis by blast
qed

theorem txn_error_aborts_counterexample:
  "txn_commit_err (rSys demo_txn) = Some (Err ''commit failed'')
   \<and> map_sum id (\<lambda>t. (Log LWarn ''error while running export transaction'' \<in> set (trace t),
                       DownloadHash t, registered t, map fst (zips t), zip_names t))
        (Start demo_txn (demo_task (no_input\<lparr>Scenes := ids_input [''1'']\<rparr>)))
     = Inr (True, ''hash1'', [''/downloads/export1.zip''], [''/downloads/export1.zip''],
            [''scenes/a.mp4.json''])"
  by (simp add: run_defs demo_txn_def demo_defs task_defs atoi_simps)

text \<open>
  C2. A side-document added to the tree never changes what \<^verbatim>\<open>zipFiles\<close> packs:
  \<^verbatim>\<open>zipFiles\<close> walks the seven entity directories and not the directory of the
  side-documents. In the partial export of the first scene of the small library, looked
  at before the temporary directory is removed, the export has written the scene's
  document and the side-document of the scene's file, and the archive holds the scene's
  document alone.
\<close>

theorem archive_omits_side_documents:
  "zipFiles sys (t\<lparr>fs := fs t @ [(DFiles, fn, doc)]\<rparr>) = zipFiles sys t
   \<and> map_sum id (\<lambda>t. (tree_names t, zip_names t))
       (Start_in demo (demo_task (no_input\<lparr>Scenes := ids_input [''1'']\<rparr>)\<lparr>baseDir := ''/tmp/export1''\<rparr>))
     = Inr ([(DFiles, ''a.mp4.json''), (DScenes, ''a.mp4.json'')], [''scenes/a.mp4.json''])"
proof
  show "zipFiles sys (t\<lparr>fs := fs t @ [(DFiles, fn, doc)]\<rparr>) = zipFiles sys t"
    by (rule zipFiles_side)
  show "map_sum id (\<lambda>t. (tree_names t, zip_names t))
       (Start_in demo (demo_task (no_input\<lparr>Scenes := ids_input [''1'']\<rparr>)\<lparr>baseDir := ''/tmp/export1''\<rparr>))
     = Inr ([(DFiles, ''a.mp4.json''), (DScenes, ''a.mp4.json'')], [''scenes/a.mp4.json''])"
    by (simp add: run_defs demo_defs task_defs atoi_simps)
qed

text \<open>
  C3. The pre-passes as \<^verbatim>\<open>Start\<close> gates them. The block returns whenever the export is
  full or the scene and image selectors are there, and the marker lines it adds to the
  trace are the entry and exit of \<^verbatim>\<open>populateMovieScenes\<close> exactly when the export is not
  full, the scene selector is not select-all and \<^verbatim>\<open>includeDependencies\<close> is set, followed
  by the entry and exit of \<^verbatim>\<open>populateGalleryImages\<close> exactly when the export is not full
  and the image selector is not select-all, whatever \<^verbatim>\<open>includeDependencies\<close> is. For a
  full export the block adds neither.
\<close>

theorem pre_expansion_gating:
  "(full t \<or> (scenes t \<noteq> None \<and> images t \<noteq> None) \<longrightarrow> (\<exists>t0. pre_expand r t = Inr t0))
   \<and> (pre_expand r t = Inr t' \<longrightarrow>
        markers (trace t') = markers (trace t)
          @ (if \<not> full t \<and> \<not> spec_all (scenes t) \<and> includeDependencies t
             then [Enter ''populateMovieScenes'', Leave ''populateMovieScenes''] else [])
          @ (if \<not> full t \<and> \<not> spec_all (images t)
             then [Enter ''populateGalleryImages'', Leave ''populateGalleryImages''] else []))"
proof (intro conjI impI)
  assume "full t \<or> (scenes t \<noteq> None \<and> images t \<noteq> None)"
  then show "\<exists>t0. pre_expand r t = Inr t0" by (rule pre_expand_total)
next
  assume "pre_expand r t = Inr t'"
  from pre_expand_effect [OF this]
  have "markers (trace t') = markers (trace t) @ pre_markers t" by simp
  then show "markers (trace t') = markers (trace t)
          @ (if \<not> full t \<and> \<not> spec_all (scenes t) \<and> includeDependencies t
             then [Enter ''populateMovieScenes'', Leave ''populateMovieScenes''] else [])
          @ (if \<not> full t \<and> \<not> spec_all (images t)
             then [Enter ''populateGalleryImages'', Leave ''populateGalleryImages''] else [])"
    by (simp add: pre_markers_def)
qed

theorem pre_expansion_gating_witness:
  "(\<exists>t'. pre_expand demo (demo_task no_input) = Inr t'
        \<and> markers (trace t') = [Enter ''populateGalleryImages'', Leave ''populateGalleryImages''])
   \<and> (\<exists>t'. pre_expand demo (demo_task (no_input\<lparr>IncludeDependencies := Some True\<rparr>)) = Inr t'
        \<and> markers (trace t') = [Enter ''populateMovieScenes'', Leave ''populateMovieScenes'',
                                 Enter ''populateGalleryImages'', Leave ''populateGalleryImages''])"
proof -
  let ?a = "demo_task no_input"
  let ?b = "demo_task (no_input\<lparr>IncludeDependencies := Some True\<rparr>)"
  have pa: "scenes ?a \<noteq> None \<and> images ?a \<noteq> None" "\<not> full ?a" "\<not> spec_all (scenes ?a)"
    "\<not> spec_all (images ?a)" "\<not> includeDependencies ?a" "trace ?a = []"
    by (simp_all add: task_defs spec_all_def)
  have pb: "scenes ?b \<noteq> None \<and> images ?b \<noteq> None" "\<not> full ?b" "\<not> spec_all (scenes ?b)"
    "\<not> spec_all (images ?b)" "includeDependencies ?b" "trace ?b = []"
    by (simp_all add: task_defs spec_all_def)
  from pre_expansion_gating [of ?a demo] pa(1) obtain ta where ta: "pre_expand demo ?a = Inr ta"
    by blast
  from pre_expansion_gating [of ?b demo] pb(1) obtain tb where tb: "pre_expand demo ?b = Inr tb"
    by blast
  from pre_expansion_gating [of ?a demo ta] ta pa
  have ma: "markers (trace ta) = [Enter ''populateGalleryImages'', Leave ''populateGalleryImages'']"
    by simp
  from pre_expansion_gating [of ?b demo tb] tb pb
  have mb: "markers (trace tb) = [Enter ''populateMovieScenes'', Leave ''populateMovieScenes'',
                                 Enter ''populateGalleryImages'', Leave ''populateGalleryImages'']"
    by simp
  from ta ma tb mb show ?thesis by blast
qed

text \<open>
  C4. Resolution of a pool's rows, for each of the seven pools. The pool fetches every
  row of its type when the export is full or the type's selector is select-all;
  otherwise the rows with the selector's ids when it has ids; otherwise it fetches
  nothing, processes no row, writes no document and logs no error. A failed fetch is
  logged and leaves the pool with no rows. The rows fetched are handed to the worker
  one by one in their order. A row has a document when every step that builds the
  document succeeds and the document can be saved; the pool writes to its directory the
  documents of exactly those rows, in the order of the rows, so at most one document per
  row, and one per row when no error is logged. A row whose document cannot be built or
  saved gets no document and is logged as an error. The pool returns whenever the task
  holds all its selectors or does not include dependencies.
\<close>

theorem pools_resolve_rows:
  "pool_exports DScenes ''scenes'' every100 (exportScene r)
     (scene_document r (includeDependencies t)) (ExportScenes r) (scenes t)
     (Scene_All (rScene r)) (Scene_FindMany (rScene r)) t
   \<and> pool_exports DImages ''images'' every100 (exportImage r) (image_document r)
       (ExportImages r) (images t) (Image_All (rImage r)) (Image_FindMany (rImage r)) t
   \<and> pool_exports DGalleries ''galleries'' every100 (exportGallery r) (gallery_document r)
       (ExportGalleries r) (galleries t) (Gallery_All (rGallery r))
       (Gallery_FindMany (rGallery r)) t
   \<and> pool_exports DMovies ''movies'' always (exportMovie r) (movie_document r)
       (ExportMovies r) (movies t) (Movie_All (rMovie r)) (Movie_FindMany (rMovie r)) t
   \<and> pool_exports DPerformers ''performers'' always (exportPerformer r) (performer_document r)
       (ExportPerformers r) (performers t) (Performer_All (rPerformer r))
       (Performer_FindMany (rPerformer r)) t
   \<and> pool_exports DStudios ''studios'' always (exportStudio r) (studio_document r)
       (ExportStudios r) (studios t) (Studio_All (rStudio r)) (Studio_FindMany (rStudio r)) t
   \<and> pool_exports DTags ''tags'' always (exportTag r) (tag_document r)
       (ExportTags r) (tags t) (Tag_All (rTag r)) (Tag_FindMany (rTag r)) t"
  by (intro conjI ExportScenes_exports ExportImages_exports ExportGalleries_exports
      ExportMovies_exports ExportPerformers_exports ExportStudios_exports ExportTags_exports)

theorem pools_resolve_rows_witness:
  "rows_of (spec_fetch False (studios (demo_task (no_input\<lparr>Studios := all_input\<rparr>)))
      (Studio_All (rStudio demo_badstudio)) (Studio_FindMany (rStudio demo_badstudio)))
     = demo_studios
   \<and> map (studio_document demo_badstudio) demo_studios
       = [Some (''Studio.json'', DocStudio ''Studio''), None]
   \<and> (\<exists>t'. ExportStudios demo_badstudio (demo_task (no_input\<lparr>Studios := all_input\<rparr>)) = Inr t'
         \<and> docs DStudios t' = [(''Studio.json'', DocStudio ''Studio'')]
         \<and> 1 \<le> nerr t')
   \<and> ExportTags demo_badstudio (demo_task (no_input\<lparr>Studios := all_input\<rparr>))
       = Inr (logf LInfo ''[tags] export complete''
               (logf LInfo ''[tags] exporting'' (demo_task (no_input\<lparr>Studios := all_input\<rparr>))))"
proof -
  let ?t = "demo_task (no_input\<lparr>Studios := all_input\<rparr>)"
  let ?r = demo_badstudio
  note th = pools_resolve_rows [of ?r ?t]
  note st = th [THEN conjunct2, THEN conjunct2, THEN conjunct2, THEN conjunct2,
    THEN conjunct2, THEN conjunct1, unfolded pool_exports_def Let_def]
  note tg = th [THEN conjunct2, THEN conjunct2, THEN conjunct2, THEN conjunct2,
    THEN conjunct2, THEN conjunct2, unfolded pool_exports_def Let_def]
  have f: "full ?t = False"
    using demo_task_partial [of "no_input\<lparr>Studios := all_input\<rparr>"] by simp
  have rows: "rows_of (spec_fetch False (studios ?t) (Studio_All (rStudio ?r))
      (Studio_FindMany (rStudio ?r))) = demo_studios"
    by (simp add: spec_fetch_def task_defs rows_of_def demo_badstudio_def demo_def
        demo_StudioEnv_def)
  have ok: "\<not> isl (spec_fetch False (studios ?t) (Studio_All (rStudio ?r))
      (Studio_FindMany (rStudio ?r)))"
    by (simp add: spec_fetch_def task_defs demo_badstudio_def demo_def demo_StudioEnv_def)
  have dcs: "map (studio_document ?r) demo_studios
      = [Some (''Studio.json'', DocStudio ''Studio''), None]"
    by (simp add: studio_document_def saved_def on_ok_def demo_badstudio_def demo_defs)
  have mf: "List.map_filter (studio_document ?r) demo_studios
      = [(''Studio.json'', DocStudio ''Studio'')]"
    using dcs by (simp add: List.map_filter_def demo_studios_def)
  have sk: "length (filter (\<lambda>x. studio_document ?r x = None) demo_studios) = 1"
    using dcs by (simp add: demo_studios_def)
  have p1: "specs_present ?t"
    by (rule demo_task_present)
  have p4: "docs DStudios ?t = []"
    by (simp add: docs_def demo_task_def on_host_def)
  have p5: "\<not> spec_all (tags ?t)"
    by (simp add: spec_all_def task_defs)
  have p6: "no_ids (tags ?t)"
    by (simp add: no_ids_def task_defs)
  from st [THEN conjunct2, THEN conjunct1] p1
  obtain t' where run: "ExportStudios ?r ?t = Inr t'" by blast
  from st [THEN conjunct2, THEN conjunct2, THEN conjunct1] run
  have c: "docs DStudios t' = docs DStudios ?t
             @ List.map_filter (studio_document ?r)
                 (rows_of (spec_fetch (full ?t) (studios ?t) (Studio_All (rStudio ?r))
                    (Studio_FindMany (rStudio ?r))))"
    and n: "nerr ?t + length (filter (\<lambda>x. studio_document ?r x = None)
                 (rows_of (spec_fetch (full ?t) (studios ?t) (Studio_All (rStudio ?r))
                    (Studio_FindMany (rStudio ?r)))))
              + (if isl (spec_fetch (full ?t) (studios ?t) (Studio_All (rStudio ?r))
                    (Studio_FindMany (rStudio ?r))) then 1 else 0) \<le> nerr t'"
    by blast+
  from c have d: "docs DStudios t' = [(''Studio.json'', DocStudio ''Studio'')]"
    unfolding f rows mf p4 by simp
  from n have e: "1 \<le> nerr t'"
    unfolding f rows sk using ok by simp
  from tg [THEN conjunct2, THEN conjunct2, THEN conjunct2, THEN conjunct2, THEN conjunct2]
    f p5 p6
  have z: "ExportTags ?r ?t
       = Inr (logf LInfo ''[tags] export complete'' (logf LInfo ''[tags] exporting'' ?t))"
    by simp
  from rows dcs run d e z show ?thesis by blast
qed

theorem one_document_per_row_counterexample:
  "spec_all (studios (demo_task (no_input\<lparr>Studios := all_input\<rparr>)))
   \<and> length (rows_of (Studio_All (rStudio demo_badstudio))) = 2
   \<and> map_sum id (\<lambda>t. (tree_names t, filter is_error (trace t)))
        (ExportStudios demo_badstudio (demo_task (no_input\<lparr>Studios := all_input\<rparr>)))
     = Inr ([(DStudios, ''Studio.json'')], [Log LError ''[studios] error getting studio JSON''])"
  by (simp add: run_defs demo_badstudio_def demo_defs task_defs)

text \<open>
  C5. In a full export each of the seven pools runs on the rows its reader's \<^verbatim>\<open>All\<close>
  returns; the selector of the type does not enter the fetch, whatever ids or flag the
  task holds. When the pool returns it has written at most one document of its type
  per such row, and exactly one per row when it logged no error.
\<close>

theorem full_export_fetches_all:
  assumes "full t"
  shows "ExportScenes r t = pool ''scenes'' every100 (exportScene r) (Scene_All (rScene r)) t
   \<and> ExportImages r t = pool ''images'' every100 (exportImage r) (Image_All (rImage r)) t
   \<and> ExportGalleries r t
       = pool ''galleries'' every100 (exportGallery r) (Gallery_All (rGallery r)) t
   \<and> ExportMovies r t = pool ''movies'' always (exportMovie r) (Movie_All (rMovie r)) t
   \<and> ExportPerformers r t
       = pool ''performers'' always (exportPerformer r) (Performer_All (rPerformer r)) t
   \<and> ExportStudios r t = pool ''studios'' always (exportStudio r) (Studio_All (rStudio r)) t
   \<and> ExportTags r t = pool ''tags'' always (exportTag r) (Tag_All (rTag r)) t
   \<and> (\<forall>t'. ExportScenes r t = Inr t' \<longrightarrow>
         counts DScenes (length (rows_of (Scene_All (rScene r)))) t t')
   \<and> (\<forall>t'. ExportImages r t = Inr t' \<longrightarrow>
         counts DImages (length (rows_of (Image_All (rImage r)))) t t')
   \<and> (\<forall>t'. ExportGalleries r t = Inr t' \<longrightarrow>
         counts DGalleries (length (rows_of (Gallery_All (rGallery r)))) t t')
   \<and> (\<forall>t'. ExportMovies r t = Inr t' \<longrightarrow>
         counts DMovies (length (rows_of (Movie_All (rMovie r)))) t t')
   \<and> (\<forall>t'. ExportPerformers r t = Inr t' \<longrightarrow>
         counts DPerformers (length (rows_of (Performer_All (rPerformer r)))) t t')
   \<and> (\<forall>t'. ExportStudios r t = Inr t' \<longrightarrow>
         counts DStudios (length (rows_of (Studio_All (rStudio r)))) t t')
   \<and> (\<forall>t'. ExportTags r t = Inr t' \<longrightarrow>
         counts DTags (length (rows_of (Tag_All (rTag r)))) t t')"
proof -
  have sel: "\<And>sel rall rfind. select_rows (full t) sel rall rfind = rall"
    using assms by (simp add: select_rows_def)
  have num: "\<And>d name run sel rall rfind.
      pool_resolves d name run sel rall rfind t \<Longrightarrow>
      \<forall>t'. run t = Inr t' \<longrightarrow> counts d (length (rows_of rall)) t t'"
    using assms by (simp add: pool_resolves_def spec_rows_def split: option.splits)
  have e1: "ExportScenes r t = pool ''scenes'' every100 (exportScene r) (Scene_All (rScene r)) t"
    by (simp add: ExportScenes_def sel)
  have e2: "ExportImages r t = pool ''images'' every100 (exportImage r) (Image_All (rImage r)) t"
    by (simp add: ExportImages_def sel)
  have e3: "ExportGalleries r t
       = pool ''galleries'' every100 (exportGallery r) (Gallery_All (rGallery r)) t"
    by (simp add: ExportGalleries_def sel)
  have e4: "ExportMovies r t = pool ''movies'' always (exportMovie r) (Movie_All (rMovie r)) t"
    by (simp add: ExportMovies_def sel)
  have e5: "ExportPerformers r t
       = pool ''performers'' always (exportPerformer r) (Performer_All (rPerformer r)) t"
    by (simp add: ExportPerformers_def sel)
  have e6: "ExportStudios r t = pool ''studios'' always (exportStudio r) (Studio_All (rStudio r)) t"
    by (simp add: ExportStudios_def sel)
  have e7: "ExportTags r t = pool ''tags'' always (exportTag r) (Tag_All (rTag r)) t"
    by (simp add: ExportTags_def sel)
  note n1 = num [OF ExportScenes_resolves [of r t]]
    and n2 = num [OF ExportImages_resolves [of r t]]
    and n3 = num [OF ExportGalleries_resolves [of r t]]
    and n4 = num [OF ExportMovies_resolves [of r t]]
    and n5 = num [OF ExportPerformers_resolves [of r t]]
    and n6 = num [OF ExportStudios_resolves [of r t]]
    and n7 = num [OF ExportTags_resolves [of r t]]
  show ?thesis
    by (intro conjI e1 e2 e3 e4 e5 e6 e7 n1 n2 n3 n4 n5 n6 n7)
qed

theorem full_export_fetches_all_witness:
  "full (demo_task (no_input\<lparr>Scenes := ids_input [''1'']\<rparr>)\<lparr>full := True\<rparr>)
   \<and> scenes (demo_task (no_input\<lparr>Scenes := ids_input [''1'']\<rparr>)\<lparr>full := True\<rparr>)
       = Some \<lparr>IDs = [1], all = False\<rparr>
   \<and> ExportScenes demo (demo_task (no_input\<lparr>Scenes := ids_input [''1'']\<rparr>)\<lparr>full := True\<rparr>)
       = pool ''scenes'' every100 (exportScene demo) (Inr demo_scenes)
           (demo_task (no_input\<lparr>Scenes := ids_input [''1'']\<rparr>)\<lparr>full := True\<rparr>)
   \<and> map_sum id (\<lambda>t'. (nerr t', tree_names t'))
        (ExportScenes demo (demo_task (no_input\<lparr>Scenes := ids_input [''1'']\<rparr>)\<lparr>full := True\<rparr>))
       = Inr (0, [(DFiles, ''a.mp4.json''), (DScenes, ''a.mp4.json''), (DScenes, ''b.mp4.json'')])"
proof -
  let ?t = "demo_task (no_input\<lparr>Scenes := ids_input [''1'']\<rparr>)\<lparr>full := True\<rparr>"
  have f: "full ?t" by simp
  have s: "scenes ?t = Some \<lparr>IDs = [1], all = False\<rparr>"
    by (simp add: task_defs atoi_simps)
  have a: "Scene_All (rScene demo) = Inr demo_scenes"
    by (simp add: demo_def demo_SceneEnv_def)
  from full_export_fetches_all [OF f, of demo, THEN conjunct1] a
  have e: "ExportScenes demo ?t = pool ''scenes'' every100 (exportScene demo) (Inr demo_scenes) ?t"
    by simp
  have v: "map_sum id (\<lambda>t'. (nerr t', tree_names t')) (ExportScenes demo ?t)
       = Inr (0, [(DFiles, ''a.mp4.json''), (DScenes, ''a.mp4.json''), (DScenes, ''b.mp4.json'')])"
    by (simp add: run_defs demo_defs task_defs atoi_simps nerr_def)
  from f s e v show ?thesis by blast
qed

text \<open>
  C6. The scene pool over the two scenes of the small library when loading the
  relationships of the first scene fails: the error is logged, and the worker goes on
  with that same scene and writes its document, so two scene documents are written for
  two scenes of which one failed.
\<close>

theorem relationship_error_not_skipped:
  "Scene_LoadRelationships (rScene demo_rel) (demo_scene 1) = Some (Err ''database is locked'')
   \<and> map_sum id (\<lambda>t. (filter is_error (trace t), tree_names t))
        (ExportScenes demo_rel (demo_task (no_input\<lparr>Scenes := ids_input [''1'', ''2'']\<rparr>)))
     = Inr ([Log LError ''[scenes] error loading scene relationships''],
            [(DFiles, ''a.mp4.json''), (DScenes, ''a.mp4.json''), (DScenes, ''b.mp4.json'')])"
  by (simp add: run_defs demo_rel_def demo_defs task_defs atoi_simps)

text \<open>
  C7. A failed fetch does not stop the export. For each of the seven pools, when the
  fetch of its rows fails the pool logs the error, announces itself and reports its
  completion, having processed no row, and returns normally, so the transaction function
  goes on to the next pool. On a task that holds all its selectors the transaction
  function returns, whatever fetch fails: after the pre-passes the seven pools run one
  after the other, each from the state the one before it has left, every pool leaves its
  two lines, and at the end the tree holds for every type, after the documents it held
  before, the documents of the rows that the pool of that type resolved when it ran, in
  their order. A pool whose fetch fails has no rows and writes nothing; the documents of
  the other types are all there.
\<close>

theorem fetch_failure_isolated:
  "(select_rows (full t) (scenes t) (Scene_All (rScene r)) (Scene_FindMany (rScene r)) = Inl e \<longrightarrow>
      ExportScenes r t = Inr (logf LInfo ''[scenes] export complete''
        (logf LInfo ''[scenes] exporting'' (logf LError ''[scenes] failed to fetch scenes'' t)))
      \<and> scene_rows r t = [])
   \<and> (select_rows (full t) (images t) (Image_All (rImage r)) (Image_FindMany (rImage r)) = Inl e \<longrightarrow>
      ExportImages r t = Inr (logf LInfo ''[images] export complete''
        (logf LInfo ''[images] exporting'' (logf LError ''[images] failed to fetch images'' t)))
      \<and> image_rows r t = [])
   \<and> (select_rows (full t) (galleries t) (Gallery_All (rGallery r))
         (Gallery_FindMany (rGallery r)) = Inl e \<longrightarrow>
      ExportGalleries r t = Inr (logf LInfo ''[galleries] export complete''
        (logf LInfo ''[galleries] exporting''
          (logf LError ''[galleries] failed to fetch galleries'' t)))
      \<and> gallery_rows r t = [])
   \<and> (select_rows (full t) (movies t) (Movie_All (rMovie r)) (Movie_FindMany (rMovie r)) = Inl e \<longrightarrow>
      ExportMovies r t = Inr (logf LInfo ''[movies] export complete''
        (logf LInfo ''[movies] exporting'' (logf LError ''[movies] failed to fetch movies'' t)))
      \<and> movie_rows r t = [])
   \<and> (select_rows (full t) (performers t) (Performer_All (rPerformer r))
         (Performer_FindMany (rPerformer r)) = Inl e \<longrightarrow>
      ExportPerformers r t = Inr (logf LInfo ''[performers] export complete''
        (logf LInfo ''[performers] exporting''
          (logf LError ''[performers] failed to fetch performers'' t)))
      \<and> performer_rows r t = [])
   \<and> (select_rows (full t) (studios t) (Studio_All (rStudio r))
         (Studio_FindMany (rStudio r)) = Inl e \<longrightarrow>
      ExportStudios r t = Inr (logf LInfo ''[studios] export complete''
        (logf LInfo ''[studios] exporting'' (logf LError ''[studios] failed to fetch studios'' t)))
      \<and> studio_rows r t = [])
   \<and> (select_rows (full t) (tags t) (Tag_All (rTag r)) (Tag_FindMany (rTag r)) = Inl e \<longrightarrow>
      ExportTags r t = Inr (logf LInfo ''[tags] export complete''
        (logf LInfo ''[tags] exporting'' (logf LError ''[tags] failed to fetch tags'' t)))
      \<and> tag_rows r t = [])
   \<and> (specs_present t \<longrightarrow>
        (\<exists>t0 t1 t2 t3 t4 t5 t6 t'.
           pre_expand r t = Inr t0 \<and> ExportScenes r t0 = Inr t1 \<and> ExportImages r t1 = Inr t2
         \<and> ExportGalleries r t2 = Inr t3 \<and> ExportMovies r t3 = Inr t4
         \<and> ExportPerformers r t4 = Inr t5 \<and> ExportStudios r t5 = Inr t6
         \<and> ExportTags r t6 = Inr t'
         \<and> txn_body r t = Inr t'
         \<and> markers (trace t') = markers (trace t) @ pre_markers t @ all_pool_lines
         \<and> docs DScenes t' = docs DScenes t
             @ List.map_filter (scene_document r (includeDependencies t)) (scene_rows r t0)
         \<and> docs DImages t' = docs DImages t
             @ List.map_filter (image_document r) (image_rows r t1)
         \<and> docs DGalleries t' = docs DGalleries t
             @ List.map_filter (gallery_document r) (gallery_rows r t2)
         \<and> docs DMovies t' = docs DMovies t
             @ List.map_filter (movie_document r) (movie_rows r t3)
         \<and> docs DPerformers t' = docs DPerformers t
             @ List.map_filter (performer_document r) (performer_rows r t4)
         \<and> docs DStudios t' = docs DStudios t
             @ List.map_filter (studio_document r) (studio_rows r t5)
         \<and> docs DTags t' = docs DTags t
             @ List.map_filter (tag_document r) (tag_rows r t6)))"
proof -
  have last: "specs_present t \<longrightarrow>
        (\<exists>t0 t1 t2 t3 t4 t5 t6 t'.
           pre_expand r t = Inr t0 \<and> ExportScenes r t0 = Inr t1 \<and> ExportImages r t1 = Inr t2
         \<and> ExportGalleries r t2 = Inr t3 \<and> ExportMovies r t3 = Inr t4
         \<and> ExportPerformers r t4 = Inr t5 \<and> ExportStudios r t5 = Inr t6
         \<and> ExportTags r t6 = Inr t'
         \<and> txn_body r t = Inr t'
         \<and> markers (trace t') = markers (trace t) @ pre_markers t @ all_pool_lines
         \<and> docs DScenes t' = docs DScenes t
             @ List.map_filter (scene_document r (includeDependencies t)) (scene_rows r t0)
         \<and> docs DImages t' = docs DImages t
             @ List.map_filter (image_document r) (image_rows r t1)
         \<and> docs DGalleries t' = docs DGalleries t
             @ List.map_filter (gallery_document r) (gallery_rows r t2)
         \<and> docs DMovies t' = docs DMovies t
             @ List.map_filter (movie_document r) (movie_rows r t3)
         \<and> docs DPerformers t' = docs DPerformers t
             @ List.map_filter (performer_document r) (performer_rows r t4)
         \<and> docs DStudios t' = docs DStudios t
             @ List.map_filter (studio_document r) (studio_rows r t5)
         \<and> docs DTags t' = docs DTags t
             @ List.map_filter (tag_document r) (tag_rows r t6))"
  proof
    assume "specs_present t"
    with txn_body_total [of t r] obtain t' where run: "txn_body r t = Inr t'" by auto
    from txn_body_effect [OF run]
    have m: "markers (trace t') = markers (trace t) @ pre_markers t @ all_pool_lines"
      by blast
    from txn_body_docs [OF run] obtain t0 t1 t2 t3 t4 t5 t6 where
      "pre_expand r t = Inr t0" "ExportScenes r t0 = Inr t1" "ExportImages r t1 = Inr t2"
      "ExportGalleries r t2 = Inr t3" "ExportMovies r t3 = Inr t4"
      "ExportPerformers r t4 = Inr t5" "ExportStudios r t5 = Inr t6" "ExportTags r t6 = Inr t'"
      "docs DScenes t' = docs DScenes t
         @ List.map_filter (scene_document r (includeDependencies t)) (scene_rows r t0)"
      "docs DImages t' = docs DImages t @ List.map_filter (image_document r) (image_rows r t1)"
      "docs DGalleries t' = docs DGalleries t
         @ List.map_filter (gallery_document r) (gallery_rows r t2)"
      "docs DMovies t' = docs DMovies t @ List.map_filter (movie_document r) (movie_rows r t3)"
      "docs DPerformers t' = docs DPerformers t
         @ List.map_filter (performer_document r) (performer_rows r t4)"
      "docs DStudios t' = docs DStudios t
         @ List.map_filter (studio_document r) (studio_rows r t5)"
      "docs DTags t' = docs DTags t @ List.map_filter (tag_document r) (tag_rows r t6)"
      by blast
    with run m show "\<exists>t0 t1 t2 t3 t4 t5 t6 t'.
           pre_expand r t = Inr t0 \<and> ExportScenes r t0 = Inr t1 \<and> ExportImages r t1 = Inr t2
         \<and> ExportGalleries r t2 = Inr t3 \<and> ExportMovies r t3 = Inr t4
         \<and> ExportPerformers r t4 = Inr t5 \<and> ExportStudios r t5 = Inr t6
         \<and> ExportTags r t6 = Inr t'
         \<and> txn_body r t = Inr t'
         \<and> markers (trace t') = markers (trace t) @ pre_markers t @ all_pool_lines
         \<and> docs DScenes t' = docs DScenes t
             @ List.map_filter (scene_document r (includeDependencies t)) (scene_rows r t0)
         \<and> docs DImages t' = docs DImages t
             @ List.map_filter (image_document r) (image_rows r t1)
         \<and> docs DGalleries t' = docs DGalleries t
             @ List.map_filter (gallery_document r) (gallery_rows r t2)
         \<and> docs DMovies t' = docs DMovies t
             @ List.map_filter (movie_document r) (movie_rows r t3)
         \<and> docs DPerformers t' = docs DPerformers t
             @ List.map_filter (performer_document r) (performer_rows r t4)
         \<and> docs DStudios t' = docs DStudios t
             @ List.map_filter (studio_document r) (studio_rows r t5)
         \<and> docs DTags t' = docs DTags t
             @ List.map_filter (tag_document r) (tag_rows r t6)"
      by blast
  qed
  show ?thesis
    by (intro conjI last) (simp_all add: ExportScenes_def ExportImages_def ExportGalleries_def
        ExportMovies_def ExportPerformers_def ExportStudios_def ExportTags_def pool_fetch_failed
        scene_rows_def image_rows_def gallery_rows_def movie_rows_def performer_rows_def
        studio_rows_def tag_rows_def spec_rows_select [symmetric] rows_of_def)
qed

theorem fetch_failure_isolated_witness:
  "select_rows False
      (scenes (demo_task (no_input\<lparr>Scenes := ids_input [''1''], Studios := all_input, Tags := all_input\<rparr>)))
      (Scene_All (rScene demo_nofetch)) (Scene_FindMany (rScene demo_nofetch))
     = Inl (Err ''database is locked'')
   \<and> ExportScenes demo_nofetch
       (demo_task (no_input\<lparr>Scenes := ids_input [''1''], Studios := all_input, Tags := all_input\<rparr>))
     = Inr (logf LInfo ''[scenes] export complete''
        (logf LInfo ''[scenes] exporting'' (logf LError ''[scenes] failed to fetch scenes''
           (demo_task (no_input\<lparr>Scenes := ids_input [''1''], Studios := all_input, Tags := all_input\<rparr>)))))
   \<and> (\<exists>t'. txn_body demo_nofetch
               (demo_task (no_input\<lparr>Scenes := ids_input [''1''], Studios := all_input, Tags := all_input\<rparr>))
             = Inr t'
         \<and> markers (trace t')
             = [Enter ''populateGalleryImages'', Leave ''populateGalleryImages''] @ all_pool_lines
         \<and> docs DScenes t' = []
         \<and> docs DStudios t'
             = [(''Studio.json'', DocStudio ''Studio''), (''Other.json'', DocStudio ''Other'')]
         \<and> docs DTags t' = [(''Tag.json'', DocTag ''Tag'')])"
proof -
  let ?t = "demo_task (no_input\<lparr>Scenes := ids_input [''1''], Studios := all_input, Tags := all_input\<rparr>)"
  note th = fetch_failure_isolated [of ?t demo_nofetch "Err ''database is locked''"]
  have f: "\<not> full ?t" by (rule demo_task_partial)
  have sel: "select_rows (full ?t) (scenes ?t)
      (Scene_All (rScene demo_nofetch)) (Scene_FindMany (rScene demo_nofetch))
     = Inl (Err ''database is locked'')"
    by (simp add: select_rows_def spec_all_def task_defs atoi_simps demo_nofetch_def demo_def)
  from th [THEN conjunct1] sel
  have a: "ExportScenes demo_nofetch ?t = Inr (logf LInfo ''[scenes] export complete''
        (logf LInfo ''[scenes] exporting'' (logf LError ''[scenes] failed to fetch scenes'' ?t)))"
    by simp
  have pm: "pre_markers ?t = [Enter ''populateGalleryImages'', Leave ''populateGalleryImages'']"
    by (simp add: pre_markers_def spec_all_def task_defs)
  from th [THEN conjunct2, THEN conjunct2, THEN conjunct2, THEN conjunct2, THEN conjunct2,
    THEN conjunct2, THEN conjunct2]
    demo_task_present [of "no_input\<lparr>Scenes := ids_input [''1''], Studios := all_input, Tags := all_input\<rparr>"]
  obtain t' where run: "txn_body demo_nofetch ?t = Inr t'"
    and m: "markers (trace t') = markers (trace ?t) @ pre_markers ?t @ all_pool_lines"
    by blast
  have v: "map_sum id (\<lambda>t. (docs DScenes t, docs DStudios t, docs DTags t))
             (txn_body demo_nofetch ?t)
      = Inr ([], [(''Studio.json'', DocStudio ''Studio''), (''Other.json'', DocStudio ''Other'')],
             [(''Tag.json'', DocTag ''Tag'')])"
    by (simp add: run_defs docs_def demo_nofetch_def demo_defs task_defs atoi_simps)
  with run have tn: "docs DScenes t' = []"
    "docs DStudios t' = [(''Studio.json'', DocStudio ''Studio''), (''Other.json'', DocStudio ''Other'')]"
    "docs DTags t' = [(''Tag.json'', DocTag ''Tag'')]"
    by simp_all
  from m pm have m': "markers (trace t')
             = [Enter ''populateGalleryImages'', Leave ''populateGalleryImages''] @ all_pool_lines"
    by (simp add: demo_task_trace)
  from sel f a run m' tn show ?thesis by auto
qed

text \<open>
  C8. Inside the transaction every marker line of the pre-passes comes before the first
  line of a pool, and the pools follow one another in the order scenes, images,
  galleries, movies, performers, studios, tags, each reporting its completion before
  the next announces itself. The transaction body returns whenever the task holds all
  seven selectors.
\<close>

theorem pools_in_order:
  "(specs_present t \<longrightarrow> (\<exists>t1. txn_body r t = Inr t1))
   \<and> (txn_body r t = Inr t' \<longrightarrow>
        (\<exists>pre. set pre \<subseteq> {Enter ''populateMovieScenes'', Leave ''populateMovieScenes'',
                           Enter ''populateGalleryImages'', Leave ''populateGalleryImages''}
           \<and> markers (trace t') = markers (trace t) @ pre
               @ [Log LInfo ''[scenes] exporting'', Log LInfo ''[scenes] export complete'',
                  Log LInfo ''[images] exporting'', Log LInfo ''[images] export complete'',
                  Log LInfo ''[galleries] exporting'', Log LInfo ''[galleries] export complete'',
                  Log LInfo ''[movies] exporting'', Log LInfo ''[movies] export complete'',
                  Log LInfo ''[performers] exporting'', Log LInfo ''[performers] export complete'',
                  Log LInfo ''[studios] exporting'', Log LInfo ''[studios] export complete'',
                  Log LInfo ''[tags] exporting'', Log LInfo ''[tags] export complete'']))"
proof (intro conjI impI)
  assume "specs_present t"
  then show "\<exists>t1. txn_body r t = Inr t1" using txn_body_total [of t r] by simp
next
  assume "txn_body r t = Inr t'"
  from txn_body_effect [OF this]
  have m: "markers (trace t') = markers (trace t) @ pre_markers t @ all_pool_lines" by blast
  have s: "set (pre_markers t) \<subseteq> {Enter ''populateMovieScenes'', Leave ''populateMovieScenes'',
                           Enter ''populateGalleryImages'', Leave ''populateGalleryImages''}"
    by (auto simp: pre_markers_def)
  show "\<exists>pre. set pre \<subseteq> {Enter ''populateMovieScenes'', Leave ''populateMovieScenes'',
                           Enter ''populateGalleryImages'', Leave ''populateGalleryImages''}
           \<and> markers (trace t') = markers (trace t) @ pre
               @ [Log LInfo ''[scenes] exporting'', Log LInfo ''[scenes] export complete'',
                  Log LInfo ''[images] exporting'', Log LInfo ''[images] export complete'',
                  Log LInfo ''[galleries] exporting'', Log LInfo ''[galleries] export complete'',
                  Log LInfo ''[movies] exporting'', Log LInfo ''[movies] export complete'',
                  Log LInfo ''[performers] exporting'', Log LInfo ''[performers] export complete'',
                  Log LInfo ''[studios] exporting'', Log LInfo ''[studios] export complete'',
                  Log LInfo ''[tags] exporting'', Log LInfo ''[tags] export complete'']"
    using m s by (intro exI [of _ "pre_markers t"]) (simp add: all_pool_lines_def pool_lines_def)
qed

theorem pools_in_order_witness:
  "\<exists>t'. txn_body demo (demo_task (no_input\<lparr>Scenes := ids_input [''1'']\<rparr>)) = Inr t'
     \<and> (\<exists>pre. set pre \<subseteq> {Enter ''populateMovieScenes'', Leave ''populateMovieScenes'',
                           Enter ''populateGalleryImages'', Leave ''populateGalleryImages''}
           \<and> markers (trace t') = pre
               @ [Log LInfo ''[scenes] exporting'', Log LInfo ''[scenes] export complete'',
                  Log LInfo ''[images] exporting'', Log LInfo ''[images] export complete'',
                  Log LInfo ''[galleries] exporting'', Log LInfo ''[galleries] export complete'',
                  Log LInfo ''[movies] exporting'', Log LInfo ''[movies] export complete'',
                  Log LInfo ''[performers] exporting'', Log LInfo ''[performers] export complete'',
                  Log LInfo ''[studios] exporting'', Log LInfo ''[studios] export complete'',
                  Log LInfo ''[tags] exporting'', Log LInfo ''[tags] export complete''])"
proof -
  let ?t = "demo_task (no_input\<lparr>Scenes := ids_input [''1'']\<rparr>)"
  from pools_in_order [of ?t demo] demo_task_present obtain t1 where
    run: "txn_body demo ?t = Inr t1" by blast
  from pools_in_order [of ?t demo t1] run demo_task_trace [of "no_input\<lparr>Scenes := ids_input [''1'']\<rparr>"]
  show ?thesis by (intro exI [of _ t1]) simp
qed

text \<open>
  C9. Scenes of the movies in scope. For a partial export that holds all its selectors
  and whose scene selector is not select-all, the transaction body returns, and the scene
  selector it leaves is the one the scene pool resolved its rows from. Without
  \<^verbatim>\<open>includeDependencies\<close> that selector is the caller's, unchanged. With it, the ids are
  the caller's ids followed by additions: as a set, the caller's ids together with the
  scene ids of every movie in scope (the movies the movie selector resolves to, leaving
  out a movie whose scene lookup fails); no id is added twice and none that is already
  listed, so ids that were distinct stay distinct.
\<close>

theorem movie_scenes_closure:
  assumes "\<not> full t" and "specs_present t" and "scenes t = Some sc" and "\<not> all sc"
  shows "\<exists>t0 t' sc'. pre_expand r t = Inr t0 \<and> pools r t0 = Inr t' \<and> txn_body r t = Inr t'
           \<and> scenes t0 = Some sc' \<and> scenes t' = Some sc' \<and> all sc' = all sc
           \<and> ExportScenes r t0 =
                 pool ''scenes'' every100 (exportScene r)
                   (if IDs sc' = [] then Inr [] else Scene_FindMany (rScene r) (IDs sc')) t0
           \<and> (\<not> includeDependencies t \<longrightarrow> sc' = sc)
           \<and> (includeDependencies t \<longrightarrow>
                set (IDs sc') = set (IDs sc)
                  \<union> set (movie_scene_ids r (rows_of (select_rows False (movies t)
                           (Movie_All (rMovie r)) (Movie_FindMany (rMovie r)))))
                \<and> (distinct (IDs sc) \<longrightarrow> distinct (IDs sc')))"
proof -
  from txn_body_total [of t r] assms(2) obtain t' where run: "txn_body r t = Inr t'" by auto
  from txn_body_effect [OF run] obtain t0 where
    p: "pre_expand r t = Inr t0" and q: "pools r t0 = Inr t'" and s: "scenes t' = scenes t0"
    by blast
  let ?ids = "movie_scene_ids r (rows_of (select_rows False (movies t)
                           (Movie_All (rMovie r)) (Movie_FindMany (rMovie r))))"
  let ?sc' = "if includeDependencies t then sc\<lparr>IDs := AppendUniques (IDs sc) ?ids\<rparr> else sc"
  from pre_expand_effect [OF p] assms have s0: "scenes t0 = Some ?sc'"
    by (simp add: spec_all_def)
  from pre_expand_effect [OF p] assms(1) have f0: "\<not> full t0"
    by (simp add: base_def)
  have e: "ExportScenes r t0 =
             pool ''scenes'' every100 (exportScene r)
               (if IDs ?sc' = [] then Inr [] else Scene_FindMany (rScene r) (IDs ?sc')) t0"
    using f0 s0 assms(4) by (simp add: ExportScenes_def select_rows_def spec_all_def)
  show ?thesis
    using run p q s s0 e
    by (intro exI [of _ t0] exI [of _ t'] exI [of _ ?sc']) (simp add: distinct_AppendUniques)
qed

theorem movie_scenes_closure_witness:
  "(\<exists>t' sc'. txn_body demo (demo_task (no_input\<lparr>Scenes := ids_input [''2''],
                  Movies := ids_input [''5''], IncludeDependencies := Some True\<rparr>)) = Inr t'
        \<and> scenes t' = Some sc' \<and> set (IDs sc') = {1, 2} \<and> distinct (IDs sc'))
   \<and> (\<exists>t'. txn_body demo (demo_task (no_input\<lparr>Scenes := ids_input [''2''],
                  Movies := ids_input [''5'']\<rparr>)) = Inr t'
        \<and> scenes t' = Some \<lparr>IDs = [2], all = False\<rparr>)"
proof -
  let ?a = "demo_task (no_input\<lparr>Scenes := ids_input [''2''],
                  Movies := ids_input [''5''], IncludeDependencies := Some True\<rparr>)"
  let ?b = "demo_task (no_input\<lparr>Scenes := ids_input [''2''], Movies := ids_input [''5'']\<rparr>)"
  let ?sc = "\<lparr>IDs = [2], all = False\<rparr>"
  have pa: "scenes ?a = Some ?sc" "includeDependencies ?a"
    "movie_scene_ids demo (rows_of (select_rows False (movies ?a)
        (Movie_All (rMovie demo)) (Movie_FindMany (rMovie demo)))) = [1, 2]"
    by (simp_all add: task_defs atoi_simps movie_scene_ids_def rows_of_def select_rows_def
        spec_all_def demo_defs)
  have pb: "scenes ?b = Some ?sc" "\<not> includeDependencies ?b"
    by (simp_all add: task_defs atoi_simps)
  have sc: "\<not> all ?sc" "distinct (IDs ?sc)" by simp_all
  from movie_scenes_closure [OF demo_task_partial demo_task_present pa(1) sc(1), of demo] pa(2,3) sc(2)
  have A: "\<exists>t' sc'. txn_body demo ?a = Inr t'
        \<and> scenes t' = Some sc' \<and> set (IDs sc') = {1, 2} \<and> distinct (IDs sc')"
    by auto
  from movie_scenes_closure [OF demo_task_partial demo_task_present pb(1) sc(1), of demo] pb(2)
  have B: "\<exists>t'. txn_body demo ?b = Inr t' \<and> scenes t' = Some ?sc"
    by auto
  from A B show ?thesis by blast
qed

text \<open>
  C10. \<^verbatim>\<open>newExportSpec\<close> maps a nil input to the empty selector (no ids, not select-all).
  For a given input it keeps whatever ids the conversion helper returned and ignores the
  helper's error, and it copies the \<^verbatim>\<open>all\<close> flag when one is given. With a helper that
  returns only ids parsed from its input strings, no string that fails to parse
  contributes an id; a selector built from strings none of which parses has no ids, and
  unless it is flagged select-all a pool of a partial export resolves it to zero rows
  without fetching.
\<close>

theorem newExportSpec_selector:
  "newExportSpec conv None = \<lparr>IDs = [], all = False\<rparr>
   \<and> IDs (newExportSpec conv (Some inp)) = fst (conv (Ids inp))
   \<and> all (newExportSpec conv (Some inp)) = (case All inp of None \<Rightarrow> False | Some b \<Rightarrow> b)
   \<and> (parses_only conv \<longrightarrow>
        (\<forall>i \<in> set (IDs (newExportSpec conv (Some inp))). \<exists>s \<in> set (Ids inp). Atoi s = Some i)
        \<and> ((\<forall>s \<in> set (Ids inp). Atoi s = None) \<longrightarrow>
             IDs (newExportSpec conv (Some inp)) = []
             \<and> (All inp \<noteq> Some True \<longrightarrow>
                  select_rows False (Some (newExportSpec conv (Some inp))) rall rfind = Inr [])))"
proof -
  have ids: "IDs (newExportSpec conv (Some inp)) = fst (conv (Ids inp))"
    by (simp add: newExportSpec_def Let_def split: option.splits)
  have al: "all (newExportSpec conv (Some inp)) = (case All inp of None \<Rightarrow> False | Some b \<Rightarrow> b)"
    by (simp add: newExportSpec_def Let_def split: option.splits)
  have nil: "newExportSpec conv None = \<lparr>IDs = [], all = False\<rparr>"
    by (simp add: newExportSpec_def)
  {
    assume po: "parses_only conv"
    have sub: "\<forall>i \<in> set (fst (conv (Ids inp))). \<exists>s \<in> set (Ids inp). Atoi s = Some i"
      using po unfolding parses_only_def by blast
    {
      assume none: "\<forall>s \<in> set (Ids inp). Atoi s = None"
      have "set (fst (conv (Ids inp))) = {}"
        using sub none by fastforce
      then have e: "IDs (newExportSpec conv (Some inp)) = []"
        using ids by simp
      {
        assume "All inp \<noteq> Some True"
        then have "\<not> all (newExportSpec conv (Some inp))"
          using al by (cases "All inp") auto
        then have "select_rows False (Some (newExportSpec conv (Some inp))) rall rfind = Inr []"
          using e by (rule select_rows_empty)
      }
      with e have "IDs (newExportSpec conv (Some inp)) = []
             \<and> (All inp \<noteq> Some True \<longrightarrow>
                  select_rows False (Some (newExportSpec conv (Some inp))) rall rfind = Inr [])"
        by blast
    }
    with sub ids
    have "(\<forall>i \<in> set (IDs (newExportSpec conv (Some inp))). \<exists>s \<in> set (Ids inp). Atoi s = Some i)
        \<and> ((\<forall>s \<in> set (Ids inp). Atoi s = None) \<longrightarrow>
             IDs (newExportSpec conv (Some inp)) = []
             \<and> (All inp \<noteq> Some True \<longrightarrow>
                  select_rows False (Some (newExportSpec conv (Some inp))) rall rfind = Inr []))"
      by simp
  }
  with nil ids al show ?thesis by blast
qed

theorem newExportSpec_selector_witness:
  "parses_only conv_strict \<and> Atoi ''abc'' = None \<and> Atoi ''x1'' = None
   \<and> newExportSpec conv_strict None = \<lparr>IDs = [], all = False\<rparr>
   \<and> IDs (newExportSpec conv_strict (Some \<lparr>Ids = [''abc'', ''x1''], All = None\<rparr>)) = []
   \<and> select_rows False
        (Some (newExportSpec conv_strict (Some \<lparr>Ids = [''abc'', ''x1''], All = None\<rparr>)))
        (Inr [1::nat]) (\<lambda>ids. Inr [2]) = Inr []"
proof -
  let ?inp = "\<lparr>Ids = [''abc'', ''x1''], All = None\<rparr>"
  note th = newExportSpec_selector [of conv_strict ?inp "Inr [1::nat]" "\<lambda>ids. Inr [2]"]
  have none: "\<forall>s \<in> set (Ids ?inp). Atoi s = None"
    using atoi_abc atoi_x1 by simp
  have a: "All ?inp \<noteq> Some True"
    by simp
  from th parses_only_conv_strict none a
  have "newExportSpec conv_strict None = \<lparr>IDs = [], all = False\<rparr>
    \<and> IDs (newExportSpec conv_strict (Some ?inp)) = []
    \<and> select_rows False (Some (newExportSpec conv_strict (Some ?inp)))
         (Inr [1::nat]) (\<lambda>ids. Inr [2]) = Inr []"
    by blast
  with parses_only_conv_strict atoi_abc atoi_x1 show ?thesis by blast
qed

end
